(* ===== verification/Prelude.thy ===== *)
theory Prelude
  imports Complex_Main "HOL-Library.Monad_Syntax" "HOL-Library.Multiset" "HOL-Library.Log_Nat"
begin

text \<open>
  Shared vocabulary of the ray tracer model. The C++ code computes with \<open>glm::vec3\<close>
  (three \<open>float\<close>s) for points, directions and RGB colours. Floats are modelled as exact
  real numbers (rounding is not modelled); where the code divides by zero or reads a
  NaN the model writes out the IEEE outcome the code relies on, at the place it matters.
  This theory holds the vector record, the glm operations the code calls
  (\<open>+\<close>, \<open>-\<close>, scalar and component-wise product, \<open>dot\<close>, \<open>cross\<close>, \<open>length\<close>,
  \<open>normalize\<close>, \<open>clamp\<close>, indexing \<open>v[i]\<close>), the collection \<open>vec_simps\<close> that unfolds
  them component-wise, and the generic lemmas the components share.
\<close>

section \<open>Vectors and colours\<close>

record vec3 =
  vx :: real
  vy :: real
  vz :: real

type_synonym rgb = vec3

abbreviation Vec :: "real \<Rightarrow> real \<Rightarrow> real \<Rightarrow> vec3" where
  "Vec a b c \<equiv> \<lparr>vx = a, vy = b, vz = c\<rparr>"

named_theorems vec_simps "component-wise unfolding of the glm vector operations"

definition vadd :: "vec3 \<Rightarrow> vec3 \<Rightarrow> vec3" where
  [vec_simps]: "vadd a b = Vec (vx a + vx b) (vy a + vy b) (vz a + vz b)"

definition vsub :: "vec3 \<Rightarrow> vec3 \<Rightarrow> vec3" where
  [vec_simps]: "vsub a b = Vec (vx a - vx b) (vy a - vy b) (vz a - vz b)"

definition vneg :: "vec3 \<Rightarrow> vec3" where
  [vec_simps]: "vneg a = Vec (- vx a) (- vy a) (- vz a)"

definition smul :: "real \<Rightarrow> vec3 \<Rightarrow> vec3" where
  [vec_simps]: "smul s a = Vec (s * vx a) (s * vy a) (s * vz a)"

text \<open>Component-wise product, glm's \<open>operator*\<close> on two \<open>vec3\<close> (colour times colour).\<close>

definition vmul :: "vec3 \<Rightarrow> vec3 \<Rightarrow> vec3" where
  [vec_simps]: "vmul a b = Vec (vx a * vx b) (vy a * vy b) (vz a * vz b)"

definition dot :: "vec3 \<Rightarrow> vec3 \<Rightarrow> real" where
  [vec_simps]: "dot a b = vx a * vx b + vy a * vy b + vz a * vz b"

definition cross :: "vec3 \<Rightarrow> vec3 \<Rightarrow> vec3" where
  [vec_simps]: "cross a b =
     Vec (vy a * vz b - vz a * vy b) (vz a * vx b - vx a * vz b) (vx a * vy b - vy a * vx b)"

definition vlength :: "vec3 \<Rightarrow> real" where
  "vlength a = sqrt (dot a a)"

text \<open>
  \<open>glm::normalize v\<close> is \<open>v * inversesqrt (dot v v)\<close>. On the zero vector IEEE gives
  NaN components; HOL's \<open>1 / 0 = 0\<close> gives the zero vector. No theorem below
  normalizes a zero vector.
\<close>

definition normalize :: "vec3 \<Rightarrow> vec3" where
  "normalize a = smul (1 / sqrt (dot a a)) a"

text \<open>\<open>glm::clamp (x, lo, hi)\<close> is \<open>min (max x lo) hi\<close> in every component.\<close>

definition fclamp :: "real \<Rightarrow> real \<Rightarrow> real \<Rightarrow> real" where
  "fclamp x lo hi = min (max x lo) hi"

definition vclamp :: "vec3 \<Rightarrow> real \<Rightarrow> real \<Rightarrow> vec3" where
  [vec_simps]: "vclamp a lo hi = Vec (fclamp (vx a) lo hi) (fclamp (vy a) lo hi) (fclamp (vz a) lo hi)"

text \<open>\<open>v[i]\<close> for the axes \<open>0, 1, 2\<close> the code indexes.\<close>

definition vidx :: "vec3 \<Rightarrow> nat \<Rightarrow> real" where
  "vidx a i = (if i = 0 then vx a else if i = 1 then vy a else vz a)"

definition vmin :: "vec3 \<Rightarrow> vec3 \<Rightarrow> vec3" where
  [vec_simps]: "vmin a b = Vec (min (vx a) (vx b)) (min (vy a) (vy b)) (min (vz a) (vz b))"

definition vmax :: "vec3 \<Rightarrow> vec3 \<Rightarrow> vec3" where
  [vec_simps]: "vmax a b = Vec (max (vx a) (vx b)) (max (vy a) (vy b)) (max (vz a) (vz b))"

definition vconst :: "real \<Rightarrow> vec3" where
  [vec_simps]: "vconst c = Vec c c c"

text \<open>Component-wise order on vectors: the box relation of the BVH.\<close>

definition vle :: "vec3 \<Rightarrow> vec3 \<Rightarrow> bool" where
  [vec_simps]: "vle a b \<longleftrightarrow> vx a \<le> vx b \<and> vy a \<le> vy b \<and> vz a \<le> vz b"

text \<open>A colour in the displayable range, every channel in \<open>[0, 1]\<close>.\<close>

definition in_unit :: "rgb \<Rightarrow> bool" where
  [vec_simps]: "in_unit c \<longleftrightarrow> vle (vconst 0) c \<and> vle c (vconst 1)"

section \<open>Shared lemmas\<close>

lemma vidx_simps [simp]:
  "vidx a 0 = vx a" "vidx a (Suc 0) = vy a" "vidx a 2 = vz a"
  by (simp_all add: vidx_def)

lemma vle_refl [simp, intro]: "vle a a"
  by (simp add: vle_def)

lemma vle_trans [trans]: "vle a b \<Longrightarrow> vle b c \<Longrightarrow> vle a c"
  by (auto simp: vle_def)

lemma vle_vidx: "vle a b \<longleftrightarrow> (\<forall>i<3. vidx a i \<le> vidx b i)"
proof
  assume "vle a b"
  then show "\<forall>i<3. vidx a i \<le> vidx b i"
    by (auto simp: vle_def vidx_def)
next
  assume h: "\<forall>i<3. vidx a i \<le> vidx b i"
  from h[rule_format, of 0] h[rule_format, of 1] h[rule_format, of 2]
  show "vle a b" by (simp add: vle_def vidx_def)
qed

lemma vmin_le [simp, intro]: "vle (vmin a b) a" "vle (vmin a b) b"
  by (simp_all add: vle_def vmin_def)

lemma vmax_ge [simp, intro]: "vle a (vmax a b)" "vle b (vmax a b)"
  by (simp_all add: vle_def vmax_def)

lemma vmin_glb: "vle c a \<Longrightarrow> vle c b \<Longrightarrow> vle c (vmin a b)"
  by (simp add: vle_def vmin_def)

lemma vmax_lub: "vle a c \<Longrightarrow> vle b c \<Longrightarrow> vle (vmax a b) c"
  by (simp add: vle_def vmax_def)

lemma vle_vmin_iff [simp]: "vle c (vmin a b) \<longleftrightarrow> vle c a \<and> vle c b"
  by (auto simp: vle_def vmin_def)

lemma vmax_vle_iff [simp]: "vle (vmax a b) c \<longleftrightarrow> vle a c \<and> vle b c"
  by (auto simp: vle_def vmax_def)

lemma vmin_mono: "vle a b \<Longrightarrow> vle (vmin a c) (vmin b c)"
  by (auto simp: vle_def vmin_def)

lemma vmax_mono: "vle a b \<Longrightarrow> vle (vmax a c) (vmax b c)"
  by (auto simp: vle_def vmax_def)

lemma fclamp_range: "lo \<le> hi \<Longrightarrow> lo \<le> fclamp x lo hi \<and> fclamp x lo hi \<le> hi"
  by (simp add: fclamp_def)

lemma fclamp_id: "lo \<le> x \<Longrightarrow> x \<le> hi \<Longrightarrow> fclamp x lo hi = x"
  by (simp add: fclamp_def)

lemma in_unit_vclamp [simp, intro]: "in_unit (vclamp a 0 1)"
  by (simp add: in_unit_def vle_def vconst_def vclamp_def fclamp_def)

lemma in_unit_vconst [simp]: "0 \<le> k \<Longrightarrow> k \<le> 1 \<Longrightarrow> in_unit (vconst k)"
  by (simp add: in_unit_def vle_def vconst_def)

lemma vclamp_in_unit: "in_unit a \<Longrightarrow> vclamp a 0 1 = a"
  by (simp add: in_unit_def vle_def vconst_def vclamp_def fclamp_def)

lemma dot_self_nonneg [simp]: "0 \<le> dot a a"
  by (simp add: dot_def)

lemma sq_le_sq_bound: "0 \<le> (r::real) \<Longrightarrow> x\<^sup>2 \<le> r\<^sup>2 \<Longrightarrow> - r \<le> x \<and> x \<le> r"
  using abs_le_square_iff [of x r] by auto

lemma convex3_le_max:
  fixes x y z :: real
  assumes "0 \<le> a" "0 \<le> b" "0 \<le> c" "a + b + c = 1"
  shows "a * x + b * y + c * z \<le> max x (max y z)"
proof -
  let ?M = "max x (max y z)"
  have "a * x + b * y + c * z \<le> a * ?M + b * ?M + c * ?M"
    using assms by (intro add_mono mult_left_mono) auto
  also have "\<dots> = ?M" using assms(4) by (simp flip: distrib_right)
  finally show ?thesis .
qed

lemma convex3_ge_min:
  fixes x y z :: real
  assumes "0 \<le> a" "0 \<le> b" "0 \<le> c" "a + b + c = 1"
  shows "min x (min y z) \<le> a * x + b * y + c * z"
proof -
  let ?m = "min x (min y z)"
  have "?m = a * ?m + b * ?m + c * ?m" using assms(4) by (simp flip: distrib_right)
  also have "\<dots> \<le> a * x + b * y + c * z"
    using assms by (intro add_mono mult_left_mono) auto
  finally show ?thesis .
qed

lemma dot_self_eq_0: "dot a a = 0 \<longleftrightarrow> vx a = 0 \<and> vy a = 0 \<and> vz a = 0"
proof -
  have "0 \<le> vx a * vx a" "0 \<le> vy a * vy a" "0 \<le> vz a * vz a" by simp_all
  then show ?thesis by (auto simp: dot_def add_nonneg_eq_0_iff)
qed

lemma dot_self_pos: "0 < dot a a \<longleftrightarrow> \<not> (vx a = 0 \<and> vy a = 0 \<and> vz a = 0)"
  using dot_self_nonneg [of a] dot_self_eq_0 [of a] by linarith

lemma dot_zero_left: "vx a = 0 \<and> vy a = 0 \<and> vz a = 0 \<Longrightarrow> dot a b = 0"
  by (simp add: dot_def)

lemma dot_smul_left [simp]: "dot (smul k u) v = k * dot u v"
  by (simp add: vec_simps algebra_simps)

lemma dot_smul_right [simp]: "dot u (smul k v) = k * dot u v"
  by (simp add: vec_simps algebra_simps)

lemma dot_normalize_self: "dot a (normalize a) = sqrt (dot a a)"
proof -
  have "dot a (normalize a) = dot a a / sqrt (dot a a)"
    by (simp add: normalize_def)
  also have "\<dots> = sqrt (dot a a)"
    using dot_self_nonneg [of a] by (metis real_div_sqrt)
  finally show ?thesis .
qed

lemma weights_sum_one:
  fixes x y z :: real
  assumes "0 < x + y + z"
  shows "y / (x + y + z) + z / (x + y + z) + x / (x + y + z) = 1"
proof -
  have "y / (x + y + z) + z / (x + y + z) + x / (x + y + z) = (y + z + x) / (x + y + z)"
    by (simp only: add_divide_distrib)
  also have "\<dots> = 1" using assms by (simp add: ac_simps)
  finally show ?thesis .
qed

lemma dot_comm: "dot a b = dot b a"
  by (simp add: dot_def algebra_simps)

lemma dot_vsub_left: "dot (vsub a b) c = dot a c - dot b c"
  by (simp add: vec_simps algebra_simps)

lemma dot_vsub_right: "dot c (vsub a b) = dot c a - dot c b"
  by (simp add: vec_simps algebra_simps)

lemma dot_vneg_left: "dot (vneg a) b = - dot a b"
  by (simp add: vec_simps)

lemma dot_vneg_right: "dot a (vneg b) = - dot a b"
  by (simp add: vec_simps)

lemma vneg_vneg [simp]: "vneg (vneg a) = a"
  by (simp add: vneg_def)

lemma dot_normalize_normalize:
  "\<not> (vx a = 0 \<and> vy a = 0 \<and> vz a = 0) \<Longrightarrow> dot (normalize a) (normalize a) = 1"
  using dot_self_pos [of a] by (simp add: normalize_def dot_comm [of a "smul _ a"])

lemma vlength_zero [simp]: "vlength (vconst 0) = 0"
  by (simp add: vlength_def vec_simps)

text \<open>Bilinearity of \<open>dot\<close>, for proofs about reflected and refracted directions.\<close>

lemmas dot_linear = dot_vsub_left dot_vsub_right dot_vneg_left dot_vneg_right dot_smul_left dot_smul_right

section \<open>Lists and options\<close>

lemma take_half_nonempty: "2 \<le> length xs \<Longrightarrow> take (length xs div 2) xs \<noteq> []"
  by (cases xs) auto

lemma drop_half_nonempty: "drop (length xs div 2) xs \<noteq> [] \<longleftrightarrow> xs \<noteq> []"
  by (cases xs) auto

lemma length_take_half_less: "2 \<le> length xs \<Longrightarrow> length (take (length xs div 2) xs) < length xs"
  by simp

lemma length_drop_half_less: "2 \<le> length xs \<Longrightarrow> length (drop (length xs div 2) xs) < length xs"
  by simp

lemma mset_take_drop: "mset (take n xs) + mset (drop n xs) = mset xs"
  by (simp flip: mset_append)

end
