(* ===== verification/Scene.thy ===== *)
theory Scene
  imports Prelude
begin

text \<open>
  The scene data of \<open>src/src/schema.h\<close> and the configuration constants of
  \<open>src/src/raytracer.cpp\<close>. The C++ code tags every \<open>Object\<close> and \<open>Light\<close> with a
  type string and down-casts on it; here each class hierarchy is one datatype whose
  constructors are the subclasses, with the subclass fields as arguments.
\<close>

section \<open>Materials, primitives and lights (schema.h)\<close>

record material =
  ambient :: rgb
  diffuse :: rgb
  specular :: rgb
  shininess :: real
  reflective :: rgb
  transmissive :: rgb
  refraction :: real

text \<open>The default constructor \<open>Material()\<close>.\<close>

definition default_material :: material where
  "default_material =
     \<lparr>ambient = vconst 0, diffuse = vconst 0, specular = vconst 0, shininess = 1,
      reflective = vconst 0, transmissive = vconst 0, refraction = 0\<rparr>"

text \<open>\<open>struct Triangle { Vertex vertices[3]; }\<close>\<close>

datatype triangle = Triangle (tv0: vec3) (tv1: vec3) (tv2: vec3)

text \<open>
  \<open>Sphere\<close> (material, radius, position), \<open>Plane\<close> (material, position, normal),
  \<open>Mesh\<close> (material, triangles) and \<open>MTriangle\<close> (material, triangle, midPoint): the
  mesh triangle that \<open>buildBVH\<close> creates for each triangle of a mesh.
\<close>

datatype object =
    Sphere material real vec3
  | Plane material vec3 vec3
  | Mesh material "triangle list"
  | MTriangle material triangle vec3

fun obj_material :: "object \<Rightarrow> material" where
  "obj_material (Sphere m _ _) = m"
| "obj_material (Plane m _ _) = m"
| "obj_material (Mesh m _) = m"
| "obj_material (MTriangle m _ _) = m"

text \<open>
  \<open>AmbientLight\<close> (colour), \<open>DirectionalLight\<close> (colour, direction), \<open>PointLight\<close>
  (colour, position), \<open>SpotLight\<close> (colour, position, direction, cutoff in degrees).
\<close>

datatype Light =
    AmbientLight rgb
  | DirectionalLight rgb vec3
  | PointLight rgb vec3
  | SpotLight rgb vec3 vec3 real

fun light_color :: "Light \<Rightarrow> rgb" where
  "light_color (AmbientLight c) = c"
| "light_color (DirectionalLight c _) = c"
| "light_color (PointLight c _) = c"
| "light_color (SpotLight c _ _ _) = c"

record camera =
  field :: real
  background :: rgb

record scene =
  camera :: camera
  objects :: "object list"
  lights :: "Light list"

section \<open>Configuration constants (raytracer.cpp, lines 22-42)\<close>

definition SELF_HIT :: real where
  "SELF_HIT = 2 / 1000"

definition MAX_R_DEPTH :: nat where
  "MAX_R_DEPTH = 8"

text \<open>The feature switches, with the values the code compiles with.\<close>

definition DISABLE_AMBIENT :: bool where "DISABLE_AMBIENT = False"
definition DISABLE_DIFFUSE :: bool where "DISABLE_DIFFUSE = False"
definition DISABLE_SPECULAR :: bool where "DISABLE_SPECULAR = False"
definition DISABLE_SHADOW :: bool where "DISABLE_SHADOW = False"
definition DISABLE_REFLECTION :: bool where "DISABLE_REFLECTION = False"
definition DISABLE_TRANSMISSION :: bool where "DISABLE_TRANSMISSION = False"
definition DISABLE_REFRACTION :: bool where "DISABLE_REFRACTION = False"
definition DISABLE_SHADOW_TRANSPARENCY :: bool where "DISABLE_SHADOW_TRANSPARENCY = False"
definition DISABLE_BVH_ACCELERATION :: bool where "DISABLE_BVH_ACCELERATION = False"
definition DISABLE_SCHLICKREFRACTION :: bool where "DISABLE_SCHLICKREFRACTION = False"
definition ALLOW_HIT_MESH_BACK :: bool where "ALLOW_HIT_MESH_BACK = True"

named_theorems config_simps "the compiled values of the feature switches"

declare SELF_HIT_def [config_simps] MAX_R_DEPTH_def [config_simps]
  DISABLE_AMBIENT_def [config_simps] DISABLE_DIFFUSE_def [config_simps]
  DISABLE_SPECULAR_def [config_simps] DISABLE_SHADOW_def [config_simps]
  DISABLE_REFLECTION_def [config_simps] DISABLE_TRANSMISSION_def [config_simps]
  DISABLE_REFRACTION_def [config_simps] DISABLE_SHADOW_TRANSPARENCY_def [config_simps]
  DISABLE_BVH_ACCELERATION_def [config_simps] DISABLE_SCHLICKREFRACTION_def [config_simps]
  ALLOW_HIT_MESH_BACK_def [config_simps]

text \<open>The bound \<open>1e30\<close> the code uses as "infinity" in box computations.\<close>

definition BIG :: real where
  "BIG = 10 ^ 30"

lemma SELF_HIT_pos [simp]: "0 < SELF_HIT"
  by (simp add: SELF_HIT_def)

lemma BIG_pos [simp]: "0 < BIG"
  by (simp add: BIG_def)

end
