(* ===== verification/BVH_Build.thy ===== *)
theory BVH_Build
  imports Scene
begin

text \<open>
  The BVH builder of \<open>src/src/bvh.cpp\<close>: \<open>compareAxis\<close>, \<open>subdivide\<close> and
  \<open>buildBVH\<close>. A work item is the C++ tuple \<open>(Object*, minBound, maxBound)\<close>. A node
  is the C++ \<open>BVHNode\<close>: a leaf when its \<open>obj\<close> is set, otherwise an inner node with
  two children; both carry their box. \<open>subdivide\<close> recurses forever on an empty
  vector (it is never a singleton, and both halves are again empty), so it is a
  \<^theory_text>\<open>partial_function (option)\<close>: \<open>None\<close> is "does not return".
  The call to \<open>std::sort\<close> is a parameter \<open>srt\<close>: the C++ standard fixes only that
  the result is a permutation sorted by the key (\<open>std::sort\<close> is not stable), and
  every theorem assumes just that (\<open>sort_spec\<close>); \<open>std_sort\<close> is one such sort.
\<close>

section \<open>Data\<close>

type_synonym bvh_item = "object \<times> vec3 \<times> vec3"

datatype bvh =
    Leaf object vec3 vec3
  | Node bvh bvh vec3 vec3

fun bvh_box :: "bvh \<Rightarrow> vec3 \<times> vec3" where
  "bvh_box (Leaf _ mn mx) = (mn, mx)"
| "bvh_box (Node _ _ mn mx) = (mn, mx)"

section \<open>compareAxis (bvh.cpp, lines 13-35)\<close>

text \<open>The position a primitive is sorted by: sphere centre or mesh-triangle midpoint.\<close>

fun axis_pos :: "nat \<Rightarrow> object \<Rightarrow> real" where
  "axis_pos a (Sphere _ _ p) = vidx p a"
| "axis_pos a (MTriangle _ _ mid) = vidx mid a"
| "axis_pos a _ = 0"

definition item_key :: "nat \<Rightarrow> bvh_item \<Rightarrow> real" where
  "item_key a it = axis_pos a (fst it)"

definition compareAxis :: "nat \<Rightarrow> bvh_item \<Rightarrow> bvh_item \<Rightarrow> bool" where
  "compareAxis a o1 o2 \<longleftrightarrow> item_key a o1 < item_key a o2"

text \<open>What \<open>std::sort\<close> with comparator \<open>compareAxis axis\<close> guarantees.\<close>

definition sort_spec :: "(nat \<Rightarrow> bvh_item list \<Rightarrow> bvh_item list) \<Rightarrow> bool" where
  "sort_spec srt \<longleftrightarrow>
     (\<forall>a xs. mset (srt a xs) = mset xs \<and> sorted (map (item_key a) (srt a xs)))"

definition std_sort :: "nat \<Rightarrow> bvh_item list \<Rightarrow> bvh_item list" where
  "std_sort a xs = sort_key (item_key a) xs"

section \<open>subdivide (bvh.cpp, lines 37-96)\<close>

text \<open>The global bounding box loop (lines 51-67), from the sentinels \<open>\<plusminus>1e30\<close>.\<close>

definition bounds_step :: "bvh_item \<Rightarrow> vec3 \<times> vec3 \<Rightarrow> vec3 \<times> vec3" where
  "bounds_step it acc = (vmin (fst acc) (fst (snd it)), vmax (snd acc) (snd (snd it)))"

definition union_bounds :: "bvh_item list \<Rightarrow> vec3 \<times> vec3" where
  "union_bounds xs = fold bounds_step xs (vconst BIG, vconst (- BIG))"

text \<open>The longest-axis choice (lines 69-79).\<close>

definition longest_axis :: "vec3 \<Rightarrow> nat" where
  "longest_axis ext =
     (if vx ext < vy ext \<and> vz ext < vy ext then 1
      else if vx ext < vz ext \<and> vy ext < vz ext then 2
      else 0)"

definition split_axis :: "bvh_item list \<Rightarrow> nat" where
  "split_axis xs = longest_axis (vsub (snd (union_bounds xs)) (fst (union_bounds xs)))"

partial_function (option) subdivide ::
  "(nat \<Rightarrow> bvh_item list \<Rightarrow> bvh_item list) \<Rightarrow> bvh_item list \<Rightarrow> bvh option" where
  "subdivide srt xs =
     (if length xs = 1 then (case hd xs of (ob, mn, mx) \<Rightarrow> Some (Leaf ob mn mx))
      else
        (let ys = srt (split_axis xs) xs;
             h = length ys div 2
         in do {
              l \<leftarrow> subdivide srt (take h ys);
              r \<leftarrow> subdivide srt (drop h ys);
              Some (Node l r (fst (union_bounds xs)) (snd (union_bounds xs)))
            }))"

declare subdivide.simps [code]

section \<open>buildBVH (bvh.cpp, lines 98-156)\<close>

text \<open>The box of one mesh triangle (lines 122-147) and the midpoint stored in it (149).\<close>

definition tri_bounds :: "triangle \<Rightarrow> vec3 \<times> vec3" where
  "tri_bounds t =
     (vmin (tv2 t) (vmin (tv1 t) (vmin (tv0 t) (vconst BIG))),
      vmax (tv2 t) (vmax (tv1 t) (vmax (tv0 t) (vconst (- BIG)))))"

definition mesh_item :: "material \<Rightarrow> triangle \<Rightarrow> bvh_item" where
  "mesh_item m t =
     (let mn = fst (tri_bounds t); mx = snd (tri_bounds t)
      in (MTriangle m t (Vec ((vx mx + vx mn) / 2) ((vy mx + vy mn) / 2) ((vz mx + vz mn) / 2)),
          mn, mx))"

text \<open>The filtering loop: spheres with their box, each mesh triangle as an \<open>MTriangle\<close>;
  planes (and anything else) are left out.\<close>

fun bvh_items :: "object list \<Rightarrow> bvh_item list" where
  "bvh_items [] = []"
| "bvh_items (Sphere m r p # os) =
     (Sphere m r p, vsub p (vconst r), vadd p (vconst r)) # bvh_items os"
| "bvh_items (Mesh m ts # os) = map (mesh_item m) ts @ bvh_items os"
| "bvh_items (_ # os) = bvh_items os"

definition buildBVH ::
  "(nat \<Rightarrow> bvh_item list \<Rightarrow> bvh_item list) \<Rightarrow> object list \<Rightarrow> bvh option" where
  "buildBVH srt objs = subdivide srt (bvh_items objs)"

section \<open>Observations on trees\<close>

fun bvh_leaves :: "bvh \<Rightarrow> bvh_item list" where
  "bvh_leaves (Leaf ob mn mx) = [(ob, mn, mx)]"
| "bvh_leaves (Node l r _ _) = bvh_leaves l @ bvh_leaves r"

fun bvh_height :: "bvh \<Rightarrow> nat" where
  "bvh_height (Leaf _ _ _) = 0"
| "bvh_height (Node l r _ _) = Suc (max (bvh_height l) (bvh_height r))"

definition box_in :: "vec3 \<times> vec3 \<Rightarrow> vec3 \<times> vec3 \<Rightarrow> bool" where
  "box_in b c \<longleftrightarrow> vle (fst c) (fst b) \<and> vle (snd b) (snd c)"

text \<open>The invariant of the spec (section 3): every node's box holds its children's boxes.\<close>

fun bvh_wf :: "bvh \<Rightarrow> bool" where
  "bvh_wf (Leaf _ _ _) = True"
| "bvh_wf (Node l r mn mx) \<longleftrightarrow>
     box_in (bvh_box l) (mn, mx) \<and> box_in (bvh_box r) (mn, mx) \<and> bvh_wf l \<and> bvh_wf r"

section \<open>The sort contract\<close>

lemma sort_spec_mset: "sort_spec srt \<Longrightarrow> mset (srt a xs) = mset xs"
  by (simp add: sort_spec_def)

lemma sort_spec_length: "sort_spec srt \<Longrightarrow> length (srt a xs) = length xs"
  by (metis size_mset sort_spec_mset)

lemma sort_spec_Nil: "sort_spec srt \<Longrightarrow> srt a [] = []"
  using sort_spec_length [of srt a "[]"] by simp

lemma sort_spec_std_sort: "sort_spec std_sort"
  by (simp add: sort_spec_def std_sort_def)

lemma subdivide_induct [consumes 2, case_names leaf node]:
  assumes spec: "sort_spec srt" and run: "subdivide srt xs = Some t"
    and leaf: "\<And>ob mn mx. P [(ob, mn, mx)] (Leaf ob mn mx)"
    and node: "\<And>xs l r. 2 \<le> length xs \<Longrightarrow>
       P (take (length xs div 2) (srt (split_axis xs) xs)) l \<Longrightarrow>
       P (drop (length xs div 2) (srt (split_axis xs) xs)) r \<Longrightarrow>
       P xs (Node l r (fst (union_bounds xs)) (snd (union_bounds xs)))"
  shows "P xs t"
proof -
  have "s = srt \<longrightarrow> xs \<noteq> [] \<and> P xs t" if "subdivide s xs = Some t" for s xs t
  proof (rule subdivide.raw_induct [where P = "\<lambda>s xs t. s = srt \<longrightarrow> xs \<noteq> [] \<and> P xs t", OF _ that])
    fix f s xs t
    assume IH: "\<And>s xs t. f s xs = Some t \<Longrightarrow> s = srt \<longrightarrow> xs \<noteq> [] \<and> P xs t"
    assume eq: "(if length xs = 1 then (case hd xs of (ob, mn, mx) \<Rightarrow> Some (Leaf ob mn mx))
      else (let ys = s (split_axis xs) xs; h = length ys div 2
         in do { l \<leftarrow> f s (take h ys); r \<leftarrow> f s (drop h ys);
                 Some (Node l r (fst (union_bounds xs)) (snd (union_bounds xs))) })) = Some t"
    show "s = srt \<longrightarrow> xs \<noteq> [] \<and> P xs t"
    proof
      assume s: "s = srt"
      show "xs \<noteq> [] \<and> P xs t"
      proof (cases "length xs = 1")
        case True
        then obtain ob mn mx where "xs = [(ob, mn, mx)]"
          by (auto simp: length_Suc_conv)
        with eq show ?thesis by (auto simp: leaf)
      next
        case False
        let ?ys = "srt (split_axis xs) xs"
        from False eq s obtain l r where
          l: "f srt (take (length ?ys div 2) ?ys) = Some l" and
          r: "f srt (drop (length ?ys div 2) ?ys) = Some r" and
          t: "t = Node l r (fst (union_bounds xs)) (snd (union_bounds xs))"
          by (auto simp: Let_def split: Option.bind_splits)
        from IH[OF l] IH[OF r] have ne: "take (length ?ys div 2) ?ys \<noteq> []"
          and Pl: "P (take (length ?ys div 2) ?ys) l" and Pr: "P (drop (length ?ys div 2) ?ys) r"
          by auto
        have len: "length ?ys = length xs" by (rule sort_spec_length[OF spec])
        from ne len have "length xs \<noteq> 0" by auto
        with False have two: "2 \<le> length xs" by arith
        with len l r Pl Pr t s show ?thesis by (auto intro: node)
      qed
    qed
  qed
  with run show ?thesis by blast
qed

section \<open>Runs of subdivide\<close>

lemma subdivide_Some_nonempty: "sort_spec srt \<Longrightarrow> subdivide srt xs = Some t \<Longrightarrow> xs \<noteq> []"
  by (induction rule: subdivide_induct) auto

lemma subdivide_Nil: "sort_spec srt \<Longrightarrow> subdivide srt [] = None"
  by (metis not_Some_eq subdivide_Some_nonempty)

lemma subdivide_total:
  assumes spec: "sort_spec srt" and ne: "xs \<noteq> []"
  shows "\<exists>t. subdivide srt xs = Some t"
  using ne
proof (induction xs rule: length_induct)
  case (1 xs)
  show ?case
  proof (cases "length xs = 1")
    case True
    then obtain ob mn mx where "xs = [(ob, mn, mx)]"
      by (auto simp: length_Suc_conv)
    then show ?thesis by (simp add: subdivide.simps)
  next
    case False
    let ?ys = "srt (split_axis xs) xs"
    have len: "length ?ys = length xs" by (rule sort_spec_length[OF spec])
    from "1.prems" have "length xs \<noteq> 0" by simp
    with False len have two: "2 \<le> length ?ys" by arith
    then have "take (length ?ys div 2) ?ys \<noteq> []" "drop (length ?ys div 2) ?ys \<noteq> []"
      by (auto simp: take_half_nonempty drop_half_nonempty)
    moreover have "length (take (length ?ys div 2) ?ys) < length xs"
      "length (drop (length ?ys div 2) ?ys) < length xs"
      using two len by auto
    ultimately obtain l r where "subdivide srt (take (length ?ys div 2) ?ys) = Some l"
      "subdivide srt (drop (length ?ys div 2) ?ys) = Some r"
      using "1.IH" by meson
    with False show ?thesis by (simp add: subdivide.simps [of srt xs] Let_def)
  qed
qed


section \<open>The global bounding box\<close>

lemma fold_bounds_lower:
  "vle c (fst (fold bounds_step xs acc)) \<longleftrightarrow> vle c (fst acc) \<and> (\<forall>it\<in>set xs. vle c (fst (snd it)))"
  by (induction xs arbitrary: acc) (auto simp: bounds_step_def)

lemma fold_bounds_upper:
  "vle (snd (fold bounds_step xs acc)) c \<longleftrightarrow> vle (snd acc) c \<and> (\<forall>it\<in>set xs. vle (snd (snd it)) c)"
  by (induction xs arbitrary: acc) (auto simp: bounds_step_def)

lemma box_in_refl [simp, intro]: "box_in b b"
  by (simp add: box_in_def)

lemma box_in_trans [trans]: "box_in a b \<Longrightarrow> box_in b c \<Longrightarrow> box_in a c"
  by (auto simp: box_in_def intro: vle_trans)

lemma union_bounds_lower:
  "vle c (fst (union_bounds xs)) \<longleftrightarrow> vle c (vconst BIG) \<and> (\<forall>it\<in>set xs. vle c (fst (snd it)))"
  by (simp add: union_bounds_def fold_bounds_lower)

lemma union_bounds_upper:
  "vle (snd (union_bounds xs)) c \<longleftrightarrow> vle (vconst (- BIG)) c \<and> (\<forall>it\<in>set xs. vle (snd (snd it)) c)"
  by (simp add: union_bounds_def fold_bounds_upper)

lemma union_bounds_item: "it \<in> set xs \<Longrightarrow> box_in (snd it) (union_bounds xs)"
  using union_bounds_lower [of "fst (union_bounds xs)" xs] union_bounds_upper [of xs "snd (union_bounds xs)"]
  by (auto simp: box_in_def)

lemma union_bounds_mono: "set ys \<subseteq> set xs \<Longrightarrow> box_in (union_bounds ys) (union_bounds xs)"
  using union_bounds_lower [of "fst (union_bounds xs)" xs] union_bounds_upper [of xs "snd (union_bounds xs)"]
    union_bounds_lower [of "fst (union_bounds xs)" ys] union_bounds_upper [of ys "snd (union_bounds xs)"]
  by (auto simp: box_in_def)

lemma set_split_halves:
  assumes "sort_spec srt"
  shows "set (take n (srt a xs)) \<subseteq> set xs" "set (drop n (srt a xs)) \<subseteq> set xs"
  using sort_spec_mset [OF assms, of a xs]
  by (metis mset_eq_setD set_take_subset set_drop_subset)+

lemma subdivide_leaves:
  assumes "sort_spec srt" "subdivide srt xs = Some t"
  shows "mset (bvh_leaves t) = mset xs"
  using assms
proof (induction rule: subdivide_induct)
  case (node xs l r)
  then show ?case
    using mset_take_drop [of "length xs div 2" "srt (split_axis xs) xs"] sort_spec_mset [OF assms(1)]
    by simp
qed simp

lemma subdivide_wf_box:
  assumes "sort_spec srt" "subdivide srt xs = Some t"
  shows "bvh_wf t \<and> box_in (bvh_box t) (union_bounds xs)"
  using assms
proof (induction rule: subdivide_induct)
  case (leaf ob mn mx)
  show ?case using union_bounds_item [of "(ob, mn, mx)"] by simp
next
  case (node xs l r)
  let ?ys = "srt (split_axis xs) xs"
  have "box_in (bvh_box l) (union_bounds xs)"
    using node.IH(1) union_bounds_mono [OF set_split_halves(1) [OF assms(1)]] box_in_trans by blast
  moreover have "box_in (bvh_box r) (union_bounds xs)"
    using node.IH(2) union_bounds_mono [OF set_split_halves(2) [OF assms(1)]] box_in_trans by blast
  ultimately show ?case using node.IH by simp
qed

lemma subdivide_height:
  assumes "sort_spec srt" "subdivide srt xs = Some t"
  shows "bvh_height t = ceillog2 (length xs)"
  using assms
proof (induction rule: subdivide_induct)
  case (node xs l r)
  let ?n = "length xs"
  have len: "length (srt (split_axis xs) xs) = ?n" by (rule sort_spec_length [OF assms(1)])
  have "?n - ?n div 2 = (?n + 1) div 2" by arith
  moreover have "ceillog2 (?n div 2) \<le> ceillog2 ((?n + 1) div 2)"
    by (rule ceillog2_mono) arith
  moreover have "ceillog2 ?n = 1 + ceillog2 ((?n + 1) div 2)"
    using node.hyps ceillog2_rec [of ?n] by simp
  moreover have "\<not> ?n \<le> ?n div 2" using node.hyps by arith
  ultimately show ?case using node.IH len by (simp add: max_def)
qed simp

section \<open>Boxes of the primitives\<close>

text \<open>Every point of a sphere of non-negative radius lies in the box \<open>buildBVH\<close> gives it.\<close>

lemma sphere_box_contains:
  assumes r: "0 \<le> r" and on: "dot (vsub q c) (vsub q c) \<le> r\<^sup>2"
  shows "vle (vsub c (vconst r)) q \<and> vle q (vadd c (vconst r))"
proof -
  let ?a = "vx q - vx c" and ?b = "vy q - vy c" and ?c = "vz q - vz c"
  have sum: "?a\<^sup>2 + ?b\<^sup>2 + ?c\<^sup>2 \<le> r\<^sup>2"
    using on by (simp add: dot_def vsub_def power2_eq_square)
  have "?a\<^sup>2 \<le> r\<^sup>2" "?b\<^sup>2 \<le> r\<^sup>2" "?c\<^sup>2 \<le> r\<^sup>2"
    using sum zero_le_power2 [of ?a] zero_le_power2 [of ?b] zero_le_power2 [of ?c] by linarith+
  then have "- r \<le> ?a \<and> ?a \<le> r" "- r \<le> ?b \<and> ?b \<le> r" "- r \<le> ?c \<and> ?c \<le> r"
    using sq_le_sq_bound [OF r] by blast+
  then show ?thesis
    by (simp add: vle_def vsub_def vadd_def vconst_def)
qed

text \<open>Every convex combination of the vertices of a mesh triangle lies in its box.\<close>

definition convex3 :: "real \<Rightarrow> real \<Rightarrow> real \<Rightarrow> triangle \<Rightarrow> vec3" where
  "convex3 a b c t = vadd (smul a (tv0 t)) (vadd (smul b (tv1 t)) (smul c (tv2 t)))"

lemma tri_bounds_contains:
  assumes "0 \<le> a" "0 \<le> b" "0 \<le> c" "a + b + c = 1"
  shows "vle (fst (tri_bounds t)) (convex3 a b c t) \<and> vle (convex3 a b c t) (snd (tri_bounds t))"
proof -
  have lo: "min z (min y (min x BIG)) \<le> a * x + (b * y + c * z)" for x y z :: real
    using convex3_ge_min [OF assms, of x y z] by linarith
  have hi: "a * x + (b * y + c * z) \<le> max z (max y (max x (- BIG)))" for x y z :: real
    using convex3_le_max [OF assms, of x y z] by linarith
  show ?thesis
    using lo hi by (simp add: tri_bounds_def convex3_def vle_def vmin_def vmax_def vadd_def smul_def vconst_def)
qed

section \<open>The longest axis\<close>

lemma longest_axis_range: "longest_axis e < 3"
  by (simp add: longest_axis_def)

section \<open>Properties of buildBVH\<close>

lemma bvh_items_Nil_iff:
  "bvh_items objs = [] \<longleftrightarrow>
     (\<forall>ob\<in>set objs. (\<forall>m r p. ob \<noteq> Sphere m r p) \<and> (\<forall>m ts. ob = Mesh m ts \<longrightarrow> ts = []))"
  by (induction objs rule: bvh_items.induct) auto

definition is_plane :: "object \<Rightarrow> bool" where
  "is_plane ob \<longleftrightarrow> (case ob of Plane _ _ _ \<Rightarrow> True | _ \<Rightarrow> False)"

lemma bvh_items_planes: "\<forall>ob\<in>set objs. is_plane ob \<Longrightarrow> bvh_items objs = []"
  by (induction objs rule: bvh_items.induct) (auto simp: is_plane_def)

text \<open>Example scenes for the witnesses: two unit spheres and a plane; a plane alone.\<close>

definition ex_objs :: "object list" where
  "ex_objs = [Sphere default_material 1 (Vec 0 0 0), Plane default_material (Vec 0 0 0) (Vec 0 1 0),
              Sphere default_material 1 (Vec 4 0 0)]"

definition ex_bvh :: bvh where
  "ex_bvh = Node (Leaf (Sphere default_material 1 (Vec 0 0 0)) (Vec (-1) (-1) (-1)) (Vec 1 1 1))
                 (Leaf (Sphere default_material 1 (Vec 4 0 0)) (Vec 3 (-1) (-1)) (Vec 5 1 1))
                 (Vec (-1) (-1) (-1)) (Vec 5 1 1)"

lemma buildBVH_ex: "buildBVH std_sort ex_objs = Some ex_bvh"
  by (simp add: ex_objs_def ex_bvh_def buildBVH_def subdivide.simps union_bounds_def
      bounds_step_def vec_simps split_axis_def longest_axis_def std_sort_def item_key_def BIG_def)

lemma sorted_take_drop_key:
  "sorted (map k ys) \<Longrightarrow> x \<in> set (take n ys) \<Longrightarrow> y \<in> set (drop n ys) \<Longrightarrow> k x \<le> k y"
  using sorted_append [of "map k (take n ys)" "map k (drop n ys)"]
  by (simp flip: map_append)

lemma subdivide_Node:
  assumes "subdivide srt xs = Some (Node l r mn mx)"
  shows "subdivide srt (take (length (srt (split_axis xs) xs) div 2) (srt (split_axis xs) xs)) = Some l \<and>
    subdivide srt (drop (length (srt (split_axis xs) xs) div 2) (srt (split_axis xs) xs)) = Some r"
  using assms
  by (auto simp: subdivide.simps [of srt xs] Let_def split: if_splits prod.splits Option.bind_splits)

text \<open>C1: the tree built from any scene satisfies the box invariant of the spec: every
  inner node's box contains the boxes of both children.\<close>

theorem buildBVH_wf:
  assumes "sort_spec srt" "buildBVH srt objs = Some t"
  shows "bvh_wf t"
  using subdivide_wf_box assms unfolding buildBVH_def by blast

lemma buildBVH_wf_witness:
  "sort_spec std_sort \<and> buildBVH std_sort ex_objs = Some ex_bvh \<and> bvh_wf ex_bvh"
  using buildBVH_wf [OF sort_spec_std_sort buildBVH_ex] sort_spec_std_sort buildBVH_ex by simp

text \<open>C2: the leaves of the built tree are exactly the boundable primitives with their
  boxes, each once: a permutation of the work list \<open>buildBVH\<close> collects.\<close>

theorem buildBVH_leaves:
  assumes "sort_spec srt" "buildBVH srt objs = Some t"
  shows "mset (bvh_leaves t) = mset (bvh_items objs)"
  using subdivide_leaves assms unfolding buildBVH_def by blast

lemma buildBVH_leaves_witness:
  "sort_spec std_sort \<and> buildBVH std_sort ex_objs = Some ex_bvh \<and>
   mset (bvh_leaves ex_bvh) = mset (bvh_items ex_objs)"
  using buildBVH_leaves [OF sort_spec_std_sort buildBVH_ex] sort_spec_std_sort buildBVH_ex by simp

text \<open>C3: \<open>buildBVH\<close> returns a tree whenever the scene has a sphere or a non-empty mesh.\<close>

theorem buildBVH_total:
  assumes "sort_spec srt" "bvh_items objs \<noteq> []"
  shows "\<exists>t. buildBVH srt objs = Some t"
  using subdivide_total assms unfolding buildBVH_def by blast

lemma buildBVH_total_witness:
  "sort_spec std_sort \<and> bvh_items ex_objs \<noteq> [] \<and> (\<exists>t. buildBVH std_sort ex_objs = Some t)"
proof -
  have ne: "bvh_items ex_objs \<noteq> []" by (simp add: ex_objs_def)
  show ?thesis using buildBVH_total [OF sort_spec_std_sort ne] sort_spec_std_sort ne by simp
qed

text \<open>C4: on a scene whose objects are all planes, \<open>buildBVH\<close> does not return:
  \<open>subdivide\<close> is called on an empty vector and recurses on empty halves forever
  (in the C++ program, a stack overflow in \<open>choose_scene\<close>).\<close>

theorem buildBVH_planes_only_diverges:
  assumes "sort_spec srt" "\<forall>ob\<in>set objs. is_plane ob"
  shows "buildBVH srt objs = None"
  using subdivide_Nil [OF assms(1)] bvh_items_planes [OF assms(2)] by (simp add: buildBVH_def)

lemma buildBVH_planes_only_diverges_witness:
  "sort_spec std_sort \<and> is_plane (Plane default_material (Vec 0 0 0) (Vec 0 1 0)) \<and>
   buildBVH std_sort [Plane default_material (Vec 0 0 0) (Vec 0 1 0)] = None"
proof -
  have pl: "\<forall>ob\<in>set [Plane default_material (Vec 0 0 0) (Vec 0 1 0)]. is_plane ob"
    by (simp add: is_plane_def)
  show ?thesis using buildBVH_planes_only_diverges [OF sort_spec_std_sort pl] sort_spec_std_sort
    by (simp add: is_plane_def)
qed

text \<open>C5: the median split builds a tree of height exactly \<open>\<lceil>log2 n\<rceil>\<close> over \<open>n\<close>
  boundable primitives.\<close>

theorem buildBVH_height:
  assumes "sort_spec srt" "buildBVH srt objs = Some t"
  shows "bvh_height t = ceillog2 (length (bvh_items objs))"
  using subdivide_height assms unfolding buildBVH_def by blast

lemma buildBVH_height_witness:
  "sort_spec std_sort \<and> buildBVH std_sort ex_objs = Some ex_bvh \<and>
   bvh_height ex_bvh = ceillog2 (length (bvh_items ex_objs))"
  using buildBVH_height [OF sort_spec_std_sort buildBVH_ex] sort_spec_std_sort buildBVH_ex by simp

text \<open>C6: the split axis has the largest extent, except when the Y and Z extents tie
  above the X extent.\<close>

theorem longest_axis_max:
  assumes "vy e < vz e \<or> vz e < vy e \<or> vy e \<le> vx e"
  shows "\<forall>i<3. vidx e i \<le> vidx e (longest_axis e)"
  using assms by (auto simp: longest_axis_def vidx_def)

lemma longest_axis_max_witness:
  "(vy (Vec 1 3 2) < vz (Vec 1 3 2) \<or> vz (Vec 1 3 2) < vy (Vec 1 3 2) \<or> vy (Vec 1 3 2) \<le> vx (Vec 1 3 2)) \<and>
   vidx (Vec 1 3 2) 0 \<le> vidx (Vec 1 3 2) (longest_axis (Vec 1 3 2)) \<and>
   vidx (Vec 1 3 2) 1 \<le> vidx (Vec 1 3 2) (longest_axis (Vec 1 3 2)) \<and>
   vidx (Vec 1 3 2) 2 \<le> vidx (Vec 1 3 2) (longest_axis (Vec 1 3 2))"
proof -
  have h: "vy (Vec 1 3 2) < vz (Vec 1 3 2) \<or> vz (Vec 1 3 2) < vy (Vec 1 3 2) \<or> vy (Vec 1 3 2) \<le> vx (Vec 1 3 2)"
    by simp
  have a: "\<forall>i<3. vidx (Vec 1 3 2) i \<le> vidx (Vec 1 3 2) (longest_axis (Vec 1 3 2))"
    by (rule longest_axis_max [OF h])
  show ?thesis using a [rule_format, of 0] a [rule_format, of 1] a [rule_format, of 2] h by simp
qed

text \<open>C7: whenever the Y and Z extents tie above the X extent, the code splits along X,
  the shortest axis, and not along one of the two longest.\<close>

theorem longest_axis_tie_picks_x:
  assumes "vx ext < vy ext" "vy ext = vz ext"
  shows "longest_axis ext = 0 \<and> vidx ext 0 < vidx ext 1 \<and> vidx ext 0 < vidx ext 2"
  using assms by (simp add: longest_axis_def vidx_def)

lemma longest_axis_tie_picks_x_witness:
  "vx (Vec 1 3 3) < vy (Vec 1 3 3) \<and> vy (Vec 1 3 3) = vz (Vec 1 3 3) \<and> longest_axis (Vec 1 3 3) = 0"
proof -
  have a: "vx (Vec 1 3 3) < vy (Vec 1 3 3)" "vy (Vec 1 3 3) = vz (Vec 1 3 3)" by simp_all
  show ?thesis using longest_axis_tie_picks_x [OF a] a by simp
qed

text \<open>C8: the split is positional: along the split axis, every primitive in the left
  subtree of the root sits at or before every primitive of the right subtree.\<close>

theorem subdivide_split_ordered:
  assumes spec: "sort_spec srt" and run: "subdivide srt xs = Some (Node l r mn mx)"
  shows "\<forall>p\<in>set (bvh_leaves l). \<forall>q\<in>set (bvh_leaves r).
           item_key (split_axis xs) p \<le> item_key (split_axis xs) q"
proof (intro ballI)
  fix p q assume p: "p \<in> set (bvh_leaves l)" and q: "q \<in> set (bvh_leaves r)"
  let ?ys = "srt (split_axis xs) xs" and ?h = "length xs div 2"
  from subdivide_Node [OF run] sort_spec_length [OF spec, of "split_axis xs" xs]
  have l: "subdivide srt (take ?h ?ys) = Some l" and r: "subdivide srt (drop ?h ?ys) = Some r"
    by auto
  from p subdivide_leaves [OF spec l] have "p \<in> set (take ?h ?ys)" by (metis set_mset_mset)
  moreover from q subdivide_leaves [OF spec r] have "q \<in> set (drop ?h ?ys)" by (metis set_mset_mset)
  moreover have "sorted (map (item_key (split_axis xs)) ?ys)" using spec by (simp add: sort_spec_def)
  ultimately show "item_key (split_axis xs) p \<le> item_key (split_axis xs) q"
    by (rule sorted_take_drop_key [rotated])
qed

lemma subdivide_split_ordered_witness:
  "sort_spec std_sort \<and> subdivide std_sort (bvh_items ex_objs) = Some ex_bvh \<and>
   item_key (split_axis (bvh_items ex_objs)) (Sphere default_material 1 (Vec 0 0 0), Vec (-1) (-1) (-1), Vec 1 1 1)
   \<le> item_key (split_axis (bvh_items ex_objs)) (Sphere default_material 1 (Vec 4 0 0), Vec 3 (-1) (-1), Vec 5 1 1)"
proof -
  have run: "subdivide std_sort (bvh_items ex_objs) = Some ex_bvh"
    using buildBVH_ex by (simp add: buildBVH_def)
  show ?thesis
    using subdivide_split_ordered [OF sort_spec_std_sort run [unfolded ex_bvh_def]]
      sort_spec_std_sort run by simp
qed

end
