(* ===== verification/Traverse.thy ===== *)
theory Traverse
  imports BVH_Build
begin

text \<open>
  BVH traversal of \<open>src/src/raytracer.cpp\<close>: the slab test \<open>ray_box\<close> (lines 197-212)
  and the candidate collection \<open>getBVHList\<close> (lines 214-238). \<open>ray_box\<close> ignores its
  \<open>near\<close>, \<open>far\<close> and \<open>pick\<close> arguments; they are left out.

  The slab loop computes \<open>invD = 1.0f / d[i]\<close>. For a zero component IEEE division gives
  \<open>\<plusminus>\<infinity>\<close>, and the products that follow are \<open>\<plusminus>\<infinity>\<close> or NaN: if \<open>e[i]\<close> lies outside
  \<open>[min[i], max[i]]\<close> one of \<open>tMin = +\<infinity>\<close>, \<open>tMax = -\<infinity>\<close> results and no later axis can
  undo it, so the test fails; otherwise every comparison with the infinite or NaN values
  is false and \<open>tMin\<close>, \<open>tMax\<close> keep their values. The model writes this outcome out:
  the loop state is \<open>None\<close> once the test is decided to fail, \<open>Some (tMin, tMax)\<close> else.
\<close>

section \<open>ray_box\<close>

definition slab :: "real \<Rightarrow> real \<Rightarrow> real \<Rightarrow> real \<Rightarrow> (real \<times> real) option \<Rightarrow> (real \<times> real) option" where
  "slab mn mx ei di st =
     (case st of
        None \<Rightarrow> None
      | Some (tMin, tMax) \<Rightarrow>
          if di = 0 then (if ei < mn \<or> mx < ei then None else Some (tMin, tMax))
          else
            (let invD = 1 / di;
                 t0 = (mn - ei) * invD;
                 t1 = (mx - ei) * invD;
                 (t0, t1) = (if invD < 0 then (t1, t0) else (t0, t1))
             in Some (if t0 > tMin then t0 else tMin, if t1 < tMax then t1 else tMax)))"

definition ray_box :: "vec3 \<Rightarrow> vec3 \<Rightarrow> vec3 \<Rightarrow> vec3 \<Rightarrow> bool" where
  "ray_box mn mx e d =
     (case slab (vz mn) (vz mx) (vz e) (vz d)
             (slab (vy mn) (vy mx) (vy e) (vy d)
               (slab (vx mn) (vx mx) (vx e) (vx d) (Some (- BIG, BIG)))) of
        None \<Rightarrow> False
      | Some (tMin, tMax) \<Rightarrow> tMax \<ge> max 0 tMin)"

definition slab_ok :: "(real \<times> real) option \<Rightarrow> real \<Rightarrow> bool" where
  "slab_ok st t \<longleftrightarrow> (case st of None \<Rightarrow> False | Some (lo, hi) \<Rightarrow> lo \<le> t \<and> t \<le> hi)"

section \<open>getBVHList\<close>

fun getBVHList :: "bvh \<Rightarrow> vec3 \<Rightarrow> vec3 \<Rightarrow> object list" where
  "getBVHList (Leaf ob mn mx) e d = (if ray_box mn mx e d then [ob] else [])"
| "getBVHList (Node l r _ _) e d =
     (if ray_box (fst (bvh_box l)) (snd (bvh_box l)) e d then getBVHList l e d else []) @
     (if ray_box (fst (bvh_box r)) (snd (bvh_box r)) e d then getBVHList r e d else [])"

section \<open>Properties\<close>

lemma slab_ok_slab:
  "slab_ok (slab mn mx ei di st) t \<longleftrightarrow> slab_ok st t \<and> mn \<le> ei + t * di \<and> ei + t * di \<le> mx"
proof (cases st)
  case None
  then show ?thesis by (simp add: slab_def slab_ok_def)
next
  case (Some p)
  obtain lo hi where p: "p = (lo, hi)" by fastforce
  consider "di = 0" | "0 < di" | "di < 0" by linarith
  then show ?thesis
  proof cases
    case 1
    then show ?thesis using Some p by (auto simp: slab_def slab_ok_def)
  next
    case 2
    have "(mn - ei) * (1 / di) \<le> t \<longleftrightarrow> mn \<le> ei + t * di"
      "t \<le> (mx - ei) * (1 / di) \<longleftrightarrow> ei + t * di \<le> mx"
      using 2 by (simp_all add: field_simps)
    then show ?thesis using 2 Some p by (auto simp: slab_def slab_ok_def Let_def)
  next
    case 3
    have "(mx - ei) * (1 / di) \<le> t \<longleftrightarrow> ei + t * di \<le> mx"
      "t \<le> (mn - ei) * (1 / di) \<longleftrightarrow> mn \<le> ei + t * di"
      using 3 by (simp_all add: field_simps)
    then show ?thesis using 3 Some p by (auto simp: slab_def slab_ok_def Let_def)
  qed
qed

lemma slab_ok_final:
  "(case st of None \<Rightarrow> False | Some (tMin, tMax) \<Rightarrow> tMax \<ge> max 0 tMin) \<longleftrightarrow> (\<exists>t. 0 \<le> t \<and> slab_ok st t)"
proof (cases st)
  case (Some p)
  then show ?thesis
    by (cases p) (auto simp: slab_ok_def intro: exI [of _ "max 0 (fst p)"])
qed (simp add: slab_ok_def)

lemma ray_box_iff:
  "ray_box mn mx e d \<longleftrightarrow>
     (\<exists>t. 0 \<le> t \<and> t \<le> BIG \<and> vle mn (vadd e (smul t d)) \<and> vle (vadd e (smul t d)) mx)"
proof -
  have "slab_ok (Some (- BIG, BIG)) t \<longleftrightarrow> - BIG \<le> t \<and> t \<le> BIG" for t
    by (simp add: slab_ok_def)
  then show ?thesis
    unfolding ray_box_def slab_ok_final slab_ok_slab
    using BIG_pos by (auto simp: vle_def vadd_def smul_def algebra_simps)
qed

lemma ray_box_mono:
  assumes "box_in (mn, mx) (mn', mx')" "ray_box mn mx e d"
  shows "ray_box mn' mx' e d"
  using assms unfolding ray_box_iff box_in_def by (auto intro: vle_trans)

lemma bvh_wf_leaf_box:
  "bvh_wf t \<Longrightarrow> it \<in> set (bvh_leaves t) \<Longrightarrow> box_in (snd it) (bvh_box t)"
  by (induction t) (auto intro: box_in_trans)

lemma getBVHList_eq_filter:
  assumes "bvh_wf t"
  shows "getBVHList t e d = map fst (filter (\<lambda>it. ray_box (fst (snd it)) (snd (snd it)) e d) (bvh_leaves t))"
  using assms
proof (induction t)
  case (Leaf ob mn mx)
  then show ?case by simp
next
  case (Node l r mn mx)
  have none: "filter (\<lambda>it. ray_box (fst (snd it)) (snd (snd it)) e d) (bvh_leaves c) = []"
    if "bvh_wf c" "\<not> ray_box (fst (bvh_box c)) (snd (bvh_box c)) e d" for c
    using that bvh_wf_leaf_box ray_box_mono by (fastforce simp: filter_empty_conv)
  show ?case using Node none by auto
qed
text \<open>C14: the slab test is exact: \<open>ray_box\<close> holds precisely when some point of the
  ray with parameter in \<open>[0, 1e30]\<close> lies in the box (zero direction components included).\<close>

theorem ray_box_exact:
  "ray_box mn mx e d \<longleftrightarrow>
     (\<exists>t. 0 \<le> t \<and> t \<le> BIG \<and> vle mn (vadd e (smul t d)) \<and> vle (vadd e (smul t d)) mx)"
  by (rule ray_box_iff)

text \<open>C15: on a tree with the box invariant, \<open>getBVHList\<close> returns exactly the objects of
  the leaves whose own box the ray meets, in leaf order: pruning at inner nodes never
  loses a candidate.\<close>

theorem getBVHList_filter:
  assumes "bvh_wf t"
  shows "getBVHList t e d = map fst (filter (\<lambda>it. ray_box (fst (snd it)) (snd (snd it)) e d) (bvh_leaves t))"
  using assms by (rule getBVHList_eq_filter)

lemma getBVHList_filter_witness:
  "bvh_wf ex_bvh \<and>
   getBVHList ex_bvh (Vec 0 0 5) (Vec 0 0 (-1)) =
     map fst (filter (\<lambda>it. ray_box (fst (snd it)) (snd (snd it)) (Vec 0 0 5) (Vec 0 0 (-1))) (bvh_leaves ex_bvh))"
proof -
  have wf: "bvh_wf ex_bvh" by (simp add: ex_bvh_def box_in_def vle_def)
  show ?thesis using getBVHList_filter [OF wf] wf by blast
qed

lemma inverted_box_missed:
  assumes "r < 0"
  shows "\<not> ray_box (vsub c (vconst r)) (vadd c (vconst r)) e d"
  using assms unfolding ray_box_iff by (auto simp: vle_def vsub_def vadd_def vconst_def)

lemma bvh_items_sphere_box:
  "(Sphere m r p, mn, mx) \<in> set (bvh_items objs) \<Longrightarrow> mn = vsub p (vconst r) \<and> mx = vadd p (vconst r)"
  by (induction objs rule: bvh_items.induct) (auto simp: mesh_item_def Let_def)

text \<open>C16: a sphere with a negative radius gets an inverted box in \<open>buildBVH\<close>
  (\<open>pos - radius > pos + radius\<close>) that no ray meets, so on every tree \<open>buildBVH\<close>
  returns the traversal never offers it as a candidate, whatever the ray, although
  \<open>ray_sphere\<close> (which only uses \<open>radius * radius\<close>) hits it.\<close>

theorem negative_radius_never_candidate:
  assumes spec: "sort_spec srt" and b: "buildBVH srt objs = Some t" and r: "r < 0"
  shows "Sphere m r p \<notin> set (getBVHList t e d)"
proof
  assume mem: "Sphere m r p \<in> set (getBVHList t e d)"
  have sd: "subdivide srt (bvh_items objs) = Some t" using b by (simp add: buildBVH_def)
  have wf: "bvh_wf t" using subdivide_wf_box [OF spec sd] by blast
  obtain mn mx where it: "(Sphere m r p, mn, mx) \<in> set (bvh_leaves t)" and hb: "ray_box mn mx e d"
    using mem unfolding getBVHList_eq_filter [OF wf] by auto
  have "(Sphere m r p, mn, mx) \<in> set (bvh_items objs)"
    using it subdivide_leaves [OF spec sd] by (metis set_mset_mset)
  then have "mn = vsub p (vconst r) \<and> mx = vadd p (vconst r)" by (rule bvh_items_sphere_box)
  then show False using hb inverted_box_missed [OF r] by simp
qed

lemma negative_radius_never_candidate_witness:
  "sort_spec std_sort \<and>
   buildBVH std_sort [Sphere default_material (-1) (Vec 0 0 (-5))] =
     Some (Leaf (Sphere default_material (-1) (Vec 0 0 (-5))) (Vec 1 1 (-4)) (Vec (-1) (-1) (-6))) \<and>
   (-1 :: real) < 0 \<and>
   Sphere default_material (-1) (Vec 0 0 (-5)) \<notin>
     set (getBVHList (Leaf (Sphere default_material (-1) (Vec 0 0 (-5))) (Vec 1 1 (-4)) (Vec (-1) (-1) (-6)))
            (Vec 0 0 0) (Vec 0 0 (-1)))"
proof -
  have b: "buildBVH std_sort [Sphere default_material (-1) (Vec 0 0 (-5))] =
     Some (Leaf (Sphere default_material (-1) (Vec 0 0 (-5))) (Vec 1 1 (-4)) (Vec (-1) (-1) (-6)))"
    by (simp add: buildBVH_def subdivide.simps vec_simps)
  have r: "(-1 :: real) < 0" by simp
  show ?thesis using negative_radius_never_candidate [OF sort_spec_std_sort b r] sort_spec_std_sort b r
    by blast
qed

end
