(* ===== verification/Intersect.thy ===== *)
theory Intersect
  imports Scene
begin

text \<open>
  The intersection routines of \<open>src/src/raytracer.cpp\<close> (lines 92-195). Each takes the
  ray origin \<open>e\<close>, direction \<open>d\<close> and the interval \<open>[near, far]\<close> (\<open>far < near\<close>
  means unbounded) and returns \<open>-1\<close> for "no hit" or the hit parameter \<open>t\<close>. The C++
  reference parameters \<open>hp\<close> (hit point) and \<open>hp_norm\<close> (normal) are in-out state here:
  each routine takes their current values and returns them with the writes it makes,
  exactly where the C++ code assigns them (\<open>ray_triangle\<close> writes the normal even when
  it misses). The debug arguments \<open>pick\<close> and \<open>prefix\<close> only print and are left out.
\<close>

type_synonym isect = "real \<times> vec3 \<times> vec3"

definition in_range :: "real \<Rightarrow> real \<Rightarrow> real \<Rightarrow> bool" where
  "in_range near far t \<longleftrightarrow> t \<ge> near \<and> (far < near \<or> t \<le> far)"

section \<open>ray_sphere (lines 92-122)\<close>

definition ray_sphere ::
  "real \<Rightarrow> vec3 \<Rightarrow> vec3 \<Rightarrow> vec3 \<Rightarrow> real \<Rightarrow> real \<Rightarrow> vec3 \<Rightarrow> vec3 \<Rightarrow> isect" where
  "ray_sphere radius c e d near far hp hp_norm =
     (let eminusc = vsub e c;
          ddotd = dot d d;
          disc = (dot d eminusc)\<^sup>2 - ddotd * (dot eminusc eminusc - radius * radius)
      in if disc \<ge> 0 then
           (let root = sqrt disc;
                t1 = (dot (vneg d) eminusc + root) / ddotd;
                t2 = (dot (vneg d) eminusc - root) / ddotd;
                t = (if disc > 0 \<and> ((t2 < t1 \<and> t2 \<ge> near) \<or> (t2 > t1 \<and> t1 < near)) then t2 else t1)
            in if in_range near far t
               then (t, vadd e (smul t d), normalize (vsub (vadd e (smul t d)) c))
               else (-1, hp, hp_norm))
         else (-1, hp, hp_norm))"

section \<open>ray_plane (lines 124-141)\<close>

definition ray_plane ::
  "vec3 \<Rightarrow> vec3 \<Rightarrow> vec3 \<Rightarrow> vec3 \<Rightarrow> real \<Rightarrow> real \<Rightarrow> vec3 \<Rightarrow> vec3 \<Rightarrow> isect" where
  "ray_plane a normal e d near far hp hp_norm =
     (let n = normalize normal;
          ndotd = dot n d
      in if ndotd \<noteq> 0 then
           (let t = dot n (vsub a e) / ndotd
            in if in_range near far t then (t, vadd e (smul t d), n) else (-1, hp, hp_norm))
         else (-1, hp, hp_norm))"

section \<open>ray_triangle (lines 143-172)\<close>

text \<open>The three barycentric sign components of lines 155-159.\<close>

definition bary :: "triangle \<Rightarrow> vec3 \<Rightarrow> vec3 \<Rightarrow> vec3" where
  "bary tri n pt =
     (let a = tv0 tri; b = tv1 tri; c = tv2 tri
      in Vec (dot (cross (vsub b a) (vsub pt a)) n)
             (dot (cross (vsub c b) (vsub pt b)) n)
             (dot (cross (vsub a c) (vsub pt c)) n))"

definition tri_normal :: "triangle \<Rightarrow> vec3" where
  "tri_normal tri = normalize (cross (vsub (tv2 tri) (tv1 tri)) (vsub (tv0 tri) (tv1 tri)))"

definition ray_triangle ::
  "triangle \<Rightarrow> vec3 \<Rightarrow> vec3 \<Rightarrow> real \<Rightarrow> real \<Rightarrow> vec3 \<Rightarrow> vec3 \<Rightarrow> isect" where
  "ray_triangle tri e d near far pt n0 =
     (let n = tri_normal tri;
          ndotd = dot n d
      in if ndotd \<noteq> 0 then
           (let t = dot n (vsub (tv0 tri) e) / ndotd
            in if in_range near far t then
                 (let pt' = vadd e (smul t d);
                      b = bary tri n pt'
                  in if vx b > 0 \<and> vy b > 0 \<and> vz b > 0 then (t, pt', n)
                     else if ALLOW_HIT_MESH_BACK \<and> vx b < 0 \<and> vy b < 0 \<and> vz b < 0 then (t, pt', n)
                     else (-1, pt', n))
               else (-1, pt, n))
         else (-1, pt, n))"

section \<open>ray_mesh (lines 174-195)\<close>

text \<open>
  The loop over the mesh's triangles. Its state: \<open>nearest_t\<close>, the narrowed \<open>far\<close>, the
  locals \<open>tri_hp\<close> and \<open>tri_norm\<close> (written by each \<open>ray_triangle\<close> call), and the
  out-parameters \<open>hp\<close> and \<open>hp_norm\<close>.
\<close>

record mesh_state =
  nearest_t :: real
  mfar :: real
  tri_hp :: vec3
  tri_norm :: vec3
  mhp :: vec3
  mhp_norm :: vec3

fun ray_mesh_loop :: "triangle list \<Rightarrow> vec3 \<Rightarrow> vec3 \<Rightarrow> real \<Rightarrow> mesh_state \<Rightarrow> mesh_state" where
  "ray_mesh_loop [] e d near st = st"
| "ray_mesh_loop (tri # tris) e d near st =
     (case ray_triangle tri e d near (mfar st) (tri_hp st) (tri_norm st) of
        (t, thp, tn) \<Rightarrow>
          let st' = st\<lparr>tri_hp := thp, tri_norm := tn\<rparr>
          in ray_mesh_loop tris e d near
               (if t \<ge> near \<and> (nearest_t st' < 0 \<or> t < nearest_t st')
                then st'\<lparr>nearest_t := t, mfar := t, mhp := thp, mhp_norm := tn\<rparr>
                else st'))"

text \<open>The locals \<open>tri_hp\<close>, \<open>tri_norm\<close> start uninitialised in C++; they are read only
  after a call that wrote them, so any start value (here the zero vector) gives the
  same result.\<close>

definition ray_mesh ::
  "triangle list \<Rightarrow> vec3 \<Rightarrow> vec3 \<Rightarrow> real \<Rightarrow> real \<Rightarrow> vec3 \<Rightarrow> vec3 \<Rightarrow> isect" where
  "ray_mesh tris e d near far hp hp_norm =
     (let st = ray_mesh_loop tris e d near
                 \<lparr>nearest_t = -1, mfar = far, tri_hp = vconst 0, tri_norm = vconst 0,
                  mhp = hp, mhp_norm = hp_norm\<rparr>
      in (nearest_t st, mhp st, mhp_norm st))"

section \<open>Specifications of a hit\<close>

text \<open>The ray meets the sphere at parameter \<open>s\<close>; a hit is such an \<open>s\<close> in the interval;
  the routine's answer should be the least hit.\<close>

definition on_sphere :: "real \<Rightarrow> vec3 \<Rightarrow> vec3 \<Rightarrow> vec3 \<Rightarrow> real \<Rightarrow> bool" where
  "on_sphere r c e d s \<longleftrightarrow> dot (vsub (vadd e (smul s d)) c) (vsub (vadd e (smul s d)) c) = r\<^sup>2"

definition sphere_hit :: "real \<Rightarrow> vec3 \<Rightarrow> vec3 \<Rightarrow> vec3 \<Rightarrow> real \<Rightarrow> real \<Rightarrow> real \<Rightarrow> bool" where
  "sphere_hit r c e d near far s \<longleftrightarrow> in_range near far s \<and> on_sphere r c e d s"

definition least_hit :: "(real \<Rightarrow> bool) \<Rightarrow> real \<Rightarrow> bool" where
  "least_hit P t \<longleftrightarrow> P t \<and> (\<forall>s. P s \<longrightarrow> t \<le> s)"

definition plane_hit :: "vec3 \<Rightarrow> vec3 \<Rightarrow> vec3 \<Rightarrow> vec3 \<Rightarrow> real \<Rightarrow> real \<Rightarrow> real \<Rightarrow> bool" where
  "plane_hit a normal e d near far s \<longleftrightarrow>
     in_range near far s \<and> dot normal (vsub (vadd e (smul s d)) a) = 0"

definition tri_t :: "triangle \<Rightarrow> vec3 \<Rightarrow> vec3 \<Rightarrow> real" where
  "tri_t tri e d = dot (tri_normal tri) (vsub (tv0 tri) e) / dot (tri_normal tri) d"

definition tri_ok :: "triangle \<Rightarrow> vec3 \<Rightarrow> vec3 \<Rightarrow> bool" where
  "tri_ok tri e d \<longleftrightarrow> dot (tri_normal tri) d \<noteq> 0 \<and>
     (let b = bary tri (tri_normal tri) (vadd e (smul (tri_t tri e d) d))
      in (0 < vx b \<and> 0 < vy b \<and> 0 < vz b) \<or> (ALLOW_HIT_MESH_BACK \<and> vx b < 0 \<and> vy b < 0 \<and> vz b < 0))"

definition tri_hits :: "triangle list \<Rightarrow> vec3 \<Rightarrow> vec3 \<Rightarrow> real \<Rightarrow> real \<Rightarrow> isect list" where
  "tri_hits tris e d near far =
     [(tri_t tri e d, vadd e (smul (tri_t tri e d) d), tri_normal tri).
        tri \<leftarrow> tris, tri_ok tri e d \<and> in_range near far (tri_t tri e d)]"

definition min_step :: "isect \<Rightarrow> isect option \<Rightarrow> isect option" where
  "min_step x c = (case c of None \<Rightarrow> Some x | Some y \<Rightarrow> if fst x < fst y then Some x else Some y)"

definition mesh_cur :: "mesh_state \<Rightarrow> isect option" where
  "mesh_cur st = (if nearest_t st < 0 then None else Some (nearest_t st, mhp st, mhp_norm st))"

definition mesh_inv :: "real \<Rightarrow> real \<Rightarrow> mesh_state \<Rightarrow> bool" where
  "mesh_inv near far st \<longleftrightarrow>
     (nearest_t st < 0 \<and> mfar st = far) \<or>
     (near \<le> nearest_t st \<and> mfar st = nearest_t st \<and> in_range near far (nearest_t st))"

text \<open>The un-normalised normal \<open>cross (c - b, a - b)\<close> of line 147.\<close>

definition tri_cross :: "triangle \<Rightarrow> vec3" where
  "tri_cross tri = cross (vsub (tv2 tri) (tv1 tri)) (vsub (tv0 tri) (tv1 tri))"

text \<open>A hit of the mesh: a triangle the ray meets (from either side) at a parameter in
  the interval.\<close>

definition mesh_hit :: "triangle list \<Rightarrow> vec3 \<Rightarrow> vec3 \<Rightarrow> real \<Rightarrow> real \<Rightarrow> real \<Rightarrow> bool" where
  "mesh_hit tris e d near far s \<longleftrightarrow>
     (\<exists>tri\<in>set tris. tri_ok tri e d \<and> in_range near far (tri_t tri e d) \<and> s = tri_t tri e d)"

text \<open>A unit right triangle in the plane \<open>z = 0\<close>, used by the examples.\<close>

definition ex_tri :: triangle where
  "ex_tri = Triangle (Vec 0 0 0) (Vec 1 0 0) (Vec 0 1 0)"

section \<open>Dispatch on the primitive (hit, lines 271-291)\<close>

fun intersect :: "object \<Rightarrow> vec3 \<Rightarrow> vec3 \<Rightarrow> real \<Rightarrow> real \<Rightarrow> vec3 \<Rightarrow> vec3 \<Rightarrow> isect" where
  "intersect (Sphere _ r c) e d near far hp n = ray_sphere r c e d near far hp n"
| "intersect (MTriangle _ tri _) e d near far hp n = ray_triangle tri e d near far hp n"
| "intersect (Plane _ a nrm) e d near far hp n = ray_plane a nrm e d near far hp n"
| "intersect (Mesh _ tris) e d near far hp n = ray_mesh tris e d near far hp n"

section \<open>ray_sphere: the nearest root\<close>

lemma quad_root_iff:
  fixes a b c s :: real
  assumes a: "0 < a"
  shows "a * s\<^sup>2 + 2 * b * s + c = 0 \<longleftrightarrow>
    0 \<le> b\<^sup>2 - a * c \<and> (s = (- b + sqrt (b\<^sup>2 - a * c)) / a \<or> s = (- b - sqrt (b\<^sup>2 - a * c)) / a)"
proof -
  let ?D = "b\<^sup>2 - a * c"
  have key: "a * (a * s\<^sup>2 + 2 * b * s + c) = (a * s + b)\<^sup>2 - ?D"
    by (simp add: power2_eq_square algebra_simps)
  have "a * s\<^sup>2 + 2 * b * s + c = 0 \<longleftrightarrow> a * (a * s\<^sup>2 + 2 * b * s + c) = 0"
    using a by simp
  also have "\<dots> \<longleftrightarrow> (a * s + b)\<^sup>2 = ?D"
    unfolding key by simp
  also have "\<dots> \<longleftrightarrow> 0 \<le> ?D \<and> (a * s + b = sqrt ?D \<or> a * s + b = - sqrt ?D)"
  proof
    assume h: "(a * s + b)\<^sup>2 = ?D"
    then have "0 \<le> ?D" by (metis zero_le_power2)
    moreover have "sqrt ?D = \<bar>a * s + b\<bar>" using h by (metis real_sqrt_abs)
    ultimately show "0 \<le> ?D \<and> (a * s + b = sqrt ?D \<or> a * s + b = - sqrt ?D)" by linarith
  next
    assume "0 \<le> ?D \<and> (a * s + b = sqrt ?D \<or> a * s + b = - sqrt ?D)"
    then show "(a * s + b)\<^sup>2 = ?D" by auto
  qed
  also have "\<dots> \<longleftrightarrow> 0 \<le> ?D \<and> (s = (- b + sqrt ?D) / a \<or> s = (- b - sqrt ?D) / a)"
    using a by (auto simp: field_simps)
  finally show ?thesis .
qed

lemma on_sphere_quadratic:
  "on_sphere r c e d s \<longleftrightarrow>
    dot d d * s\<^sup>2 + 2 * dot d (vsub e c) * s + (dot (vsub e c) (vsub e c) - r * r) = 0"
  by (simp add: on_sphere_def vec_simps power2_eq_square algebra_simps)

lemma ray_sphere_fst:
  assumes A: "0 < dot d d"
  shows "fst (ray_sphere r c e d near far hp hn) =
    (let B = dot d (vsub e c); D = B\<^sup>2 - dot d d * (dot (vsub e c) (vsub e c) - r * r);
         t1 = (- B + sqrt D) / dot d d; t2 = (- B - sqrt D) / dot d d;
         t = (if 0 < D \<and> near \<le> t2 then t2 else t1)
     in if 0 \<le> D \<and> in_range near far t then t else -1)"
proof -
  let ?B = "dot d (vsub e c)" and ?D = "(dot d (vsub e c))\<^sup>2 - dot d d * (dot (vsub e c) (vsub e c) - r * r)"
  have neg: "dot (vneg d) (vsub e c) = - ?B" by (simp add: vec_simps algebra_simps)
  have lt: "0 < ?D \<Longrightarrow> (- ?B - sqrt ?D) / dot d d < (- ?B + sqrt ?D) / dot d d"
    using A by (simp add: divide_strict_right_mono)
  show ?thesis
    using lt by (auto simp: ray_sphere_def Let_def neg)
qed


lemma sphere_hit_roots:
  assumes A: "0 < dot d d"
  shows "sphere_hit r c e d near far s \<longleftrightarrow> in_range near far s \<and>
    (let B = dot d (vsub e c); D = B\<^sup>2 - dot d d * (dot (vsub e c) (vsub e c) - r * r)
     in 0 \<le> D \<and> (s = (- B + sqrt D) / dot d d \<or> s = (- B - sqrt D) / dot d d))"
  using quad_root_iff [OF A, of s "dot d (vsub e c)" "dot (vsub e c) (vsub e c) - r * r"]
  by (simp add: sphere_hit_def on_sphere_quadratic Let_def)

lemma ray_sphere_least:
  assumes A: "0 < dot d d" and nr: "-1 < near"
  shows "(fst (ray_sphere r c e d near far hp hn) = -1 \<and> (\<forall>s. \<not> sphere_hit r c e d near far s)) \<or>
    least_hit (sphere_hit r c e d near far) (fst (ray_sphere r c e d near far hp hn))"
proof -
  define B where "B = dot d (vsub e c)"
  define D where "D = B\<^sup>2 - dot d d * (dot (vsub e c) (vsub e c) - r * r)"
  define t1 where "t1 = (- B + sqrt D) / dot d d"
  define t2 where "t2 = (- B - sqrt D) / dot d d"
  have res: "fst (ray_sphere r c e d near far hp hn) =
      (let t = (if 0 < D \<and> near \<le> t2 then t2 else t1) in if 0 \<le> D \<and> in_range near far t then t else -1)"
    unfolding B_def D_def t1_def t2_def Let_def by (rule ray_sphere_fst [OF A, unfolded Let_def])
  have hit: "sphere_hit r c e d near far s \<longleftrightarrow> in_range near far s \<and> 0 \<le> D \<and> (s = t1 \<or> s = t2)" for s
    by (simp only: sphere_hit_roots [OF A] B_def D_def t1_def t2_def Let_def)
  have le: "0 \<le> D \<Longrightarrow> t2 \<le> t1"
    using A by (simp add: t1_def t2_def divide_right_mono)
  have eq0: "D = 0 \<Longrightarrow> t1 = t2" by (simp add: t1_def t2_def)
  have nm: "in_range near far t \<Longrightarrow> t \<noteq> -1" for t using nr by (auto simp: in_range_def)
  show ?thesis
  proof (cases "0 < D \<and> near \<le> t2")
    case True
    show ?thesis
    proof (cases "in_range near far t2")
      case True
      with \<open>0 < D \<and> near \<le> t2\<close> have "least_hit (sphere_hit r c e d near far) t2"
        using le by (auto simp: least_hit_def hit)
      with True \<open>0 < D \<and> near \<le> t2\<close> show ?thesis by (simp add: res)
    next
      case False
      then have "\<not> in_range near far t1" using le \<open>0 < D \<and> near \<le> t2\<close> by (auto simp: in_range_def)
      with False \<open>0 < D \<and> near \<le> t2\<close> show ?thesis by (auto simp: res hit)
    qed
  next
    case False
    then have no2: "in_range near far t2 \<Longrightarrow> 0 \<le> D \<Longrightarrow> t2 = t1"
      using eq0 by (auto simp: in_range_def)
    show ?thesis
    proof (cases "0 \<le> D \<and> in_range near far t1")
      case True
      then have "least_hit (sphere_hit r c e d near far) t1"
        using no2 by (auto simp: least_hit_def hit)
      with True False show ?thesis by (auto simp: res)
    next
      case False': False
      with no2 False show ?thesis by (auto simp: res hit)
    qed
  qed
qed

text \<open>C9: for a non-zero direction, \<open>ray_sphere\<close> returns the least parameter in
  \<open>[near, far]\<close> at which the ray meets the sphere, or \<open>-1\<close> when there is none; the
  root choice of lines 103-112 picks the nearer root exactly when it is at least \<open>near\<close>.\<close>

theorem ray_sphere_nearest:
  assumes A: "0 < dot d d" and nr: "-1 < near"
  shows "(fst (ray_sphere r c e d near far hp hn) = -1 \<and> (\<forall>s. \<not> sphere_hit r c e d near far s)) \<or>
    least_hit (sphere_hit r c e d near far) (fst (ray_sphere r c e d near far hp hn))"
  using assms by (rule ray_sphere_least)

lemma ray_sphere_ex_fst:
  "fst (ray_sphere 1 (Vec 0 0 (-5)) (Vec 0 0 0) (Vec 0 0 (-1)) 1 0 hp hn) = 4"
  by (simp add: ray_sphere_def vec_simps in_range_def)

lemma ray_sphere_nearest_witness:
  "0 < dot (Vec 0 0 (-1)) (Vec 0 0 (-1)) \<and> -1 < (1::real) \<and>
   sphere_hit 1 (Vec 0 0 (-5)) (Vec 0 0 0) (Vec 0 0 (-1)) 1 0 4"
proof -
  have A: "0 < dot (Vec 0 0 (-1)) (Vec 0 0 (-1))" by (simp add: dot_def)
  have n: "-1 < (1::real)" by simp
  from ray_sphere_nearest [OF A n, of 1 "Vec 0 0 (-5)" "Vec 0 0 0" 0 "vconst 0" "vconst 0"]
  have "least_hit (sphere_hit 1 (Vec 0 0 (-5)) (Vec 0 0 0) (Vec 0 0 (-1)) 1 0) 4"
    by (simp add: ray_sphere_ex_fst)
  with A show ?thesis by (simp add: least_hit_def)
qed

text \<open>C10: the scenario of the spec, for every sphere and ray of its kind: a unit ray
  aimed at the centre of a sphere of radius \<open>r > 0\<close> at distance \<open>k\<close>, with \<open>near\<close> at most
  \<open>k - r\<close> and \<open>k - r\<close> within \<open>far\<close>, hits at \<open>t = k - r\<close>, at the point \<open>e + (k - r) d\<close>
  on the near surface, with the normal \<open>-d\<close> facing back along the ray.\<close>

theorem ray_sphere_aimed:
  assumes u: "dot d d = 1" and c: "c = vadd e (smul k d)" and r: "0 < r"
    and nr: "near \<le> k - r" and fr: "far < near \<or> k - r \<le> far"
  shows "ray_sphere r c e d near far hp hn = (k - r, vadd e (smul (k - r) d), vneg d)"
proof -
  have em: "vsub e c = smul (- k) d" by (simp add: c vec_simps)
  have d1: "dot d (vsub e c) = - k" using u by (simp add: em)
  have d2: "dot (vsub e c) (vsub e c) = k * k" using u by (simp add: em)
  have dn: "dot (vneg d) (vsub e c) = k" using d1 by (simp add: dot_vneg_left)
  have disc: "(- k)\<^sup>2 - 1 * (k * k - r * r) = r\<^sup>2"
    by (simp add: power2_eq_square)
  have root: "sqrt (r\<^sup>2) = r" using r by simp
  have hpt: "vsub (vadd e (smul (k - r) d)) c = smul (- r) d"
    by (simp add: c vec_simps algebra_simps)
  have nrm: "normalize (smul (- r) d) = vneg d"
  proof -
    have "dot (smul (- r) d) (smul (- r) d) = r\<^sup>2" using u by (simp add: power2_eq_square)
    then show ?thesis using r by (simp add: normalize_def vec_simps)
  qed
  have ir: "in_range near far (k - r)" using nr fr by (auto simp: in_range_def)
  have pos: "0 < r\<^sup>2" using r by simp
  show ?thesis
    unfolding ray_sphere_def Let_def d1 d2 dn u disc root
    using r nr ir pos by (simp add: hpt nrm)
qed

lemma ray_sphere_aimed_witness:
  "dot (Vec 0 0 (-1)) (Vec 0 0 (-1)) = 1 \<and> Vec 0 0 (-5) = vadd (Vec 0 0 0) (smul 5 (Vec 0 0 (-1))) \<and>
   (0::real) < 1 \<and> (1::real) \<le> 5 - 1 \<and> ((0::real) < 1 \<or> (5::real) - 1 \<le> 0) \<and>
   ray_sphere 1 (Vec 0 0 (-5)) (Vec 0 0 0) (Vec 0 0 (-1)) 1 0 (vconst 0) (vconst 0) =
     (4, Vec 0 0 (-4), Vec 0 0 1)"
proof -
  have h: "dot (Vec 0 0 (-1)) (Vec 0 0 (-1)) = 1" "Vec 0 0 (-5) = vadd (Vec 0 0 0) (smul 5 (Vec 0 0 (-1)))"
      "(0::real) < 1" "(1::real) \<le> 5 - 1" "(0::real) < 1 \<or> (5::real) - 1 \<le> 0"
    by (simp_all add: vec_simps)
  have "ray_sphere 1 (Vec 0 0 (-5)) (Vec 0 0 0) (Vec 0 0 (-1)) 1 0 (vconst 0) (vconst 0) =
     (4, Vec 0 0 (-4), Vec 0 0 1)"
    using ray_sphere_aimed [OF h, of "vconst 0" "vconst 0"] by (simp add: vec_simps)
  with h show ?thesis by blast
qed

section \<open>ray_plane and ray_mesh\<close>

lemma plane_hit_iff:
  assumes "dot normal d \<noteq> 0"
  shows "plane_hit a normal e d near far s \<longleftrightarrow>
    in_range near far s \<and> s = dot normal (vsub a e) / dot normal d"
proof -
  have "dot normal (vsub (vadd e (smul s d)) a) = s * dot normal d - dot normal (vsub a e)"
    by (simp add: vec_simps algebra_simps)
  then show ?thesis using assms by (auto simp: plane_hit_def field_simps)
qed

lemma ray_plane_fst:
  assumes nd: "dot normal d \<noteq> 0"
  shows "fst (ray_plane a normal e d near far hp hn) =
    (let t = dot normal (vsub a e) / dot normal d in if in_range near far t then t else -1)"
proof -
  have pos: "0 < dot normal normal"
    using nd dot_zero_left [of normal d] by (auto simp: dot_self_pos)
  let ?k = "1 / sqrt (dot normal normal)"
  have k: "0 < ?k" using pos by simp
  have "dot (normalize normal) d = ?k * dot normal d" "dot (normalize normal) (vsub a e) = ?k * dot normal (vsub a e)"
    by (simp_all add: normalize_def)
  with k nd show ?thesis by (simp add: ray_plane_def Let_def)
qed

lemma ray_plane_least:
  assumes nd: "dot normal d \<noteq> 0" and nr: "-1 < near"
  shows "(fst (ray_plane a normal e d near far hp hn) = -1 \<and> (\<forall>s. \<not> plane_hit a normal e d near far s)) \<or>
    least_hit (plane_hit a normal e d near far) (fst (ray_plane a normal e d near far hp hn))"
  using nr by (auto simp: ray_plane_fst [OF nd] plane_hit_iff [OF nd] least_hit_def in_range_def Let_def)

text \<open>C11: for a ray not parallel to the plane, \<open>ray_plane\<close> returns the one parameter in
  the interval where the ray meets the plane, or \<open>-1\<close> when it lies outside.\<close>

theorem ray_plane_unique_hit:
  assumes nd: "dot normal d \<noteq> 0" and nr: "-1 < near"
  shows "(fst (ray_plane a normal e d near far hp hn) = -1 \<and> (\<forall>s. \<not> plane_hit a normal e d near far s)) \<or>
    least_hit (plane_hit a normal e d near far) (fst (ray_plane a normal e d near far hp hn))"
  using assms by (rule ray_plane_least)

lemma ray_triangle_fst:
  "fst (ray_triangle tri e d near far p n) =
     (if tri_ok tri e d \<and> in_range near far (tri_t tri e d) then tri_t tri e d else -1)"
  by (auto simp: ray_triangle_def tri_ok_def tri_t_def Let_def)

lemma ray_triangle_hit:
  "tri_ok tri e d \<Longrightarrow> in_range near far (tri_t tri e d) \<Longrightarrow>
   ray_triangle tri e d near far p n = (tri_t tri e d, vadd e (smul (tri_t tri e d) d), tri_normal tri)"
  by (auto simp: ray_triangle_def tri_ok_def tri_t_def Let_def)

subsection \<open>Barycentric signs\<close>

text \<open>The three sign components add up to \<open>dot N n\<close> for the un-normalised normal \<open>N\<close>,
  whatever the point: the three crosses sum to \<open>N\<close>.\<close>

lemma bary_sum:
  "vx (bary tri n pt) + vy (bary tri n pt) + vz (bary tri n pt) = dot (tri_cross tri) n"
  by (simp add: bary_def tri_cross_def Let_def vec_simps algebra_simps)

lemma bary_sum_normal_nonneg:
  "0 \<le> vx (bary tri (tri_normal tri) pt) + vy (bary tri (tri_normal tri) pt) + vz (bary tri (tri_normal tri) pt)"
  by (simp add: bary_sum tri_normal_def flip: tri_cross_def add: dot_normalize_self)

lemma bary_not_all_neg:
  "\<not> (vx (bary tri (tri_normal tri) pt) < 0 \<and> vy (bary tri (tri_normal tri) pt) < 0 \<and> vz (bary tri (tri_normal tri) pt) < 0)"
  using bary_sum_normal_nonneg [of tri pt] by linarith

text \<open>Weighted by the signs, the vertices give the point scaled by their sum, up to a
  multiple of the point's distance from the triangle's plane.\<close>

lemma bary_comb_x:
  "vy (bary tri n p) * vx (tv0 tri) + vz (bary tri n p) * vx (tv1 tri) + vx (bary tri n p) * vx (tv2 tri) -
     (vx (bary tri n p) + vy (bary tri n p) + vz (bary tri n p)) * vx p =
   dot (tri_cross tri) (vsub (tv0 tri) p) * vx n"
  by (simp add: bary_def tri_cross_def Let_def vec_simps algebra_simps)

lemma bary_comb_y:
  "vy (bary tri n p) * vy (tv0 tri) + vz (bary tri n p) * vy (tv1 tri) + vx (bary tri n p) * vy (tv2 tri) -
     (vx (bary tri n p) + vy (bary tri n p) + vz (bary tri n p)) * vy p =
   dot (tri_cross tri) (vsub (tv0 tri) p) * vy n"
  by (simp add: bary_def tri_cross_def Let_def vec_simps algebra_simps)

lemma bary_comb_z:
  "vy (bary tri n p) * vz (tv0 tri) + vz (bary tri n p) * vz (tv1 tri) + vx (bary tri n p) * vz (tv2 tri) -
     (vx (bary tri n p) + vy (bary tri n p) + vz (bary tri n p)) * vz p =
   dot (tri_cross tri) (vsub (tv0 tri) p) * vz n"
  by (simp add: bary_def tri_cross_def Let_def vec_simps algebra_simps)

lemma tri_normal_cross: "tri_normal tri = smul (1 / sqrt (dot (tri_cross tri) (tri_cross tri))) (tri_cross tri)"
  by (simp add: tri_normal_def tri_cross_def normalize_def)

lemma tri_hit_on_plane:
  assumes nd: "dot (tri_normal tri) d \<noteq> 0"
  shows "dot (tri_cross tri) (vsub (tv0 tri) (vadd e (smul (tri_t tri e d) d))) = 0"
proof -
  let ?k = "1 / sqrt (dot (tri_cross tri) (tri_cross tri))" and ?N = "tri_cross tri"
  have k: "?k \<noteq> 0" using nd by (auto simp: tri_normal_cross)
  have "dot (tri_normal tri) (vsub (tv0 tri) (vadd e (smul (tri_t tri e d) d))) =
        dot (tri_normal tri) (vsub (tv0 tri) e) - tri_t tri e d * dot (tri_normal tri) d"
    by (simp add: vec_simps algebra_simps)
  also have "\<dots> = 0" using nd by (simp add: tri_t_def)
  finally have "?k * dot ?N (vsub (tv0 tri) (vadd e (smul (tri_t tri e d) d))) = 0"
    by (simp add: tri_normal_cross)
  then show ?thesis using k by simp
qed

lemma tri_ok_inside:
  "tri_ok tri e d \<longleftrightarrow> dot (tri_normal tri) d \<noteq> 0 \<and>
     (let b = bary tri (tri_normal tri) (vadd e (smul (tri_t tri e d) d))
      in 0 < vx b \<and> 0 < vy b \<and> 0 < vz b)"
  using bary_not_all_neg by (auto simp: tri_ok_def Let_def)

lemma tri_ok_convex:
  assumes "tri_ok tri e d"
  shows "\<exists>\<alpha> \<beta> \<gamma>. 0 < \<alpha> \<and> 0 < \<beta> \<and> 0 < \<gamma> \<and> \<alpha> + \<beta> + \<gamma> = 1 \<and>
           vadd e (smul (tri_t tri e d) d) =
           vadd (smul \<alpha> (tv0 tri)) (vadd (smul \<beta> (tv1 tri)) (smul \<gamma> (tv2 tri)))"
proof -
  let ?p = "vadd e (smul (tri_t tri e d) d)"
  let ?b = "bary tri (tri_normal tri) ?p"
  let ?S = "vx ?b + vy ?b + vz ?b"
  have nd: "dot (tri_normal tri) d \<noteq> 0" and pos: "0 < vx ?b" "0 < vy ?b" "0 < vz ?b"
    using assms by (auto simp: tri_ok_inside Let_def)
  have S: "0 < ?S" using pos by linarith
  have pl: "dot (tri_cross tri) (vsub (tv0 tri) ?p) = 0" by (rule tri_hit_on_plane [OF nd])
  have cx: "vy ?b * vx (tv0 tri) + vz ?b * vx (tv1 tri) + vx ?b * vx (tv2 tri) = ?S * vx ?p"
    using bary_comb_x [of tri "tri_normal tri" ?p] pl by simp
  have cy: "vy ?b * vy (tv0 tri) + vz ?b * vy (tv1 tri) + vx ?b * vy (tv2 tri) = ?S * vy ?p"
    using bary_comb_y [of tri "tri_normal tri" ?p] pl by simp
  have cz: "vy ?b * vz (tv0 tri) + vz ?b * vz (tv1 tri) + vx ?b * vz (tv2 tri) = ?S * vz ?p"
    using bary_comb_z [of tri "tri_normal tri" ?p] pl by simp
  have eq: "?p = vadd (smul (vy ?b / ?S) (tv0 tri)) (vadd (smul (vz ?b / ?S) (tv1 tri)) (smul (vx ?b / ?S) (tv2 tri)))"
  proof -
    have "vx ?p = (vy ?b * vx (tv0 tri) + vz ?b * vx (tv1 tri) + vx ?b * vx (tv2 tri)) / ?S"
         "vy ?p = (vy ?b * vy (tv0 tri) + vz ?b * vy (tv1 tri) + vx ?b * vy (tv2 tri)) / ?S"
         "vz ?p = (vy ?b * vz (tv0 tri) + vz ?b * vz (tv1 tri) + vx ?b * vz (tv2 tri)) / ?S"
      using S cx cy cz by (simp_all add: field_simps)
    then show ?thesis by (simp add: vadd_def smul_def add_divide_distrib)
  qed
  have sum: "vy ?b / ?S + vz ?b / ?S + vx ?b / ?S = 1" using weights_sum_one [OF S] .
  have "0 < vy ?b / ?S" "0 < vz ?b / ?S" "0 < vx ?b / ?S" using pos S by simp_all
  then show ?thesis using sum eq by blast
qed

lemma mesh_cur_tri_upd [simp]: "mesh_cur (st\<lparr>tri_hp := a, tri_norm := b\<rparr>) = mesh_cur st"
  by (simp add: mesh_cur_def)

lemma fold_min_step_Some: "c \<noteq> None \<Longrightarrow> fold min_step xs c \<noteq> None"
  by (induction xs arbitrary: c) (auto simp: min_step_def split: option.splits)

lemma in_range_narrow:
  "in_range near far c \<Longrightarrow> in_range near c t \<Longrightarrow> in_range near far t"
  by (auto simp: in_range_def)

lemma ray_mesh_loop_spec:
  assumes "0 \<le> near" "mesh_inv near far st"
  shows "(nearest_t (ray_mesh_loop tris e d near st), mhp (ray_mesh_loop tris e d near st),
          mhp_norm (ray_mesh_loop tris e d near st)) =
         (case fold min_step (tri_hits tris e d near far) (mesh_cur st) of
            None \<Rightarrow> (nearest_t st, mhp st, mhp_norm st) | Some r \<Rightarrow> r)"
  using assms(2)
proof (induction tris arbitrary: st)
  case Nil
  then show ?case by (auto simp: tri_hits_def mesh_cur_def)
next
  case (Cons tri tris)
  let ?t = "tri_t tri e d"
  let ?r = "ray_triangle tri e d near (mfar st) (tri_hp st) (tri_norm st)"
  let ?st' = "st\<lparr>tri_hp := fst (snd ?r), tri_norm := snd (snd ?r)\<rparr>"
  let ?upd = "?st'\<lparr>nearest_t := ?t, mfar := ?t, mhp := vadd e (smul ?t d), mhp_norm := tri_normal tri\<rparr>"
  show ?case
  proof (cases "tri_ok tri e d \<and> in_range near far ?t \<and> (nearest_t st < 0 \<or> ?t < nearest_t st)")
    case True
    then have r: "?r = (?t, vadd e (smul ?t d), tri_normal tri)"
      using Cons.prems assms(1) by (intro ray_triangle_hit) (auto simp: mesh_inv_def in_range_def)
    have step: "ray_mesh_loop (tri # tris) e d near st = ray_mesh_loop tris e d near ?upd"
      using True r assms(1) by (auto simp: in_range_def)
    have inv: "mesh_inv near far ?upd" using True by (auto simp: mesh_inv_def in_range_def)
    have cur: "mesh_cur ?upd = min_step (?t, vadd e (smul ?t d), tri_normal tri) (mesh_cur st)"
      using True assms(1) by (auto simp: mesh_cur_def min_step_def in_range_def)
    have IH: "(nearest_t (ray_mesh_loop tris e d near ?upd), mhp (ray_mesh_loop tris e d near ?upd),
          mhp_norm (ray_mesh_loop tris e d near ?upd)) =
        (case fold min_step (tri_hits tris e d near far) (min_step (?t, vadd e (smul ?t d), tri_normal tri) (mesh_cur st)) of
           None \<Rightarrow> (nearest_t ?upd, mhp ?upd, mhp_norm ?upd) | Some r \<Rightarrow> r)"
      using Cons.IH [OF inv] unfolding cur .
    have hits: "tri_hits (tri # tris) e d near far =
        (?t, vadd e (smul ?t d), tri_normal tri) # tri_hits tris e d near far"
      using True by (simp add: tri_hits_def)
    have "min_step (?t, vadd e (smul ?t d), tri_normal tri) (mesh_cur st) \<noteq> None"
      by (simp add: min_step_def split: option.splits)
    then obtain y where y: "fold min_step (tri_hits tris e d near far)
        (min_step (?t, vadd e (smul ?t d), tri_normal tri) (mesh_cur st)) = Some y"
      using fold_min_step_Some by (metis not_None_eq)
    show ?thesis unfolding step hits fold_Cons comp_def using IH by (simp add: y)
  next
    case False
    obtain t' thp tn where r: "?r = (t', thp, tn)" by (cases ?r) auto
    have "fst ?r = t'" using r by simp
    then have fst_r: "\<not> (t' \<ge> near \<and> (nearest_t st < 0 \<or> t' < nearest_t st))"
      using False Cons.prems assms(1) in_range_narrow [of near far "nearest_t st" ?t]
      by (auto simp: ray_triangle_fst mesh_inv_def in_range_def split: if_splits)
    have step: "ray_mesh_loop (tri # tris) e d near st =
        ray_mesh_loop tris e d near (st\<lparr>tri_hp := thp, tri_norm := tn\<rparr>)"
      using r fst_r by (auto simp: Let_def)
    have inv: "mesh_inv near far (st\<lparr>tri_hp := thp, tri_norm := tn\<rparr>)"
      using Cons.prems by (simp add: mesh_inv_def)
    have cur: "fold min_step (tri_hits (tri # tris) e d near far) (mesh_cur st) =
        fold min_step (tri_hits tris e d near far) (mesh_cur st)"
      using False by (auto simp: tri_hits_def mesh_cur_def min_step_def)
    show ?thesis unfolding step cur using Cons.IH [OF inv] by (simp split: option.splits)
  qed
qed
lemma fold_min_step_least:
  "fold min_step xs c = Some r \<Longrightarrow>
     (r \<in> set xs \<or> c = Some r) \<and> (\<forall>x\<in>set xs. fst r \<le> fst x) \<and> (\<forall>y\<in>set_option c. fst r \<le> fst y)"
proof (induction xs arbitrary: c)
  case Nil
  then show ?case by simp
next
  case (Cons x xs)
  from Cons.prems have "fold min_step xs (min_step x c) = Some r" by simp
  note IH = Cons.IH [OF this]
  show ?case
  proof (cases c)
    case None
    with IH show ?thesis by (auto simp: min_step_def)
  next
    case (Some y)
    show ?thesis
    proof (cases "fst x < fst y")
      case True
      with IH Some show ?thesis by (auto simp: min_step_def)
    next
      case False
      with IH Some show ?thesis by (auto simp: min_step_def)
    qed
  qed
qed

lemma fold_min_step_None: "fold min_step xs None = None \<Longrightarrow> xs = []"
  using fold_min_step_Some [of "Some (hd xs)" "tl xs"] by (cases xs) (auto simp: min_step_def)

lemma ray_plane_unique_hit_witness:
  "dot (Vec 0 1 0) (Vec 0 (-1) 0) \<noteq> 0 \<and> -1 < (1::real) \<and>
   plane_hit (Vec 0 0 0) (Vec 0 1 0) (Vec 0 2 0) (Vec 0 (-1) 0) 1 0 2"
proof -
  have nd: "dot (Vec 0 1 0) (Vec 0 (-1) 0) \<noteq> 0" by (simp add: dot_def)
  have n: "-1 < (1::real)" by simp
  have ex: "fst (ray_plane (Vec 0 0 0) (Vec 0 1 0) (Vec 0 2 0) (Vec 0 (-1) 0) 1 0 (vconst 0) (vconst 0)) = 2"
    by (simp add: ray_plane_def normalize_def vec_simps in_range_def)
  from ray_plane_unique_hit [OF nd n, of "Vec 0 0 0" "Vec 0 2 0" 0 "vconst 0" "vconst 0"]
  have "least_hit (plane_hit (Vec 0 0 0) (Vec 0 1 0) (Vec 0 2 0) (Vec 0 (-1) 0) 1 0) 2"
    by (simp add: ex)
  with nd show ?thesis by (simp add: least_hit_def)
qed

lemma ray_mesh_eq_fold:
  assumes "0 \<le> near"
  shows "ray_mesh tris e d near far hp hn =
    (case fold min_step (tri_hits tris e d near far) None of None \<Rightarrow> (-1, hp, hn) | Some r \<Rightarrow> r)"
proof -
  let ?st = "\<lparr>nearest_t = -1, mfar = far, tri_hp = vconst 0, tri_norm = vconst 0, mhp = hp, mhp_norm = hn\<rparr>"
  have "mesh_inv near far ?st" by (simp add: mesh_inv_def)
  from ray_mesh_loop_spec [OF assms this, of tris e d]
  show ?thesis by (simp add: ray_mesh_def mesh_cur_def Let_def split: option.splits)
qed

text \<open>C12: the progressive narrowing of \<open>far\<close> in \<open>ray_mesh\<close> (line 186) changes nothing:
  the loop returns what a plain scan returns that keeps the first triangle hit with the
  smallest parameter, hit point and normal included, and leaves \<open>hp\<close>, \<open>hp_norm\<close>
  untouched when no triangle is hit.\<close>

theorem ray_mesh_narrowing_eq:
  assumes "0 \<le> near"
  shows "ray_mesh tris e d near far hp hn =
    (case fold min_step (tri_hits tris e d near far) None of None \<Rightarrow> (-1, hp, hn) | Some r \<Rightarrow> r)"
  using assms by (rule ray_mesh_eq_fold)

lemma ray_mesh_ex:
  "ray_mesh [ex_tri] (Vec (1/4) (1/4) 1) (Vec 0 0 (-1)) (1/2) 0 (vconst 0) (vconst 0) =
   (1, Vec (1/4) (1/4) 0, Vec 0 0 1)"
  by (simp add: ex_tri_def ray_mesh_def ray_triangle_def tri_normal_def bary_def normalize_def
      vec_simps in_range_def ALLOW_HIT_MESH_BACK_def)

lemma ray_mesh_narrowing_eq_witness:
  "0 \<le> (1/2 :: real) \<and>
   (case fold min_step (tri_hits [ex_tri] (Vec (1/4) (1/4) 1) (Vec 0 0 (-1)) (1/2) 0) None of
      None \<Rightarrow> (-1, vconst 0, vconst 0) | Some r \<Rightarrow> r) = (1, Vec (1/4) (1/4) 0, Vec 0 0 1)"
  using ray_mesh_narrowing_eq [of "1/2" "[ex_tri]" "Vec (1/4) (1/4) 1" "Vec 0 0 (-1)" 0 "vconst 0" "vconst 0"]
    ray_mesh_ex by simp

lemma ray_mesh_least:
  assumes "0 \<le> near"
  shows "(fst (ray_mesh tris e d near far hp hn) = -1 \<and> (\<forall>s. \<not> mesh_hit tris e d near far s)) \<or>
    least_hit (mesh_hit tris e d near far) (fst (ray_mesh tris e d near far hp hn))"
proof (cases "fold min_step (tri_hits tris e d near far) None")
  case None
  then have "tri_hits tris e d near far = []" by (rule fold_min_step_None)
  then have "\<forall>s. \<not> mesh_hit tris e d near far s"
    by (auto simp: mesh_hit_def tri_hits_def filter_empty_conv)
  with None show ?thesis by (simp add: ray_mesh_eq_fold [OF assms])
next
  case (Some r)
  note least = fold_min_step_least [OF Some]
  have "mesh_hit tris e d near far (fst r)"
    using least by (auto simp: mesh_hit_def tri_hits_def)
  moreover have "\<forall>s. mesh_hit tris e d near far s \<longrightarrow> fst r \<le> s"
    using least by (force simp: mesh_hit_def tri_hits_def)
  ultimately show ?thesis using Some by (simp add: ray_mesh_eq_fold [OF assms] least_hit_def)
qed

text \<open>C13: \<open>ray_mesh\<close> returns the least parameter at which the ray hits one of the
  mesh's triangles (from either side), or \<open>-1\<close>.\<close>

theorem ray_mesh_nearest:
  assumes "0 \<le> near"
  shows "(fst (ray_mesh tris e d near far hp hn) = -1 \<and> (\<forall>s. \<not> mesh_hit tris e d near far s)) \<or>
    least_hit (mesh_hit tris e d near far) (fst (ray_mesh tris e d near far hp hn))"
  using assms by (rule ray_mesh_least)

lemma ray_mesh_nearest_witness:
  "0 \<le> (1/2 :: real) \<and> tri_ok ex_tri (Vec (1/4) (1/4) 1) (Vec 0 0 (-1)) \<and>
   in_range (1/2) 0 (tri_t ex_tri (Vec (1/4) (1/4) 1) (Vec 0 0 (-1))) \<and>
   tri_t ex_tri (Vec (1/4) (1/4) 1) (Vec 0 0 (-1)) = 1"
proof -
  have n: "0 \<le> (1/2 :: real)" by simp
  from ray_mesh_nearest [OF n, of "[ex_tri]" "Vec (1/4) (1/4) 1" "Vec 0 0 (-1)" 0 "vconst 0" "vconst 0"]
  have "least_hit (mesh_hit [ex_tri] (Vec (1/4) (1/4) 1) (Vec 0 0 (-1)) (1/2) 0) 1"
    by (simp add: ray_mesh_ex)
  then show ?thesis by (auto simp: least_hit_def mesh_hit_def)
qed

text \<open>C17: the back-face branch of \<open>ray_triangle\<close> (lines 165-168) is dead code: the
  three barycentric signs add up to \<open>|N|\<close> at every point, so they are never all
  negative. A hit on the back of a triangle is accepted by the first test already (the
  signs do not depend on the side the ray comes from), so the triangle test is the
  inside test whatever \<open>ALLOW_HIT_MESH_BACK\<close> says.\<close>

theorem ray_triangle_back_branch_dead:
  "fst (ray_triangle tri e d near far p n) =
     (let nrm = tri_normal tri; t = dot nrm (vsub (tv0 tri) e) / dot nrm d;
          b = bary tri nrm (vadd e (smul t d))
      in if dot nrm d \<noteq> 0 \<and> in_range near far t \<and> 0 < vx b \<and> 0 < vy b \<and> 0 < vz b then t else -1)"
  by (simp add: ray_triangle_fst tri_ok_inside tri_t_def Let_def)

text \<open>C18: a hit that \<open>ray_triangle\<close> reports lies inside the triangle: the hit point it
  writes is a convex combination of the three vertices with positive weights.\<close>

theorem ray_triangle_hit_inside:
  assumes "0 \<le> near" and "fst (ray_triangle tri e d near far p n) \<noteq> -1"
  shows "\<exists>\<alpha> \<beta> \<gamma>. 0 < \<alpha> \<and> 0 < \<beta> \<and> 0 < \<gamma> \<and> \<alpha> + \<beta> + \<gamma> = 1 \<and>
           fst (snd (ray_triangle tri e d near far p n)) =
           vadd (smul \<alpha> (tv0 tri)) (vadd (smul \<beta> (tv1 tri)) (smul \<gamma> (tv2 tri)))"
proof -
  have ok: "tri_ok tri e d" and r: "in_range near far (tri_t tri e d)"
    using assms by (auto simp: ray_triangle_fst split: if_splits)
  show ?thesis using tri_ok_convex [OF ok] by (simp add: ray_triangle_hit [OF ok r])
qed

lemma ray_triangle_ex:
  "ray_triangle ex_tri (Vec (1/4) (1/4) 1) (Vec 0 0 (-1)) (1/2) 0 (vconst 0) (vconst 0) =
   (1, Vec (1/4) (1/4) 0, Vec 0 0 1)"
  by (simp add: ex_tri_def ray_triangle_def tri_normal_def bary_def normalize_def
      vec_simps in_range_def ALLOW_HIT_MESH_BACK_def)

lemma ray_triangle_hit_inside_witness:
  "\<exists>\<alpha> \<beta> \<gamma>. 0 < \<alpha> \<and> 0 < \<beta> \<and> 0 < \<gamma> \<and> \<alpha> + \<beta> + \<gamma> = 1 \<and>
     Vec (1/4) (1/4) 0 = vadd (smul \<alpha> (Vec 0 0 0)) (vadd (smul \<beta> (Vec 1 0 0)) (smul \<gamma> (Vec 0 1 0)))"
proof -
  have n: "0 \<le> (1/2 :: real)" by simp
  have h: "fst (ray_triangle ex_tri (Vec (1/4) (1/4) 1) (Vec 0 0 (-1)) (1/2) 0 (vconst 0) (vconst 0)) \<noteq> -1"
    by (simp add: ray_triangle_ex)
  show ?thesis using ray_triangle_hit_inside [OF n h] unfolding ray_triangle_ex by (simp add: ex_tri_def)
qed

section \<open>What the hit resolver relies on\<close>

text \<open>Every routine returns \<open>-1\<close> or a parameter in the interval; its parameter does not
  depend on the in-out arguments; and calling it with \<open>far\<close> narrowed to a value \<open>c\<close> of
  the interval gives the parameter for the full interval when that is at most \<open>c\<close>, and
  \<open>-1\<close> otherwise. \<open>hit\<close> narrows \<open>far\<close> after each nearer hit.\<close>

lemma in_range_narrow_iff:
  "in_range near far c \<Longrightarrow> in_range near c t \<longleftrightarrow> in_range near far t \<and> t \<le> c"
  by (auto simp: in_range_def)

lemma least_hit_unique: "least_hit P a \<Longrightarrow> least_hit P b \<Longrightarrow> a = b"
  by (auto simp: least_hit_def intro: order.antisym)

lemma nearest_narrow:
  assumes r1: "(r1 = -1 \<and> (\<forall>s. \<not> P s)) \<or> least_hit P r1"
    and r2: "(r2 = -1 \<and> (\<forall>s. \<not> (P s \<and> s \<le> c))) \<or> least_hit (\<lambda>s. P s \<and> s \<le> c) r2"
  shows "r2 = (if r1 \<le> c then r1 else -1)"
  using r1 r2 by (auto simp: least_hit_def intro: order.antisym)

lemma ray_sphere_range:
  "fst (ray_sphere r c e d near far hp hn) = -1 \<or> in_range near far (fst (ray_sphere r c e d near far hp hn))"
  by (simp add: ray_sphere_def Let_def)

lemma ray_plane_range:
  "fst (ray_plane a n e d near far hp hn) = -1 \<or> in_range near far (fst (ray_plane a n e d near far hp hn))"
  by (simp add: ray_plane_def Let_def)

lemma ray_triangle_range:
  "fst (ray_triangle tri e d near far hp hn) = -1 \<or> in_range near far (fst (ray_triangle tri e d near far hp hn))"
  by (simp add: ray_triangle_fst)

lemma ray_mesh_range:
  "0 \<le> near \<Longrightarrow> fst (ray_mesh tris e d near far hp hn) = -1 \<or> in_range near far (fst (ray_mesh tris e d near far hp hn))"
  using ray_mesh_least [of near tris e d far hp hn] by (auto simp: least_hit_def mesh_hit_def)

lemma intersect_range:
  "0 \<le> near \<Longrightarrow> fst (intersect ob e d near far hp hn) = -1 \<or> in_range near far (fst (intersect ob e d near far hp hn))"
  by (cases ob) (simp_all add: ray_sphere_range ray_plane_range ray_triangle_range ray_mesh_range)

lemma ray_mesh_fst_indep:
  "0 \<le> near \<Longrightarrow> fst (ray_mesh tris e d near far hp hn) = fst (ray_mesh tris e d near far hp' hn')"
  by (simp add: ray_mesh_eq_fold split: option.splits)

lemma intersect_fst_indep:
  "0 \<le> near \<Longrightarrow> fst (intersect ob e d near far hp hn) = fst (intersect ob e d near far hp' hn')"
  by (cases ob) (simp_all add: ray_sphere_def ray_plane_def ray_triangle_fst ray_mesh_fst_indep Let_def)

lemma ray_sphere_narrow:
  "in_range near far c \<Longrightarrow>
   fst (ray_sphere r ctr e d near c hp hn) =
     (let t = fst (ray_sphere r ctr e d near far hp' hn') in if t \<le> c then t else -1)"
  by (auto simp: ray_sphere_def Let_def in_range_narrow_iff)


lemma ray_plane_narrow:
  "in_range near far c \<Longrightarrow>
   fst (ray_plane a n e d near c hp hn) =
     (let t = fst (ray_plane a n e d near far hp' hn') in if t \<le> c then t else -1)"
  by (auto simp: ray_plane_def Let_def in_range_narrow_iff)

lemma ray_triangle_narrow:
  "in_range near far c \<Longrightarrow>
   fst (ray_triangle tri e d near c hp hn) =
     (let t = fst (ray_triangle tri e d near far hp' hn') in if t \<le> c then t else -1)"
  by (auto simp: ray_triangle_fst Let_def in_range_narrow_iff)

lemma mesh_hit_narrow:
  "in_range near far c \<Longrightarrow> mesh_hit tris e d near c s \<longleftrightarrow> mesh_hit tris e d near far s \<and> s \<le> c"
  by (auto simp: mesh_hit_def in_range_narrow_iff)

lemma ray_mesh_narrow:
  assumes "0 \<le> near" "in_range near far c"
  shows "fst (ray_mesh tris e d near c hp hn) =
     (let t = fst (ray_mesh tris e d near far hp' hn') in if t \<le> c then t else -1)"
proof -
  have "(fst (ray_mesh tris e d near c hp hn) = -1 \<and> (\<forall>s. \<not> (mesh_hit tris e d near far s \<and> s \<le> c))) \<or>
        least_hit (\<lambda>s. mesh_hit tris e d near far s \<and> s \<le> c) (fst (ray_mesh tris e d near c hp hn))"
  proof -
    have "mesh_hit tris e d near c = (\<lambda>s. mesh_hit tris e d near far s \<and> s \<le> c)"
      by (rule ext) (rule mesh_hit_narrow [OF assms(2)])
    then show ?thesis using ray_mesh_least [OF assms(1), of tris e d c hp hn] by simp
  qed
  from nearest_narrow [OF ray_mesh_least [OF assms(1)] this] show ?thesis by (simp add: Let_def)
qed

lemma intersect_narrow:
  "0 \<le> near \<Longrightarrow> in_range near far c \<Longrightarrow>
   fst (intersect ob e d near c hp hn) =
     (let t = fst (intersect ob e d near far hp' hn') in if t \<le> c then t else -1)"
  by (cases ob) (simp_all add: ray_sphere_narrow ray_plane_narrow ray_triangle_narrow ray_mesh_narrow)


lemma ray_sphere_point:
  "fst (ray_sphere r c e d near far hp hn) = -1 \<or>
   fst (snd (ray_sphere r c e d near far hp hn)) = vadd e (smul (fst (ray_sphere r c e d near far hp hn)) d)"
  unfolding ray_sphere_def Let_def by (simp split: if_split)

lemma ray_plane_point:
  "fst (ray_plane a n e d near far hp hn) = -1 \<or>
   fst (snd (ray_plane a n e d near far hp hn)) = vadd e (smul (fst (ray_plane a n e d near far hp hn)) d)"
  unfolding ray_plane_def Let_def by (simp split: if_split)

lemma ray_triangle_point:
  "fst (ray_triangle tri e d near far hp hn) = -1 \<or>
   fst (snd (ray_triangle tri e d near far hp hn)) = vadd e (smul (fst (ray_triangle tri e d near far hp hn)) d)"
  unfolding ray_triangle_def Let_def by (simp split: if_split)

lemma intersect_point:
  assumes "0 \<le> near" "fst (intersect ob e d near far hp hn) \<noteq> -1"
  shows "fst (snd (intersect ob e d near far hp hn)) = vadd e (smul (fst (intersect ob e d near far hp hn)) d)"
proof (cases ob)
  case (Mesh m tris)
  show ?thesis
  proof (cases "fold min_step (tri_hits tris e d near far) None")
    case None
    then show ?thesis using assms Mesh by (simp add: ray_mesh_eq_fold)
  next
    case (Some r)
    have "r \<in> set (tri_hits tris e d near far)" using fold_min_step_least [OF Some] by simp
    then have "fst (snd r) = vadd e (smul (fst r) d)" by (auto simp: tri_hits_def)
    then show ?thesis using assms(1) Mesh Some by (simp add: ray_mesh_eq_fold)
  qed
next
  case (Sphere m r c)
  then show ?thesis using assms(2) ray_sphere_point [of r c e d near far hp hn] by simp
next
  case (Plane m a n)
  then show ?thesis using assms(2) ray_plane_point [of a n e d near far hp hn] by simp
next
  case (MTriangle m tri mid)
  then show ?thesis using assms(2) ray_triangle_point [of tri e d near far hp hn] by simp
qed

end
