(* ===== verification/Hit.thy ===== *)
theory Hit
  imports Traverse Intersect
begin

text \<open>
  The hit resolver of \<open>src/src/raytracer.cpp\<close>: the scene set-up at the end of
  \<open>choose_scene\<close> (lines 81-89: the BVH and the list of planes), and \<open>hit\<close>
  (lines 240-335), which collects the candidates (the planes and the BVH traversal, or
  every object when acceleration is off), intersects each, and keeps the nearest hit
  (narrowing \<open>far\<close> to it) or, for a shadow ray (\<open>opacity_sum\<close> not \<open>NULL\<close>), adds up
  the opacity of everything in the interval. The globals \<open>scene\<close>, \<open>bvhNode\<close> and
  \<open>planes\<close> are the record \<open>render_ctx\<close>; the locals and reference parameters of
  \<open>hit\<close> are the record \<open>hit_state\<close>.
\<close>

section \<open>Scene set-up (choose_scene, lines 84-89)\<close>

record render_ctx =
  ctx_scene :: scene
  ctx_bvh :: bvh
  ctx_planes :: "object list"

text \<open>\<open>bvhNode = buildBVH(scene.objects)\<close> and the loop collecting the planes. \<open>None\<close> is
  the set-up that does not return (\<open>buildBVH\<close> on a scene with no sphere or mesh).\<close>

definition setup_ctx :: "(nat \<Rightarrow> bvh_item list \<Rightarrow> bvh_item list) \<Rightarrow> scene \<Rightarrow> render_ctx option" where
  "setup_ctx srt sc =
     do { b \<leftarrow> buildBVH srt (objects sc);
          Some \<lparr>ctx_scene = sc, ctx_bvh = b, ctx_planes = filter is_plane (objects sc)\<rparr> }"

section \<open>hit (lines 240-335)\<close>

text \<open>The state of the candidate loop: \<open>nearest_t\<close>, the (narrowed) \<open>far\<close>, the locals
  \<open>at\<close> and \<open>normal\<close> the routines write, and the reference parameters \<open>hit_at\<close>,
  \<open>hit_normal\<close>, \<open>hit_object\<close> (\<open>None\<close> for \<open>NULL\<close>) and \<open>*opacity_sum\<close> (\<open>None\<close> when
  the pointer is \<open>NULL\<close>).\<close>

record hit_state =
  h_nearest :: real
  h_far :: real
  h_at :: vec3
  h_normal :: vec3
  hit_at :: vec3
  hit_normal :: vec3
  hit_object :: "object option"
  opacity_sum :: "rgb option"

text \<open>Lines 321-331: keep a nearer positive hit; narrow \<open>far\<close> only for a non-shadow ray.\<close>

definition hit_update :: "object \<Rightarrow> real \<Rightarrow> hit_state \<Rightarrow> hit_state" where
  "hit_update obj t st =
     (if t > 0 \<and> (h_nearest st < 0 \<or> t < h_nearest st)
      then st\<lparr>h_nearest := t, h_far := (if opacity_sum st = None then t else h_far st),
              hit_at := h_at st, hit_normal := h_normal st, hit_object := Some obj\<rparr>
      else st)"

text \<open>The shadow step of lines 297-318: \<open>*opacity_sum += 1 - transmissive\<close>, clamped to
  \<open>[0, 1]\<close>.\<close>

definition add_opacity :: "object \<Rightarrow> rgb \<Rightarrow> rgb" where
  "add_opacity obj osum = vclamp (vadd osum (vsub (vconst 1) (transmissive (obj_material obj)))) 0 1"

text \<open>
  The loop over the candidates, returning \<open>hit\<close>'s result and the final state. The
  \<open>if (pick)\<close> of line 310 has its output statement commented out, so it guards the
  \<open>if\<close> that follows: the early \<open>return 1\<close> at full opacity is taken only when \<open>pick\<close>.
\<close>

fun hit_loop :: "object list \<Rightarrow> vec3 \<Rightarrow> vec3 \<Rightarrow> real \<Rightarrow> bool \<Rightarrow> hit_state \<Rightarrow> real \<times> hit_state" where
  "hit_loop [] e d near pick st = (h_nearest st, st)"
| "hit_loop (obj # objs) e d near pick st =
     (case intersect obj e d near (h_far st) (h_at st) (h_normal st) of
        (t, hp, nrm) \<Rightarrow>
          let st = st\<lparr>h_at := hp, h_normal := nrm\<rparr>
          in case opacity_sum st of
               None \<Rightarrow> hit_loop objs e d near pick (hit_update obj t st)
             | Some osum \<Rightarrow>
                 if in_range near (h_far st) t then
                   (if DISABLE_SHADOW_TRANSPARENCY
                    then (1, st\<lparr>opacity_sum := Some (vconst 1), hit_object := Some obj\<rparr>)
                    else
                      (let osum' = add_opacity obj osum;
                           st = st\<lparr>opacity_sum := Some osum'\<rparr>
                       in if pick \<and> osum' = vconst 1 then (1, st)
                          else hit_loop objs e d near pick (hit_update obj t st)))
                 else hit_loop objs e d near pick (hit_update obj t st))"

text \<open>Lines 246-267: the planes and the BVH traversal, or every object of the scene.\<close>

definition hit_candidates :: "render_ctx \<Rightarrow> vec3 \<Rightarrow> vec3 \<Rightarrow> object list" where
  "hit_candidates ctx e d =
     (if \<not> DISABLE_BVH_ACCELERATION then ctx_planes ctx @ getBVHList (ctx_bvh ctx) e d
      else objects (ctx_scene ctx))"

text \<open>The locals \<open>at\<close> and \<open>normal\<close> start as zero vectors; \<open>hit_at\<close> and \<open>hit_normal\<close>
  read them only after a routine reported a hit, which wrote them.\<close>

definition hit_init :: "real \<Rightarrow> vec3 \<Rightarrow> vec3 \<Rightarrow> object option \<Rightarrow> rgb option \<Rightarrow> hit_state" where
  "hit_init far hat hnorm hobj osum =
     \<lparr>h_nearest = -1, h_far = far, h_at = vconst 0, h_normal = vconst 0,
      hit_at = hat, hit_normal = hnorm, hit_object = hobj, opacity_sum = osum\<rparr>"

definition hit ::
  "render_ctx \<Rightarrow> vec3 \<Rightarrow> vec3 \<Rightarrow> real \<Rightarrow> real \<Rightarrow> vec3 \<Rightarrow> vec3 \<Rightarrow> object option \<Rightarrow> rgb option \<Rightarrow> bool
   \<Rightarrow> real \<times> hit_state" where
  "hit ctx e d near far hat hnorm hobj osum pick =
     hit_loop (hit_candidates ctx e d) e d near pick (hit_init far hat hnorm hobj osum)"

section \<open>Specifications\<close>

text \<open>The candidates a shadow ray meets in the interval: those whose opacity \<open>hit\<close>
  adds (the parameter does not depend on the in-out arguments, see \<open>intersect_fst_indep\<close>).\<close>

definition shadow_hits :: "object list \<Rightarrow> vec3 \<Rightarrow> vec3 \<Rightarrow> real \<Rightarrow> real \<Rightarrow> object list" where
  "shadow_hits objs e d near far =
     filter (\<lambda>obj. in_range near far (fst (intersect obj e d near far (vconst 0) (vconst 0)))) objs"

text \<open>The opacity sum with the early stop: add \<open>1 - transmissive\<close> of each candidate met,
  clamped, until the sum is \<open>(1,1,1)\<close>.\<close>

fun add_opacity_until_full :: "object list \<Rightarrow> rgb \<Rightarrow> rgb" where
  "add_opacity_until_full [] c = c"
| "add_opacity_until_full (obj # objs) c =
     (let c' = add_opacity obj c in if c' = vconst 1 then c' else add_opacity_until_full objs c')"

text \<open>The nearest-positive scan of lines 321-331 on bare parameters.\<close>

definition tmin_step :: "real \<Rightarrow> real \<Rightarrow> real" where
  "tmin_step t acc = (if 0 < t \<and> (acc < 0 \<or> t < acc) then t else acc)"

text \<open>The invariant of the loop for a non-shadow ray: no hit yet and \<open>far\<close> as given, or
  \<open>far\<close> narrowed to the nearest hit so far, which lies in the interval.\<close>

definition hit_inv :: "real \<Rightarrow> real \<Rightarrow> hit_state \<Rightarrow> bool" where
  "hit_inv near far st \<longleftrightarrow>
     opacity_sum st = None \<and>
     ((h_nearest st < 0 \<and> h_far st = far) \<or>
      (0 < h_nearest st \<and> h_far st = h_nearest st \<and> in_range near far (h_nearest st)))"

text \<open>The ray hits a primitive at parameter \<open>s\<close> of the interval (a plane only when the ray
  is not parallel to it).\<close>

definition obj_hit :: "object \<Rightarrow> vec3 \<Rightarrow> vec3 \<Rightarrow> real \<Rightarrow> real \<Rightarrow> real \<Rightarrow> bool" where
  "obj_hit ob e d near far s \<longleftrightarrow>
     (case ob of
        Sphere _ r c \<Rightarrow> sphere_hit r c e d near far s
      | Plane _ a n \<Rightarrow> dot n d \<noteq> 0 \<and> plane_hit a n e d near far s
      | Mesh _ tris \<Rightarrow> mesh_hit tris e d near far s
      | MTriangle _ tri _ \<Rightarrow> mesh_hit [tri] e d near far s)"

text \<open>Some object of a list is hit at \<open>s\<close>.\<close>

definition hit_some :: "object list \<Rightarrow> vec3 \<Rightarrow> vec3 \<Rightarrow> real \<Rightarrow> real \<Rightarrow> real \<Rightarrow> bool" where
  "hit_some objs e d near far s \<longleftrightarrow> (\<exists>ob\<in>set objs. obj_hit ob e d near far s)"

text \<open>The object lists \<open>json_to_scene\<close> builds: no \<open>MTriangle\<close> (those only arise in
  \<open>buildBVH\<close>) and no sphere of negative radius.\<close>

definition scene_ok :: "object list \<Rightarrow> bool" where
  "scene_ok objs =
     list_all (\<lambda>ob. case ob of Sphere _ r _ \<Rightarrow> 0 \<le> r | MTriangle _ _ _ \<Rightarrow> False | _ \<Rightarrow> True) objs"

text \<open>An example scene for the witnesses: the objects of \<open>ex_objs\<close>, and the context
  \<open>choose_scene\<close> sets up for it.\<close>

definition ex_scene :: scene where
  "ex_scene = \<lparr>camera = \<lparr>field = 60, background = vconst 0\<rparr>, objects = ex_objs, lights = []\<rparr>"

definition ex_ctx :: render_ctx where
  "ex_ctx = \<lparr>ctx_scene = ex_scene, ctx_bvh = ex_bvh,
             ctx_planes = [Plane default_material (Vec 0 0 0) (Vec 0 1 0)]\<rparr>"

section \<open>Properties\<close>

lemma hit_update_opacity [simp]: "opacity_sum (hit_update obj t st) = opacity_sum st"
  by (simp add: hit_update_def)

lemma hit_update_far_shadow: "opacity_sum st \<noteq> None \<Longrightarrow> h_far (hit_update obj t st) = h_far st"
  by (auto simp: hit_update_def)

lemma add_opacity_unit [simp]: "in_unit (add_opacity obj c)"
  by (simp add: add_opacity_def)

lemma add_opacity_full:
  "vle (transmissive (obj_material obj)) (vconst 1) \<Longrightarrow> add_opacity obj (vconst 1) = vconst 1"
  by (simp add: add_opacity_def vec_simps fclamp_def)

lemma fold_add_opacity_full:
  "\<forall>obj\<in>set objs. vle (transmissive (obj_material obj)) (vconst 1) \<Longrightarrow> fold add_opacity objs (vconst 1) = vconst 1"
  by (induction objs) (simp_all add: add_opacity_full)

lemma shadow_hits_Cons:
  "0 \<le> near \<Longrightarrow> shadow_hits (obj # objs) e d near far =
     (if in_range near far (fst (intersect obj e d near far hp hn)) then obj # shadow_hits objs e d near far
      else shadow_hits objs e d near far)"
  using intersect_fst_indep [of near obj e d far hp hn "vconst 0" "vconst 0"] by (simp add: shadow_hits_def)

lemma hit_loop_shadow:
  assumes "0 \<le> near" "opacity_sum st = Some osum"
  shows "opacity_sum (snd (hit_loop objs e d near False st)) =
           Some (fold add_opacity (shadow_hits objs e d near (h_far st)) osum)"
  using assms(2)
proof (induction objs arbitrary: st osum)
  case Nil
  then show ?case by (simp add: shadow_hits_def)
next
  case (Cons obj objs)
  obtain t hp nrm where i: "intersect obj e d near (h_far st) (h_at st) (h_normal st) = (t, hp, nrm)"
    by (metis prod_cases3)
  show ?case
    using Cons.prems Cons.IH i shadow_hits_Cons [OF assms(1), of obj objs e d "h_far st" "h_at st" "h_normal st"]
    by (simp add: Let_def hit_update_far_shadow config_simps)
qed

lemma hit_loop_shadow_pick:
  assumes "0 \<le> near" "opacity_sum st = Some osum"
  shows "opacity_sum (snd (hit_loop objs e d near True st)) =
           Some (add_opacity_until_full (shadow_hits objs e d near (h_far st)) osum)"
  using assms(2)
proof (induction objs arbitrary: st osum)
  case Nil
  then show ?case by (simp add: shadow_hits_def)
next
  case (Cons obj objs)
  obtain t hp nrm where i: "intersect obj e d near (h_far st) (h_at st) (h_normal st) = (t, hp, nrm)"
    by (metis prod_cases3)
  show ?case
    using Cons.prems Cons.IH i shadow_hits_Cons [OF assms(1), of obj objs e d "h_far st" "h_at st" "h_normal st"]
    by (simp add: Let_def hit_update_far_shadow config_simps)
qed

lemma hit_loop_opacity_unit:
  assumes "opacity_sum st = Some c" "in_unit c"
  shows "\<exists>c'. opacity_sum (snd (hit_loop objs e d near pick st)) = Some c' \<and> in_unit c'"
  using assms
proof (induction objs arbitrary: st c)
  case Nil
  then show ?case by simp
next
  case (Cons obj objs)
  obtain t hp nrm where i: "intersect obj e d near (h_far st) (h_at st) (h_normal st) = (t, hp, nrm)"
    by (metis prod_cases3)
  show ?case
    using Cons.prems Cons.IH i by (simp add: Let_def config_simps)
qed

lemma shadow_hits_subset: "set (shadow_hits objs e d near far) \<subseteq> set objs"
  by (auto simp: shadow_hits_def)

lemma hit_loop_pick:
  assumes "0 \<le> near" "opacity_sum st = Some c"
    and "\<forall>obj\<in>set objs. vle (transmissive (obj_material obj)) (vconst 1)"
  shows "opacity_sum (snd (hit_loop objs e d near True st)) = opacity_sum (snd (hit_loop objs e d near False st))"
  using assms(2,3)
proof (induction objs arbitrary: st c)
  case Nil
  then show ?case by simp
next
  case (Cons obj objs)
  obtain t hp nrm where i: "intersect obj e d near (h_far st) (h_at st) (h_normal st) = (t, hp, nrm)"
    by (metis prod_cases3)
  let ?st = "st\<lparr>h_at := hp, h_normal := nrm, opacity_sum := Some (vconst 1)\<rparr>"
  have full: "opacity_sum (snd (hit_loop objs e d near False (hit_update obj t ?st))) = Some (vconst 1)"
  proof -
    have "\<forall>x\<in>set (shadow_hits objs e d near (h_far (hit_update obj t ?st))).
            vle (transmissive (obj_material x)) (vconst 1)"
      using Cons.prems(2) shadow_hits_subset by fastforce
    then show ?thesis
      by (simp add: hit_loop_shadow [OF assms(1)] fold_add_opacity_full)
  qed
  show ?case
    using Cons.prems Cons.IH i full by (auto simp: Let_def config_simps)
qed

lemma hit_loop_nearest:
  assumes "0 < near" "hit_inv near far st"
  shows "fst (hit_loop objs e d near pick st) =
           fold tmin_step (map (\<lambda>ob. fst (intersect ob e d near far (vconst 0) (vconst 0))) objs) (h_nearest st)"
  using assms(2)
proof (induction objs arbitrary: st)
  case Nil
  then show ?case by simp
next
  case (Cons obj objs)
  obtain t hp nrm where i: "intersect obj e d near (h_far st) (h_at st) (h_normal st) = (t, hp, nrm)"
    by (metis prod_cases3)
  let ?v = "fst (intersect obj e d near far (vconst 0) (vconst 0))"
  have nn: "0 \<le> near" using assms(1) by simp
  have vr: "?v = -1 \<or> in_range near far ?v" by (rule intersect_range [OF nn])
  have tv: "t = (if h_nearest st < 0 then ?v else if ?v \<le> h_nearest st then ?v else -1)"
  proof (cases "h_nearest st < 0")
    case True
    then have "h_far st = far" using Cons.prems by (auto simp: hit_inv_def)
    then show ?thesis using True i intersect_fst_indep [OF nn, of obj e d far "h_at st" "h_normal st" "vconst 0" "vconst 0"]
      by simp
  next
    case False
    then have f: "h_far st = h_nearest st" "in_range near far (h_nearest st)"
      using Cons.prems by (auto simp: hit_inv_def)
    show ?thesis using False i intersect_narrow [OF nn f(2), of obj e d "h_at st" "h_normal st" "vconst 0" "vconst 0"] f(1)
      by (simp add: Let_def)
  qed
  let ?st = "hit_update obj t (st\<lparr>h_at := hp, h_normal := nrm\<rparr>)"
  have n': "h_nearest ?st = tmin_step ?v (h_nearest st)"
    using tv vr assms(1) by (auto simp: hit_update_def tmin_step_def in_range_def)
  have inv': "hit_inv near far ?st"
    using Cons.prems tv vr assms(1) by (auto simp: hit_update_def hit_inv_def in_range_def)
  have none: "opacity_sum st = None" using Cons.prems by (simp add: hit_inv_def)
  show ?case using Cons.IH [OF inv'] n' i none by simp
qed

lemma fold_tmin_step:
  assumes "acc = -1 \<or> 0 < acc"
  shows "(fold tmin_step ts acc = acc \<or> (fold tmin_step ts acc \<in> set ts \<and> 0 < fold tmin_step ts acc)) \<and>
         (\<forall>t\<in>set ts. 0 < t \<longrightarrow> 0 < fold tmin_step ts acc \<and> fold tmin_step ts acc \<le> t) \<and>
         (0 < acc \<longrightarrow> 0 < fold tmin_step ts acc \<and> fold tmin_step ts acc \<le> acc)"
  using assms
proof (induction ts arbitrary: acc)
  case Nil
  then show ?case by simp
next
  case (Cons t ts)
  have pre: "tmin_step t acc = -1 \<or> 0 < tmin_step t acc"
    using Cons.prems by (auto simp: tmin_step_def)
  note IH = Cons.IH [OF pre]
  show ?case
  proof (cases "0 < t \<and> (acc < 0 \<or> t < acc)")
    case True
    then show ?thesis using IH by (auto simp: tmin_step_def)
  next
    case False
    then show ?thesis using IH Cons.prems by (auto simp: tmin_step_def)
  qed
qed

lemma least_union:
  assumes each: "\<forall>ob\<in>set L. (v ob = -1 \<and> (\<forall>s. \<not> H ob s)) \<or> least_hit (H ob) (v ob)"
    and pos: "\<And>ob s. H ob s \<Longrightarrow> 0 < s"
  shows "(fold tmin_step (map v L) (-1) = -1 \<and> (\<forall>s. \<not> (\<exists>ob\<in>set L. H ob s))) \<or>
         least_hit (\<lambda>s. \<exists>ob\<in>set L. H ob s) (fold tmin_step (map v L) (-1))"
proof -
  define r where "r = fold tmin_step (map v L) (-1)"
  note F = fold_tmin_step [of "-1" "map v L", folded r_def, simplified]
  have hv: "ob \<in> set L \<Longrightarrow> H ob s \<Longrightarrow> least_hit (H ob) (v ob)" for ob s
    using each by auto
  have vpos: "ob \<in> set L \<Longrightarrow> H ob s \<Longrightarrow> 0 < v ob" for ob s
  proof -
    assume "ob \<in> set L" "H ob s"
    then have "H ob (v ob)" using hv by (simp add: least_hit_def)
    then show "0 < v ob" by (rule pos)
  qed
  show ?thesis
  proof (cases "r = -1")
    case True
    have "\<not> H ob s" if "ob \<in> set L" for ob s
      using F vpos [OF that] True that by fastforce
    then show ?thesis using True r_def by auto
  next
    case False
    then obtain ob0 where ob0: "ob0 \<in> set L" "r = v ob0" and rpos: "0 < r" using F by auto
    have "least_hit (H ob0) r" using each ob0 False by auto
    then have "H ob0 r" by (simp add: least_hit_def)
    moreover have "r \<le> s" if "ob \<in> set L" "H ob s" for ob s
    proof -
      have "r \<le> v ob" using F vpos [OF that] that by auto
      also have "v ob \<le> s" using hv [OF that] that(2) by (simp add: least_hit_def)
      finally show ?thesis .
    qed
    ultimately show ?thesis using ob0 r_def by (auto simp: least_hit_def)
  qed
qed

lemma obj_hit_range: "obj_hit ob e d near far s \<Longrightarrow> in_range near far s"
  by (auto simp: obj_hit_def sphere_hit_def plane_hit_def mesh_hit_def split: object.splits)

lemma ray_plane_parallel: "dot n d = 0 \<Longrightarrow> fst (ray_plane a n e d near far hp hn) = -1"
  by (simp add: ray_plane_def normalize_def)

lemma intersect_least:
  assumes "0 < near" "0 < dot d d"
  shows "(fst (intersect ob e d near far hp hn) = -1 \<and> (\<forall>s. \<not> obj_hit ob e d near far s)) \<or>
         least_hit (obj_hit ob e d near far) (fst (intersect ob e d near far hp hn))"
proof (cases ob)
  case (Sphere m r c)
  have nr: "-1 < near" using assms(1) by simp
  have eq: "obj_hit ob e d near far = sphere_hit r c e d near far"
    using Sphere by (simp add: obj_hit_def fun_eq_iff)
  show ?thesis using ray_sphere_least [OF assms(2) nr] Sphere unfolding eq by simp
next
  case (Plane m a n)
  have nr: "-1 < near" using assms(1) by simp
  show ?thesis
  proof (cases "dot n d = 0")
    case True
    then show ?thesis using Plane by (simp add: obj_hit_def ray_plane_parallel)
  next
    case False
    have eq: "obj_hit ob e d near far = plane_hit a n e d near far"
      using Plane False by (simp add: obj_hit_def fun_eq_iff)
    show ?thesis using ray_plane_least [OF False nr] Plane unfolding eq by simp
  qed
next
  case (Mesh m tris)
  have eq: "obj_hit ob e d near far = mesh_hit tris e d near far"
    using Mesh by (simp add: obj_hit_def fun_eq_iff)
  show ?thesis using ray_mesh_least [of near tris] assms(1) Mesh unfolding eq by simp
next
  case (MTriangle m tri mid)
  then show ?thesis
    by (auto simp: obj_hit_def ray_triangle_fst mesh_hit_def least_hit_def)
qed

lemma hit_loop_least:
  assumes "0 < near" "0 < dot d d" "hit_inv near far st" "h_nearest st = -1"
  shows "(fst (hit_loop objs e d near pick st) = -1 \<and> (\<forall>s. \<not> hit_some objs e d near far s)) \<or>
         least_hit (hit_some objs e d near far) (fst (hit_loop objs e d near pick st))"
proof -
  have pos: "obj_hit ob e d near far s \<Longrightarrow> 0 < s" for ob s
    using obj_hit_range [of ob e d near far s] assms(1) by (simp add: in_range_def)
  have each: "\<forall>ob\<in>set objs. (fst (intersect ob e d near far (vconst 0) (vconst 0)) = -1 \<and> (\<forall>s. \<not> obj_hit ob e d near far s)) \<or>
                least_hit (obj_hit ob e d near far) (fst (intersect ob e d near far (vconst 0) (vconst 0)))"
    using intersect_least [OF assms(1,2)] by blast
  have "hit_some objs e d near far = (\<lambda>s. \<exists>ob\<in>set objs. obj_hit ob e d near far s)"
    by (simp add: hit_some_def fun_eq_iff)
  then show ?thesis
    using least_union [OF each pos] hit_loop_nearest [OF assms(1,3)] assms(4) by simp
qed

lemma bvh_items_cases:
  "it \<in> set (bvh_items objs) \<Longrightarrow>
     (\<exists>m r c. it = (Sphere m r c, vsub c (vconst r), vadd c (vconst r)) \<and> Sphere m r c \<in> set objs) \<or>
     (\<exists>m ts tri. it = mesh_item m tri \<and> Mesh m ts \<in> set objs \<and> tri \<in> set ts)"
  by (induction objs rule: bvh_items.induct) fastforce+

lemma obj_hit_mesh_item [simp]: "obj_hit (fst (mesh_item m tri)) e d near far s = mesh_hit [tri] e d near far s"
  by (simp add: mesh_item_def Let_def obj_hit_def)

lemma mesh_hit_single: "mesh_hit ts e d near far s \<longleftrightarrow> (\<exists>tri\<in>set ts. mesh_hit [tri] e d near far s)"
  by (auto simp: mesh_hit_def)

lemma bvh_items_hit:
  "scene_ok objs \<Longrightarrow>
   (\<exists>it\<in>set (bvh_items objs). obj_hit (fst it) e d near far s) \<longleftrightarrow>
   (\<exists>ob\<in>set objs. \<not> is_plane ob \<and> obj_hit ob e d near far s)"
proof (induction objs rule: bvh_items.induct)
  case (3 m ts os)
  have "obj_hit (Mesh m ts) e d near far s \<longleftrightarrow> (\<exists>tri\<in>set ts. mesh_hit [tri] e d near far s)"
    by (simp add: obj_hit_def mesh_hit_single [of ts])
  moreover have "(\<exists>it\<in>set (map (mesh_item m) ts). obj_hit (fst it) e d near far s) \<longleftrightarrow>
                 (\<exists>tri\<in>set ts. mesh_hit [tri] e d near far s)"
    by simp
  ultimately show ?case using 3 by (simp add: scene_ok_def is_plane_def bex_Un del: set_map)
qed (auto simp: scene_ok_def is_plane_def)

lemma mesh_item_box: "fst (snd (mesh_item m tri)) = fst (tri_bounds tri)" "snd (snd (mesh_item m tri)) = snd (tri_bounds tri)"
  by (simp_all add: mesh_item_def Let_def)

lemma bvh_item_box_hit:
  assumes it: "it \<in> set (bvh_items objs)" and ok: "scene_ok objs"
    and s: "0 \<le> s" "s \<le> BIG" and h: "obj_hit (fst it) e d near far s"
  shows "ray_box (fst (snd it)) (snd (snd it)) e d"
proof -
  let ?q = "vadd e (smul s d)"
  have box: "vle (fst (snd it)) ?q \<and> vle ?q (snd (snd it))"
    using bvh_items_cases [OF it]
  proof (elim disjE exE conjE)
    fix m r c
    assume eq: "it = (Sphere m r c, vsub c (vconst r), vadd c (vconst r))" and mem: "Sphere m r c \<in> set objs"
    have r: "0 \<le> r" using ok mem by (auto simp: scene_ok_def list_all_iff)
    have "dot (vsub ?q c) (vsub ?q c) = r\<^sup>2"
      using h eq by (simp add: obj_hit_def sphere_hit_def on_sphere_def)
    then show ?thesis using sphere_box_contains [OF r] eq by simp
  next
    fix m ts tri
    assume eq: "it = mesh_item m tri"
    have ok: "tri_ok tri e d" and st: "s = tri_t tri e d"
      using h eq by (auto simp: obj_hit_def mesh_hit_def mesh_item_def Let_def)
    obtain a b c where abc: "0 < a" "0 < b" "0 < c" "a + b + c = 1"
      and q: "vadd e (smul (tri_t tri e d) d) = vadd (smul a (tv0 tri)) (vadd (smul b (tv1 tri)) (smul c (tv2 tri)))"
      using tri_ok_convex [OF ok] by blast
    have "?q = convex3 a b c tri" using q st by (simp add: convex3_def)
    then show ?thesis
      using tri_bounds_contains [of a b c tri] abc eq by (simp add: mesh_item_box)
  qed
  then show ?thesis unfolding ray_box_iff using s by blast
qed

lemma hit_some_accel:
  assumes srt: "sort_spec srt" and b: "buildBVH srt objs = Some b" and near: "0 < near"
    and ok: "scene_ok objs" and bound: "\<forall>s. hit_some objs e d near far s \<longrightarrow> s \<le> BIG"
  shows "hit_some (filter is_plane objs @ getBVHList b e d) e d near far = hit_some objs e d near far"
proof (rule ext)
  fix s
  let ?RB = "\<lambda>it. ray_box (fst (snd it)) (snd (snd it)) e d"
  have sub: "subdivide srt (bvh_items objs) = Some b" using b by (simp add: buildBVH_def)
  have wf: "bvh_wf b" using subdivide_wf_box [OF srt sub] by simp
  have leaves: "set (bvh_leaves b) = set (bvh_items objs)"
    using subdivide_leaves [OF srt sub] by (metis set_mset_mset)
  have cand: "hit_some (filter is_plane objs @ getBVHList b e d) e d near far s \<longleftrightarrow>
      (\<exists>ob\<in>set objs. is_plane ob \<and> obj_hit ob e d near far s) \<or>
      (\<exists>it\<in>set (bvh_items objs). ?RB it \<and> obj_hit (fst it) e d near far s)"
    by (auto simp: hit_some_def getBVHList_eq_filter [OF wf] leaves)
  show "hit_some (filter is_plane objs @ getBVHList b e d) e d near far s = hit_some objs e d near far s"
  proof
    assume "hit_some (filter is_plane objs @ getBVHList b e d) e d near far s"
    then show "hit_some objs e d near far s"
      unfolding cand using bvh_items_hit [OF ok, of e d near far s] by (auto simp: hit_some_def)
  next
    assume h: "hit_some objs e d near far s"
    then obtain ob where ob: "ob \<in> set objs" "obj_hit ob e d near far s" by (auto simp: hit_some_def)
    have s: "0 \<le> s" "s \<le> BIG"
      using obj_hit_range [OF ob(2)] near bound h by (auto simp: in_range_def)
    show "hit_some (filter is_plane objs @ getBVHList b e d) e d near far s"
    proof (cases "is_plane ob")
      case True
      then show ?thesis unfolding cand using ob by blast
    next
      case False
      then obtain it where it: "it \<in> set (bvh_items objs)" "obj_hit (fst it) e d near far s"
        using bvh_items_hit [OF ok, of e d near far s] ob by blast
      have "?RB it" by (rule bvh_item_box_hit [OF it(1) ok s it(2)])
      then show ?thesis unfolding cand using it by blast
    qed
  qed
qed

lemma setup_ex: "setup_ctx std_sort ex_scene = Some ex_ctx"
  by (simp add: setup_ctx_def ex_scene_def ex_ctx_def buildBVH_ex) (simp add: ex_objs_def is_plane_def)
lemma cands_ex: "hit_candidates ex_ctx (Vec 0 0 5) (Vec 0 0 (-1)) =
   [Plane default_material (Vec 0 0 0) (Vec 0 1 0), Sphere default_material 1 (Vec 0 0 0)]"
  by (simp add: hit_candidates_def ex_ctx_def ex_bvh_def ray_box_def slab_def BIG_def config_simps)
lemma hit_ex: "fst (hit ex_ctx (Vec 0 0 5) (Vec 0 0 (-1)) 1 0 (vconst 0) (vconst 0) None None False) = 4"
  by (simp add: hit_def cands_ex hit_init_def ray_plane_def ray_sphere_def normalize_def vec_simps
      in_range_def hit_update_def)
lemma bound_ex:
  assumes "hit_some ex_objs (Vec 0 0 5) (Vec 0 0 (-1)) 1 0 s"
  shows "s \<le> BIG"
proof -
  have sq: "0 \<le> (5 - s) * (5 - s)" by simp
  have "(5 - s) * (5 - s) = 1"
    using assms sq by (auto simp: hit_some_def ex_objs_def obj_hit_def sphere_hit_def on_sphere_def vec_simps)
  moreover have "(s - 4) * (s - 6) = (5 - s) * (5 - s) - 1" by (simp add: algebra_simps)
  ultimately have "s = 4 \<or> s = 6" by simp
  then show ?thesis by (auto simp: BIG_def)
qed
lemma hit_loop_result:
  "opacity_sum st = None \<Longrightarrow> fst (hit_loop objs e d near pick st) = h_nearest (snd (hit_loop objs e d near pick st))"
proof (induction objs arbitrary: st)
  case (Cons obj objs)
  obtain t hp nrm where i: "intersect obj e d near (h_far st) (h_at st) (h_normal st) = (t, hp, nrm)"
    by (metis prod_cases3)
  show ?case using Cons i by simp
qed simp
lemma hit_loop_point:
  assumes "0 \<le> near" "opacity_sum st = None"
    and "h_nearest st < 0 \<or> hit_at st = vadd e (smul (h_nearest st) d)"
  shows "h_nearest (snd (hit_loop objs e d near pick st)) < 0 \<or>
         hit_at (snd (hit_loop objs e d near pick st)) = vadd e (smul (h_nearest (snd (hit_loop objs e d near pick st))) d)"
  using assms(2,3)
proof (induction objs arbitrary: st)
  case (Cons obj objs)
  obtain t hp nrm where i: "intersect obj e d near (h_far st) (h_at st) (h_normal st) = (t, hp, nrm)"
    by (metis prod_cases3)
  have pt: "0 < t \<Longrightarrow> hp = vadd e (smul t d)"
    using intersect_point [OF assms(1), of obj e d "h_far st" "h_at st" "h_normal st"] i by simp
  let ?st = "hit_update obj t (st\<lparr>h_at := hp, h_normal := nrm\<rparr>)"
  have "h_nearest ?st < 0 \<or> hit_at ?st = vadd e (smul (h_nearest ?st) d)"
    using Cons.prems(2) pt by (auto simp: hit_update_def)
  then show ?case using Cons.IH [of ?st] Cons.prems(1) i by simp
qed simp
lemma nearest_unique:
  assumes "(r1 = -1 \<and> (\<forall>s. \<not> P s)) \<or> least_hit P r1" "(r2 = -1 \<and> (\<forall>s. \<not> P s)) \<or> least_hit P r2"
  shows "r1 = r2"
  using assms least_hit_unique [of P r1 r2] by (auto simp: least_hit_def)
lemma hit_init_inv: "hit_inv near far (hit_init far hat hn ho None)" "h_nearest (hit_init far hat hn ho osum) = -1"
  by (simp_all add: hit_inv_def hit_init_def)
lemma hit_candidates_accel:
  "setup_ctx srt sc = Some ctx \<Longrightarrow>
   \<exists>b. buildBVH srt (objects sc) = Some b \<and> hit_candidates ctx e d = filter is_plane (objects sc) @ getBVHList b e d"
  by (auto simp: setup_ctx_def hit_candidates_def config_simps split: Option.bind_splits)

subsection \<open>The object hit reports\<close>

lemma hit_update_object:
  "hit_object (hit_update obj t st) = hit_object st \<or> hit_object (hit_update obj t st) = Some obj"
  by (simp add: hit_update_def)

lemma hit_loop_object:
  "hit_object (snd (hit_loop objs e d near pick st)) = hit_object st \<or>
   hit_object (snd (hit_loop objs e d near pick st)) \<in> Some ` set objs"
proof (induction objs arbitrary: st)
  case (Cons obj objs)
  obtain t hp nrm where i: "intersect obj e d near (h_far st) (h_at st) (h_normal st) = (t, hp, nrm)"
    by (metis prod_cases3)
  have rec: "hit_object (snd (hit_loop objs e d near pick (hit_update obj t st'))) = hit_object st \<or>
             hit_object (snd (hit_loop objs e d near pick (hit_update obj t st'))) \<in> Some ` set (obj # objs)"
    if "hit_object st' = hit_object st" for st'
    using Cons.IH [of "hit_update obj t st'"] hit_update_object [of obj t st'] that by auto
  show ?case
  proof (cases "opacity_sum st")
    case None
    then show ?thesis using i rec [of "st\<lparr>h_at := hp, h_normal := nrm\<rparr>"] by simp
  next
    case (Some c)
    let ?st = "st\<lparr>h_at := hp, h_normal := nrm, opacity_sum := Some (add_opacity obj c)\<rparr>"
    show ?thesis
      using Some i rec [of "st\<lparr>h_at := hp, h_normal := nrm\<rparr>"] rec [of ?st]
      by (simp add: Let_def config_simps)
  qed
qed simp

lemma hit_loop_object_some:
  assumes "opacity_sum st = None" "0 < h_nearest st \<longrightarrow> hit_object st \<noteq> None"
  shows "0 < h_nearest (snd (hit_loop objs e d near pick st)) \<longrightarrow> hit_object (snd (hit_loop objs e d near pick st)) \<noteq> None"
  using assms
proof (induction objs arbitrary: st)
  case (Cons obj objs)
  obtain t hp nrm where i: "intersect obj e d near (h_far st) (h_at st) (h_normal st) = (t, hp, nrm)"
    by (metis prod_cases3)
  let ?st = "hit_update obj t (st\<lparr>h_at := hp, h_normal := nrm\<rparr>)"
  have "0 < h_nearest ?st \<longrightarrow> hit_object ?st \<noteq> None" using Cons.prems(2) by (simp add: hit_update_def)
  then show ?case using Cons.IH [of ?st] Cons.prems(1) i by simp
qed simp

lemma hit_object_some:
  "0 < fst (hit ctx e d near far hat hn None None pick) \<Longrightarrow> hit_object (snd (hit ctx e d near far hat hn None None pick)) \<noteq> None"
  using hit_loop_object_some [of "hit_init far hat hn None None"] hit_loop_result [of "hit_init far hat hn None None"]
  unfolding hit_def by (simp add: hit_init_def)

lemma hit_object_candidate:
  "hit_object (snd (hit ctx e d near far hat hn None osum pick)) = Some ob \<Longrightarrow> ob \<in> set (hit_candidates ctx e d)"
  using hit_loop_object [of "hit_candidates ctx e d" e d near pick "hit_init far hat hn None osum"]
  unfolding hit_def by (auto simp: hit_init_def)

lemma getBVHList_leaves: "set (getBVHList t e d) \<subseteq> fst ` set (bvh_leaves t)"
  by (induction t) auto

lemma bvh_items_material:
  shows "it \<in> set (bvh_items objs) \<Longrightarrow> \<exists>ob\<in>set objs. obj_material (fst it) = obj_material ob"
proof -
  have mm: "obj_material (fst (mesh_item m tri)) = m" for m tri by (simp add: mesh_item_def Let_def)
  assume "it \<in> set (bvh_items objs)"
  from bvh_items_cases [OF this] show ?thesis
  proof (elim disjE exE conjE)
    fix m r c assume "it = (Sphere m r c, vsub c (vconst r), vadd c (vconst r))" "Sphere m r c \<in> set objs"
    then show ?thesis by force
  next
    fix m ts tri assume "it = mesh_item m tri" "Mesh m ts \<in> set objs"
    then show ?thesis using mm by force
  qed
qed

lemma setup_ctx_scene: "setup_ctx srt sc = Some ctx \<Longrightarrow> ctx_scene ctx = sc"
  by (auto simp: setup_ctx_def split: Option.bind_splits)

lemma hit_candidates_material:
  assumes "sort_spec srt" "setup_ctx srt sc = Some ctx" "ob \<in> set (hit_candidates ctx e d)"
  shows "\<exists>ob'\<in>set (objects sc). obj_material ob = obj_material ob'"
proof -
  obtain b where b: "buildBVH srt (objects sc) = Some b"
    and c: "hit_candidates ctx e d = filter is_plane (objects sc) @ getBVHList b e d"
    using hit_candidates_accel [OF assms(2)] by blast
  have lv: "set (bvh_leaves b) = set (bvh_items (objects sc))"
    using subdivide_leaves [OF assms(1)] b by (metis buildBVH_def set_mset_mset)
  show ?thesis
  proof (cases "ob \<in> set (filter is_plane (objects sc))")
    case True
    then show ?thesis by auto
  next
    case False
    then have "ob \<in> set (getBVHList b e d)" using assms(3) c by auto
    then obtain it where "it \<in> set (bvh_leaves b)" "ob = fst it" using getBVHList_leaves [of b e d] by blast
    then show ?thesis using lv bvh_items_material by metis
  qed
qed

section \<open>Claims about hit\<close>

lemma hit_least:
  assumes "0 < near" "0 < dot d d"
  shows "(fst (hit ctx e d near far hat hn ho None pick) = -1 \<and>
            (\<forall>s. \<not> hit_some (hit_candidates ctx e d) e d near far s)) \<or>
         least_hit (hit_some (hit_candidates ctx e d) e d near far) (fst (hit ctx e d near far hat hn ho None pick))"
  unfolding hit_def by (rule hit_loop_least [OF assms]) (simp_all add: hit_init_inv)

text \<open>C19: \<open>hit\<close> on a non-shadow ray returns the least parameter at which the ray hits
  one of its candidates, or \<open>-1\<close> when it hits none: narrowing \<open>far\<close> loses no hit.\<close>

theorem hit_nearest:
  assumes "0 < near" "0 < dot d d"
  shows "(fst (hit ctx e d near far hat hn ho None pick) = -1 \<and>
            (\<forall>s. \<not> hit_some (hit_candidates ctx e d) e d near far s)) \<or>
         least_hit (hit_some (hit_candidates ctx e d) e d near far) (fst (hit ctx e d near far hat hn ho None pick))"
  using assms by (rule hit_least)

lemma hit_nearest_witness:
  "hit_some (hit_candidates ex_ctx (Vec 0 0 5) (Vec 0 0 (-1))) (Vec 0 0 5) (Vec 0 0 (-1)) 1 0 4"
proof -
  have a: "0 < (1::real)" "0 < dot (Vec 0 0 (-1)) (Vec 0 0 (-1))" by (simp_all add: dot_def)
  show ?thesis
    using hit_nearest [OF a, of ex_ctx "Vec 0 0 5" 0 "vconst 0" "vconst 0" None False]
    by (simp add: hit_ex least_hit_def)
qed

text \<open>C20: the BVH is an exact accelerator: on a scene with no negative radius and no mesh
  triangle (\<open>scene_ok\<close>; \<open>json_to_scene\<close> builds no mesh triangle), for
  a ray whose hits lie within \<open>1e30\<close> (the bound of the boxes), \<open>hit\<close> over the planes and
  the BVH traversal returns the same parameter as the loop over every object of the scene
  (the code with \<open>DISABLE_BVH_ACCELERATION\<close>).\<close>

theorem hit_accel_exact:
  assumes "sort_spec srt" "setup_ctx srt sc = Some ctx" "0 < near" "0 < dot d d"
    and "scene_ok (objects sc)" "\<forall>s. hit_some (objects sc) e d near far s \<longrightarrow> s \<le> BIG"
  shows "fst (hit ctx e d near far hat hn ho None pick) =
         fst (hit_loop (objects sc) e d near pick (hit_init far hat hn ho None))"
proof -
  obtain b where b: "buildBVH srt (objects sc) = Some b"
    and c: "hit_candidates ctx e d = filter is_plane (objects sc) @ getBVHList b e d"
    using hit_candidates_accel [OF assms(2)] by blast
  have eq: "hit_some (hit_candidates ctx e d) e d near far = hit_some (objects sc) e d near far"
    unfolding c by (rule hit_some_accel [OF assms(1) b assms(3,5,6)])
  have L: "(fst (hit_loop objs e d near pick (hit_init far hat hn ho None)) = -1 \<and>
             (\<forall>s. \<not> hit_some objs e d near far s)) \<or>
           least_hit (hit_some objs e d near far) (fst (hit_loop objs e d near pick (hit_init far hat hn ho None)))"
    for objs by (rule hit_loop_least [OF assms(3,4)]) (simp_all add: hit_init_inv)
  show ?thesis
    using L [of "hit_candidates ctx e d"] L [of "objects sc"] unfolding hit_def eq by (rule nearest_unique)
qed

lemma hit_accel_exact_witness:
  "fst (hit ex_ctx (Vec 0 0 5) (Vec 0 0 (-1)) 1 0 (vconst 0) (vconst 0) None None False) =
   fst (hit_loop ex_objs (Vec 0 0 5) (Vec 0 0 (-1)) 1 False (hit_init 0 (vconst 0) (vconst 0) None None))"
proof -
  have a: "0 < (1::real)" "0 < dot (Vec 0 0 (-1)) (Vec 0 0 (-1))" by (simp_all add: dot_def)
  have ok: "scene_ok (objects ex_scene)" by (simp add: scene_ok_def ex_scene_def ex_objs_def)
  have bd: "\<forall>s. hit_some (objects ex_scene) (Vec 0 0 5) (Vec 0 0 (-1)) 1 0 s \<longrightarrow> s \<le> BIG"
    using bound_ex by (simp add: ex_scene_def)
  show ?thesis
    using hit_accel_exact [OF sort_spec_std_sort setup_ex a ok bd] by (simp add: ex_scene_def)
qed

text \<open>C21: the hit point \<open>hit\<close> reports with a hit is the point of the ray at the returned
  parameter, whatever routine produced it.\<close>

theorem hit_point_on_ray:
  assumes "0 \<le> near" "0 < fst (hit ctx e d near far hat hn ho None pick)"
  shows "hit_at (snd (hit ctx e d near far hat hn ho None pick)) =
         vadd e (smul (fst (hit ctx e d near far hat hn ho None pick)) d)"
proof -
  let ?st = "hit_init far hat hn ho None"
  have "h_nearest ?st < 0" by (simp add: hit_init_def)
  then show ?thesis
    using hit_loop_point [OF assms(1), of ?st e d "hit_candidates ctx e d" pick]
      hit_loop_result [of ?st "hit_candidates ctx e d" e d near pick] assms(2)
    unfolding hit_def by (simp add: hit_init_def)
qed

lemma hit_point_on_ray_witness:
  "hit_at (snd (hit ex_ctx (Vec 0 0 5) (Vec 0 0 (-1)) 1 0 (vconst 0) (vconst 0) None None False)) = Vec 0 0 1"
proof -
  have a: "0 \<le> (1::real)" by simp
  have b: "0 < fst (hit ex_ctx (Vec 0 0 5) (Vec 0 0 (-1)) 1 0 (vconst 0) (vconst 0) None None False)"
    by (simp add: hit_ex)
  have "hit_at (snd (hit ex_ctx (Vec 0 0 5) (Vec 0 0 (-1)) 1 0 (vconst 0) (vconst 0) None None False)) =
        vadd (Vec 0 0 5) (smul 4 (Vec 0 0 (-1)))"
    using hit_point_on_ray [OF a b] by (simp only: hit_ex)
  then show ?thesis by (simp add: vec_simps)
qed

lemma shadow_hits_ex:
  "shadow_hits (hit_candidates ex_ctx (Vec 0 0 5) (Vec 0 0 (-1))) (Vec 0 0 5) (Vec 0 0 (-1)) 1 0 =
   [Sphere default_material 1 (Vec 0 0 0)]"
  by (simp add: cands_ex shadow_hits_def ray_plane_def ray_sphere_def normalize_def vec_simps in_range_def)

text \<open>C22: for a shadow ray (and \<open>pick\<close> off), \<open>hit\<close> adds \<open>1 - transmissive\<close> of every
  candidate the ray meets in the interval, in candidate order, clamping to \<open>[0, 1]\<close>
  after each; \<open>far\<close> is never narrowed.\<close>

theorem hit_shadow_opacity:
  assumes "0 \<le> near"
  shows "opacity_sum (snd (hit ctx e d near far hat hn ho (Some c) False)) =
         Some (fold add_opacity (shadow_hits (hit_candidates ctx e d) e d near far) c)"
  unfolding hit_def using hit_loop_shadow [OF assms, of "hit_init far hat hn ho (Some c)"]
  by (simp add: hit_init_def)

lemma hit_shadow_opacity_witness:
  "opacity_sum (snd (hit ex_ctx (Vec 0 0 5) (Vec 0 0 (-1)) 1 0 (vconst 0) (vconst 0) None (Some (vconst 0)) False)) =
   Some (vconst 1)"
proof -
  have a: "0 \<le> (1::real)" by simp
  show ?thesis
    using hit_shadow_opacity [OF a, of ex_ctx "Vec 0 0 5" "Vec 0 0 (-1)" 0 "vconst 0" "vconst 0" None "vconst 0"]
    unfolding shadow_hits_ex by (simp add: add_opacity_def default_material_def vec_simps fclamp_def)
qed

text \<open>C23: the shadow opacity \<open>hit\<close> hands back stays a colour of the unit cube, with or
  without \<open>pick\<close>, whatever the materials' transmissive colours.\<close>

theorem hit_shadow_opacity_unit:
  assumes "in_unit c"
  shows "\<exists>c'. opacity_sum (snd (hit ctx e d near far hat hn ho (Some c) pick)) = Some c' \<and> in_unit c'"
  unfolding hit_def by (rule hit_loop_opacity_unit [OF _ assms]) (simp add: hit_init_def)

lemma hit_shadow_opacity_unit_witness:
  "\<exists>c'. opacity_sum (snd (hit ex_ctx (Vec 0 0 5) (Vec 0 0 (-1)) 1 0 (vconst 0) (vconst 0) None (Some (vconst 0)) True)) = Some c' \<and>
        in_unit c'"
proof -
  have "in_unit (vconst 0)" by simp
  from hit_shadow_opacity_unit [OF this] show ?thesis .
qed

text \<open>C24: when every candidate's transmissive colour is at most \<open>(1,1,1)\<close>, the early
  return that only \<open>pick\<close> takes (line 310) does not change the shadow opacity: once
  the sum is \<open>(1,1,1)\<close> no later candidate lowers it.\<close>

theorem hit_pick_same_opacity:
  assumes "0 \<le> near" "\<forall>ob\<in>set (hit_candidates ctx e d). vle (transmissive (obj_material ob)) (vconst 1)"
  shows "opacity_sum (snd (hit ctx e d near far hat hn ho (Some c) True)) =
         opacity_sum (snd (hit ctx e d near far hat hn ho (Some c) False))"
  unfolding hit_def by (rule hit_loop_pick [OF assms(1) _ assms(2)]) (simp add: hit_init_def)

lemma hit_pick_same_opacity_witness:
  "opacity_sum (snd (hit ex_ctx (Vec 0 0 5) (Vec 0 0 (-1)) 1 0 (vconst 0) (vconst 0) None (Some (vconst 0)) True)) =
   opacity_sum (snd (hit ex_ctx (Vec 0 0 5) (Vec 0 0 (-1)) 1 0 (vconst 0) (vconst 0) None (Some (vconst 0)) False))"
proof -
  have a: "0 \<le> (1::real)" by simp
  have b: "\<forall>ob\<in>set (hit_candidates ex_ctx (Vec 0 0 5) (Vec 0 0 (-1))). vle (transmissive (obj_material ob)) (vconst 1)"
    by (simp add: cands_ex default_material_def vec_simps)
  from hit_pick_same_opacity [OF a b] show ?thesis .
qed

text \<open>C25: with \<open>pick\<close> (and only then, line 310) the shadow ray stops at the first
  candidate that brings the opacity sum to \<open>(1,1,1)\<close>: its opacity is the clamped sum
  over the candidates met up to that one. Without \<open>pick\<close> the sum runs over all of them
  (C22), so a later candidate whose transmissive colour exceeds \<open>(1,1,1)\<close> lowers it
  only when \<open>pick\<close> is off.\<close>

theorem hit_pick_stops_at_full:
  assumes "0 \<le> near"
  shows "opacity_sum (snd (hit ctx e d near far hat hn ho (Some c) True)) =
         Some (add_opacity_until_full (shadow_hits (hit_candidates ctx e d) e d near far) c)"
  unfolding hit_def using hit_loop_shadow_pick [OF assms, of "hit_init far hat hn ho (Some c)"]
  by (simp add: hit_init_def)

lemma hit_pick_stops_at_full_witness:
  "0 \<le> (1::real) \<and>
   opacity_sum (snd (hit ex_ctx (Vec 0 0 5) (Vec 0 0 (-1)) 1 0 (vconst 0) (vconst 0) None (Some (vconst 0)) True)) =
   Some (vconst 1)"
proof -
  have a: "0 \<le> (1::real)" by simp
  show ?thesis
    using hit_pick_stops_at_full [OF a, of ex_ctx "Vec 0 0 5" "Vec 0 0 (-1)" 0 "vconst 0" "vconst 0" None "vconst 0"]
    unfolding shadow_hits_ex by (simp add: add_opacity_def default_material_def vec_simps fclamp_def)
qed

text \<open>An instance of the difference: behind an opaque sphere and a sphere whose
  transmissive colour is \<open>(2,2,2)\<close> (which \<open>json_to_scene\<close> accepts), the shadow ray with
  \<open>pick\<close> stops at opacity \<open>(1,1,1)\<close>, without \<open>pick\<close> it ends at \<open>(0,0,0)\<close>.\<close>

lemma hit_pick_changes_shadow_ex:
  "opacity_sum (snd (hit_loop [Sphere default_material 1 (Vec 0 0 0),
                               Sphere (default_material\<lparr>transmissive := vconst 2\<rparr>) 1 (Vec 0 0 (-3))]
        (Vec 0 0 5) (Vec 0 0 (-1)) 1 True (hit_init 0 (vconst 0) (vconst 0) None (Some (vconst 0))))) =
     Some (vconst 1) \<and>
   opacity_sum (snd (hit_loop [Sphere default_material 1 (Vec 0 0 0),
                               Sphere (default_material\<lparr>transmissive := vconst 2\<rparr>) 1 (Vec 0 0 (-3))]
        (Vec 0 0 5) (Vec 0 0 (-1)) 1 False (hit_init 0 (vconst 0) (vconst 0) None (Some (vconst 0))))) =
     Some (vconst 0)"
  by (simp add: hit_init_def ray_sphere_def vec_simps in_range_def add_opacity_def default_material_def
      fclamp_def hit_update_def config_simps)

end
