(* ===== verification/Shade.thy ===== *)
theory Shade
  imports Hit "HOL-Library.Stream"
begin

text \<open>
  The recursive shading engine and the ray entry points of \<open>src/src/raytracer.cpp\<close>:
  \<open>randomFloat\<close>, \<open>refract\<close>, \<open>schlickRefract\<close>, the mutually recursive \<open>light\<close>,
  \<open>reflect\<close> and \<open>transmit\<close> (lines 337-575), \<open>trace\<close> and \<open>ssTrace\<close>. The global
  state of \<open>rand()\<close> is an explicit stream of draws threaded through the recursion in
  call order; the globals \<open>scene\<close> and \<open>background_colour\<close> come from \<open>render_ctx\<close>.
  Default-constructed \<open>RGB\<close> locals are the zero colour (the code compares them with
  \<open>RGB(0,0,0)\<close>). The recursion terminates by the depth measure of the
  \<^theory_text>\<open>termination\<close> proof: \<open>light\<close> recurses only below \<open>MAX_R_DEPTH\<close>.
\<close>

section \<open>Random numbers (randomFloat, lines 54-57)\<close>

type_synonym rng = "real stream"

definition randomFloat :: "rng \<Rightarrow> real \<times> rng" where
  "randomFloat r = (shd r, stl r)"

section \<open>refract (lines 361-392)\<close>

definition refract :: "vec3 \<Rightarrow> vec3 \<Rightarrow> real \<Rightarrow> bool \<times> vec3" where
  "refract r snorm ior =
     (let vi = normalize r;
          vdn = dot vi snorm;
          (eta_i, eta_r, n, vdn) = (if vdn < 0 then (1, ior, snorm, vdn) else (ior, 1, vneg snorm, - vdn));
          radicand = 1 - (eta_i * eta_i) * (1 - vdn * vdn) / (eta_r * eta_r)
      in if radicand \<ge> 0
         then (True, vsub (smul (eta_i / eta_r) (vsub vi (smul vdn n))) (smul (sqrt radicand) n))
         else (let vi = vneg vi in (False, vsub (smul (2 * dot n vi) n) vi)))"

section \<open>schlickRefract (lines 394-418)\<close>

definition schlickRefract :: "vec3 \<Rightarrow> vec3 \<Rightarrow> real \<Rightarrow> vec3 \<Rightarrow> rng \<Rightarrow> bool \<times> vec3 \<times> rng" where
  "schlickRefract r snorm ior refracted rng =
     (let refractionRatio = 1 / ior;
          unitDirection = vneg r;
          cosTheta = min (dot (vneg unitDirection) snorm) 1;
          sinTheta = sqrt (1 - cosTheta * cosTheta);
          cannotRefract = refractionRatio * sinTheta > 1;
          r0 = (1 - refractionRatio) / (1 + refractionRatio);
          r0 = r0 * r0;
          reflectance = r0 + (1 - r0) * (1 - cosTheta) ^ 5
      in if cannotRefract then (False, refracted, rng)
         else (let (x, rng') = randomFloat rng
               in if reflectance > x then (False, refracted, rng')
                  else (True, snd (refract r snorm refractionRatio), rng')))"

section \<open>Direct lighting: one light of the loop in light (lines 474-559)\<close>

definition light_vector :: "Light \<Rightarrow> vec3 \<Rightarrow> bool \<times> real \<times> vec3" where
  "light_vector lt p =
     (case lt of
        AmbientLight _ \<Rightarrow> (False, 0, vconst 0)
      | DirectionalLight _ dir \<Rightarrow> (True, 0, vneg (normalize dir))
      | PointLight _ pos \<Rightarrow> (True, vlength (vsub pos p), normalize (vsub pos p))
      | SpotLight _ pos dir cutoff \<Rightarrow>
          (let l = normalize (vsub pos p)
           in (arccos (dot l (vneg (normalize dir))) \<le> pi * cutoff / 180, vlength (vsub pos p), l)))"

definition two_sided :: "object \<Rightarrow> bool" where
  "two_sided obj \<longleftrightarrow> (case obj of Mesh _ _ \<Rightarrow> True | MTriangle _ _ _ \<Rightarrow> True | _ \<Rightarrow> False)"

definition shadow_query :: "render_ctx \<Rightarrow> vec3 \<Rightarrow> vec3 \<Rightarrow> real \<Rightarrow> bool \<Rightarrow> real \<times> rgb" where
  "shadow_query ctx p l tfar pick =
     (if \<not> DISABLE_SHADOW then
        (let (t, st) = hit ctx p l SELF_HIT tfar (vconst 0) (vconst 0) None (Some (vconst 0)) pick
         in (t, case opacity_sum st of Some c \<Rightarrow> c | None \<Rightarrow> vconst 0))
      else (-1, vconst 0))"

definition shade_light ::
  "render_ctx \<Rightarrow> object \<Rightarrow> vec3 \<Rightarrow> vec3 \<Rightarrow> vec3 \<Rightarrow> bool \<Rightarrow> Light \<Rightarrow> rgb \<Rightarrow> rgb" where
  "shade_light ctx obj e p snorm pick lt direct =
     (let mat = obj_material obj
      in case lt of
           AmbientLight c \<Rightarrow> (if \<not> DISABLE_AMBIENT then vadd direct (vmul c (ambient mat)) else direct)
         | _ \<Rightarrow>
           (let (maybe_lit, tfar, l) = light_vector lt p
            in if \<not> maybe_lit then direct
               else
                 (let (t, shadow_opacity) = shadow_query ctx p l tfar pick
                  in if t > SELF_HIT \<and> DISABLE_SHADOW_TRANSPARENCY then direct
                     else
                       (let c = light_color lt;
                            v = normalize (vsub e p);
                            dt = dot snorm l;
                            (n, dt) = (if dt < 0 \<and> ALLOW_HIT_MESH_BACK \<and> two_sided obj
                                       then (vneg snorm, - dt) else (snorm, dt))
                        in if dt > 0 then
                             (let tlc = (if \<not> DISABLE_DIFFUSE
                                         then vclamp (smul dt (vmul c (diffuse mat))) 0 1 else vconst 0);
                                  r = vsub (smul (2 * dt) n) l;
                                  rdotv = dot r v;
                                  tlc = (if rdotv > 0 \<and> \<not> DISABLE_SPECULAR
                                         then vadd tlc (vclamp (smul (rdotv powr shininess mat) (vmul c (specular mat))) 0 1)
                                         else tlc);
                                  tlc = (if \<not> DISABLE_SHADOW_TRANSPARENCY
                                         then vmul tlc (vsub (vconst 1) shadow_opacity) else tlc)
                              in vclamp (vadd direct tlc) 0 1)
                           else direct))))"

section \<open>The final composite of light (lines 562-570)\<close>

definition composite :: "material \<Rightarrow> rgb \<Rightarrow> rgb \<Rightarrow> rgb \<Rightarrow> rgb" where
  "composite mat direct rc tc =
     (let colour = direct;
          colour = (if rc \<noteq> vconst 0 then vadd colour (vmul rc (reflective mat)) else colour);
          colour = (if tc \<noteq> vconst 0
                    then vadd (vmul colour (vsub (vconst 1) (transmissive mat))) (vmul tc (transmissive mat))
                    else colour)
      in vclamp colour 0 1)"

definition bg :: "render_ctx \<Rightarrow> rgb" where
  "bg ctx = background (camera (ctx_scene ctx))"

section \<open>The secondary rays of reflect (lines 337-342) and transmit (lines 420-437)\<close>

definition reflect_ray :: "vec3 \<Rightarrow> vec3 \<Rightarrow> vec3 \<Rightarrow> vec3" where
  "reflect_ray e p snorm =
     (let v = normalize (vsub e p) in normalize (vsub (smul (2 * dot snorm v) snorm) v))"

definition transmit_ray :: "object \<Rightarrow> vec3 \<Rightarrow> vec3 \<Rightarrow> vec3 \<Rightarrow> rng \<Rightarrow> vec3 \<times> rng" where
  "transmit_ray obj e p snorm rng =
     (let mat = obj_material obj;
          vi = normalize (vsub p e)
      in if refraction mat > 0 \<and> \<not> DISABLE_REFRACTION then
           (if \<not> DISABLE_SCHLICKREFRACTION
            then (case schlickRefract vi snorm (refraction mat) vi rng of (_, vr, rng) \<Rightarrow> (vr, rng))
            else (snd (refract vi snorm (refraction mat)), rng))
         else (vi, rng))"

text \<open>The guards of lines 529-535 under which \<open>light\<close> calls \<open>reflect\<close> and \<open>transmit\<close>.\<close>

definition does_reflect :: "object \<Rightarrow> nat \<Rightarrow> bool" where
  "does_reflect obj d \<longleftrightarrow> vlength (reflective (obj_material obj)) > 0 \<and> d < MAX_R_DEPTH \<and> \<not> DISABLE_REFLECTION"

definition does_transmit :: "object \<Rightarrow> nat \<Rightarrow> bool" where
  "does_transmit obj d \<longleftrightarrow> vlength (transmissive (obj_material obj)) > 0 \<and> d < MAX_R_DEPTH \<and> \<not> DISABLE_TRANSMISSION"

section \<open>light, reflect and transmit (lines 337-575)\<close>

function light ::
  "render_ctx \<Rightarrow> object \<Rightarrow> vec3 \<Rightarrow> vec3 \<Rightarrow> vec3 \<Rightarrow> nat \<Rightarrow> bool \<Rightarrow> rng \<Rightarrow> rgb \<times> rng"
and reflect ::
  "render_ctx \<Rightarrow> object \<Rightarrow> vec3 \<Rightarrow> vec3 \<Rightarrow> vec3 \<Rightarrow> nat \<Rightarrow> bool \<Rightarrow> rng \<Rightarrow> rgb \<times> rng"
and transmit ::
  "render_ctx \<Rightarrow> object \<Rightarrow> vec3 \<Rightarrow> vec3 \<Rightarrow> vec3 \<Rightarrow> nat \<Rightarrow> bool \<Rightarrow> rng \<Rightarrow> rgb \<times> rng"
where
  "light ctx obj e p snorm d pick rng =
     (let mat = obj_material obj;
          (rc, rng) = (if does_reflect obj d then reflect ctx obj e p snorm d pick rng else (vconst 0, rng));
          (tc, rng) = (if does_transmit obj d then transmit ctx obj e p snorm d pick rng else (vconst 0, rng));
          direct = fold (shade_light ctx obj e p snorm pick) (lights (ctx_scene ctx)) (vconst 0)
      in (composite mat direct rc tc, rng))"
| "reflect ctx obj e p snorm d pick rng =
     (let r = reflect_ray e p snorm;
          (t, st) = hit ctx p r SELF_HIT 0 (vconst 0) (vconst 0) None None pick
      in if t \<ge> SELF_HIT then
           (case hit_object st of
              Some ob \<Rightarrow> light ctx ob p (hit_at st) (hit_normal st) (Suc d) pick rng
            | None \<Rightarrow> (bg ctx, rng))
         else (bg ctx, rng))"
| "transmit ctx obj e p snorm d pick rng =
     (let (vr, rng) = transmit_ray obj e p snorm rng;
          (t, st) = hit ctx p vr SELF_HIT 0 (vconst 0) (vconst 0) None None pick
      in if t \<ge> SELF_HIT then
           (case hit_object st of
              Some ob \<Rightarrow> light ctx ob p (hit_at st) (hit_normal st) (Suc d) pick rng
            | None \<Rightarrow> (bg ctx, rng))
         else (bg ctx, rng))"
  by pat_completeness auto

termination
  by (relation "measure (\<lambda>x. case x of
        Inl (ctx, obj, e, p, snorm, d, pick, rng) \<Rightarrow> (if d < MAX_R_DEPTH then 2 * (MAX_R_DEPTH - d) + 2 else 0)
      | Inr (Inl (ctx, obj, e, p, snorm, d, pick, rng)) \<Rightarrow> 2 * (MAX_R_DEPTH - d) + 1
      | Inr (Inr (ctx, obj, e, p, snorm, d, pick, rng)) \<Rightarrow> 2 * (MAX_R_DEPTH - d) + 1)")
     (auto simp: does_reflect_def does_transmit_def)

text \<open>The equations unfold into each other; proofs unfold them explicitly.\<close>

declare light.simps [simp del] reflect.simps [simp del] transmit.simps [simp del]


section \<open>trace (lines 634-650)\<close>

text \<open>\<open>colour\<close> is an out-parameter written only on a hit; the result is the returned flag,
  the colour and the random stream.\<close>

definition trace :: "render_ctx \<Rightarrow> vec3 \<Rightarrow> vec3 \<Rightarrow> rgb \<Rightarrow> bool \<Rightarrow> rng \<Rightarrow> bool \<times> rgb \<times> rng" where
  "trace ctx e s colour pick rng =
     (let d = normalize (vsub s e);
          (t, st) = hit ctx e d 1 0 (vconst 0) (vconst 0) None None pick
      in if t \<ge> 1 then
           (case hit_object st of
              Some ob \<Rightarrow> (case light ctx ob e (hit_at st) (hit_normal st) 0 pick rng of (c, rng) \<Rightarrow> (True, c, rng))
            | None \<Rightarrow> (True, colour, rng))
         else (False, colour, rng))"

section \<open>ssTrace (lines 577-632)\<close>

text \<open>The stylised-shading switches of \<open>raytracer.h\<close> (line 9) and \<open>raytracer.cpp\<close> (lines
  40-41).\<close>

definition DISABLE_TOON_SHADING :: bool where "DISABLE_TOON_SHADING = True"
definition DISABLE_OUTLINE_SHADING :: bool where "DISABLE_OUTLINE_SHADING = True"
definition DISABLE_SKETCH_SHADING :: bool where "DISABLE_SKETCH_SHADING = True"

declare DISABLE_TOON_SHADING_def [config_simps] DISABLE_OUTLINE_SHADING_def [config_simps]
  DISABLE_SKETCH_SHADING_def [config_simps]

text \<open>\<open>ss.at(i)\<close> throws \<open>std::out_of_range\<close> when the vector has fewer than four points.\<close>

datatype ss_error = OutOfRange

record ss_state =
  traceResult :: bool
  totalColor :: rgb
  totalValidTrace :: nat
  totalInvalidTrace :: nat
  totalHitObjs :: "object list"
  ss_rng :: rng

definition ss_step ::
  "render_ctx \<Rightarrow> vec3 \<Rightarrow> vec3 list \<Rightarrow> bool \<Rightarrow> nat \<Rightarrow> ss_error + ss_state \<Rightarrow> ss_error + ss_state" where
  "ss_step ctx e ss pick i acc =
     (case acc of
        Inl err \<Rightarrow> Inl err
      | Inr st \<Rightarrow>
          if i < length ss then
            (let d = normalize (vsub (ss ! i) e);
                 (t, hs) = hit ctx e d 1 0 (vconst 0) (vconst 0) None None pick
             in if t \<ge> 1 then
                  (case hit_object hs of
                     Some ob \<Rightarrow>
                       (case light ctx ob e (hit_at hs) (hit_normal hs) 0 pick (ss_rng st) of
                          (c, rng) \<Rightarrow>
                            Inr (st\<lparr>traceResult := True, totalValidTrace := Suc (totalValidTrace st),
                                    totalColor := vadd (totalColor st) c,
                                    totalHitObjs := totalHitObjs st @ [ob], ss_rng := rng\<rparr>))
                   | None \<Rightarrow> Inr (st\<lparr>traceResult := True, totalValidTrace := Suc (totalValidTrace st)\<rparr>))
                else Inr (st\<lparr>totalInvalidTrace := Suc (totalInvalidTrace st)\<rparr>))
          else Inl OutOfRange)"

definition ss_colour :: "ss_state \<Rightarrow> rgb" where
  "ss_colour st =
     (if \<not> DISABLE_TOON_SHADING then
        (let c = (if \<not> DISABLE_OUTLINE_SHADING then vconst 1
                  else if \<not> DISABLE_SKETCH_SHADING then
                    vconst (min (min (vx (totalColor st)) (vy (totalColor st))) (vz (totalColor st)))
                  else smul (1 / 4) (totalColor st));
             hs = totalHitObjs st
         in if totalValidTrace st > 0 \<and> totalInvalidTrace st > 0 then vconst 0
            else if length hs = 4 \<and> \<not> (hs ! 0 = hs ! 1 \<and> hs ! 0 = hs ! 2 \<and> hs ! 0 = hs ! 3 \<and>
                                           hs ! 1 = hs ! 2 \<and> hs ! 1 = hs ! 3 \<and> hs ! 2 = hs ! 3)
            then vconst 0 else c)
      else smul (1 / 4) (totalColor st))"

definition ssTrace ::
  "render_ctx \<Rightarrow> vec3 \<Rightarrow> vec3 list \<Rightarrow> rgb \<Rightarrow> bool \<Rightarrow> rng \<Rightarrow> ss_error + (bool \<times> rgb \<times> rng)" where
  "ssTrace ctx e ss colour pick rng =
     (case fold (ss_step ctx e ss pick) [0..<4]
             (Inr \<lparr>traceResult = False, totalColor = vconst 0, totalValidTrace = 0, totalInvalidTrace = 0,
                   totalHitObjs = [], ss_rng = rng\<rparr>) of
        Inl err \<Rightarrow> Inl err
      | Inr st \<Rightarrow> Inr (traceResult st, if traceResult st then ss_colour st else colour, ss_rng st))"


section \<open>Example scenes\<close>

text \<open>The scenes of the spec's shading scenarios: a red unit sphere under a white
  directional light, and a sphere of ambient colour \<open>(0.2,0.2,0.2)\<close> under a white ambient
  light, with the contexts \<open>choose_scene\<close> sets up for them.\<close>

definition red_mat :: material where
  "red_mat = default_material\<lparr>diffuse := Vec 1 0 0\<rparr>"

definition red_scene :: scene where
  "red_scene = \<lparr>camera = \<lparr>field = 60, background = vconst 0\<rparr>,
                objects = [Sphere red_mat 1 (Vec 0 0 (-5))],
                lights = [DirectionalLight (vconst 1) (Vec 0 0 (-1))]\<rparr>"

definition red_ctx :: render_ctx where
  "red_ctx = \<lparr>ctx_scene = red_scene,
              ctx_bvh = Leaf (Sphere red_mat 1 (Vec 0 0 (-5))) (Vec (-1) (-1) (-6)) (Vec 1 1 (-4)),
              ctx_planes = []\<rparr>"

definition amb_mat :: material where
  "amb_mat = default_material\<lparr>ambient := vconst (1/5)\<rparr>"

definition amb_scene :: scene where
  "amb_scene = \<lparr>camera = \<lparr>field = 60, background = vconst 0\<rparr>,
                objects = [Sphere amb_mat 1 (Vec 0 0 (-5))], lights = [AmbientLight (vconst 1)]\<rparr>"

definition amb_ctx :: render_ctx where
  "amb_ctx = \<lparr>ctx_scene = amb_scene,
              ctx_bvh = Leaf (Sphere amb_mat 1 (Vec 0 0 (-5))) (Vec (-1) (-1) (-6)) (Vec 1 1 (-4)),
              ctx_planes = []\<rparr>"

section \<open>Properties\<close>

lemma composite_unit [simp]: "in_unit (composite mat direct rc tc)"
  by (simp add: composite_def Let_def)

lemma light_unit: "in_unit (fst (light ctx obj e p n d pick rng))"
  by (simp add: light.simps Let_def split: prod.splits)

lemma composite_no_bounce: "composite mat direct (vconst 0) (vconst 0) = vclamp direct 0 1"
  by (simp add: composite_def)

lemma light_max_depth:
  assumes "MAX_R_DEPTH \<le> d"
  shows "light ctx obj e p n d pick rng =
           (vclamp (fold (shade_light ctx obj e p n pick) (lights (ctx_scene ctx)) (vconst 0)) 0 1, rng)"
  using assms by (simp add: light.simps composite_no_bounce does_reflect_def does_transmit_def)

lemma ss_step_Inl [simp]: "ss_step ctx e ss pick i (Inl err) = Inl err"
  by (simp add: ss_step_def)

lemma fold_ss_step_Inl [simp]: "fold (ss_step ctx e ss pick) ixs (Inl err) = Inl err"
  by (induction ixs) simp_all

lemma ss_step_short:
  "length ss \<le> i \<Longrightarrow> ss_step ctx e ss pick i (Inr st) = Inl OutOfRange"
  by (simp add: ss_step_def)

lemma ss_step_Inr: "i < length ss \<Longrightarrow> \<exists>st'. ss_step ctx e ss pick i (Inr st) = Inr st'"
  by (auto simp: ss_step_def Let_def split: prod.splits option.splits)

lemma fold_ss_step_ok:
  "\<forall>i\<in>set ixs. i < length ss \<Longrightarrow> \<exists>st'. fold (ss_step ctx e ss pick) ixs (Inr st) = Inr st'"
proof (induction ixs arbitrary: st)
  case (Cons i ixs)
  then obtain st' where "ss_step ctx e ss pick i (Inr st) = Inr st'" using ss_step_Inr by fastforce
  then show ?case using Cons by simp
qed simp

lemma fold_ss_step_error:
  "\<exists>i\<in>set ixs. length ss \<le> i \<Longrightarrow> fold (ss_step ctx e ss pick) ixs (Inr st) = Inl OutOfRange"
proof (induction ixs arbitrary: st)
  case (Cons i ixs)
  show ?case
  proof (cases "i < length ss")
    case True
    then obtain st' where "ss_step ctx e ss pick i (Inr st) = Inr st'" using ss_step_Inr by fastforce
    then show ?thesis using Cons True by auto
  next
    case False
    then have "ss_step ctx e ss pick i (Inr st) = Inl OutOfRange" by (simp add: ss_step_short)
    then show ?thesis by simp
  qed
qed simp

lemma ssTrace_error_iff: "(\<exists>err. ssTrace ctx e ss colour pick rng = Inl err) \<longleftrightarrow> length ss < 4"
proof (cases "length ss < 4")
  case True
  have "\<exists>i\<in>set [0..<4]. length ss \<le> i" using True by (intro bexI [of _ "length ss"]) auto
  then show ?thesis using True by (simp add: ssTrace_def fold_ss_step_error)
next
  case False
  have "\<forall>i\<in>set [0..<4]. i < length ss" using False by auto
  then obtain st' where "fold (ss_step ctx e ss pick) [0..<4]
      (Inr \<lparr>traceResult = False, totalColor = vconst 0, totalValidTrace = 0, totalInvalidTrace = 0,
            totalHitObjs = [], ss_rng = rng\<rparr>) = Inr st'"
    using fold_ss_step_ok by blast
  then show ?thesis using False by (simp add: ssTrace_def)
qed

lemma schlick_r0_lt_1:
  fixes rr :: real
  assumes "0 < rr"
  shows "(1 - rr) / (1 + rr) * ((1 - rr) / (1 + rr)) < 1"
proof -
  have a: "\<bar>(1 - rr) / (1 + rr)\<bar> < 1" using assms by (simp add: abs_less_iff field_simps)
  have "\<bar>(1 - rr) / (1 + rr)\<bar> * \<bar>(1 - rr) / (1 + rr)\<bar> < 1"
    using a abs_ge_zero [of "(1 - rr) / (1 + rr)"] by (metis mult_strict_mono' mult_1_right zero_le_mult_iff less_eq_real_def abs_mult_self_eq)
  then show ?thesis by (simp add: abs_mult_self_eq)
qed

lemma schlick_reflectance_gt_1:
  fixes r0 c :: real
  assumes "r0 < 1" "c < 0"
  shows "1 < r0 + (1 - r0) * (1 - c) ^ 5"
proof -
  have "1 < (1 - c) ^ 5" using assms(2) by (simp add: one_less_power)
  then have "1 - r0 < (1 - r0) * (1 - c) ^ 5" using assms(1) by simp
  then show ?thesis by simp
qed

lemma schlick_entering_no_refract:
  assumes "dot r snorm < 0" "0 < ior" "shd rng < 1"
  shows "fst (schlickRefract r snorm ior refracted rng) = False \<and> fst (snd (schlickRefract r snorm ior refracted rng)) = refracted"
proof -
  let ?rr = "1 / ior"
  have rr: "0 < ?rr" using assms(2) by simp
  have c: "min (dot (vneg (vneg r)) snorm) 1 = dot r snorm" using assms(1) by (simp add: vneg_def dot_def)
  have "1 < (1 - ?rr) / (1 + ?rr) * ((1 - ?rr) / (1 + ?rr)) +
            (1 - (1 - ?rr) / (1 + ?rr) * ((1 - ?rr) / (1 + ?rr))) * (1 - dot r snorm) ^ 5"
    by (rule schlick_reflectance_gt_1 [OF schlick_r0_lt_1 [OF rr] assms(1)])
  then show ?thesis using assms(3) c by (simp add: schlickRefract_def Let_def randomFloat_def)
qed

lemma refract_norm_sq:
  assumes "dot v v = 1" "dot n n = 1" "dot v n = c"
  shows "dot (vsub (smul k (vsub v (smul c n))) (smul s n)) (vsub (smul k (vsub v (smul c n))) (smul s n)) =
         k * k * (1 - c * c) + s * s"
  using assms by (simp add: dot_linear dot_comm [of n v] algebra_simps)

lemma reflect_norm_sq:
  assumes "dot v v = 1" "dot n n = 1"
  shows "dot (vsub (smul (2 * dot n v) n) v) (vsub (smul (2 * dot n v) n) v) = 1"
  using assms by (simp add: dot_linear dot_comm [of v n] algebra_simps)

lemma refract_unit:
  assumes n: "dot snorm snorm = 1" and r: "\<not> (vx r = 0 \<and> vy r = 0 \<and> vz r = 0)"
  shows "dot (snd (refract r snorm ior)) (snd (refract r snorm ior)) = 1"
proof -
  let ?vi = "normalize r"
  have vi: "dot ?vi ?vi = 1" by (rule dot_normalize_normalize [OF r])
  obtain ei er m c where sel:
      "(if dot ?vi snorm < 0 then (1, ior, snorm, dot ?vi snorm) else (ior, 1, vneg snorm, - dot ?vi snorm)) = (ei, er, m, c)"
    and m: "dot m m = 1" and c: "dot ?vi m = c"
    using n by (cases "dot ?vi snorm < 0") (auto simp: dot_linear)
  let ?rad = "1 - ei * ei * (1 - c * c) / (er * er)"
  have refr: "refract r snorm ior =
      (if ?rad \<ge> 0 then (True, vsub (smul (ei / er) (vsub ?vi (smul c m))) (smul (sqrt ?rad) m))
       else (False, vsub (smul (2 * dot m (vneg ?vi)) m) (vneg ?vi)))"
    unfolding refract_def Let_def sel by simp
  show ?thesis
  proof (cases "?rad \<ge> 0")
    case True
    then have t: "snd (refract r snorm ior) = vsub (smul (ei / er) (vsub ?vi (smul c m))) (smul (sqrt ?rad) m)"
      using refr by simp
    have "dot (snd (refract r snorm ior)) (snd (refract r snorm ior)) =
          ei / er * (ei / er) * (1 - c * c) + sqrt ?rad * sqrt ?rad"
      unfolding t by (rule refract_norm_sq [OF vi m c])
    also have "\<dots> = 1"
      using True by (simp add: power2_eq_square [symmetric] field_simps)
    finally show ?thesis .
  next
    case False
    then have t: "snd (refract r snorm ior) = vsub (smul (2 * dot m (vneg ?vi)) m) (vneg ?vi)"
      using refr by simp
    have v: "dot (vneg ?vi) (vneg ?vi) = 1" using vi by (simp add: dot_linear)
    show ?thesis unfolding t by (rule reflect_norm_sq [OF v m])
  qed
qed

lemma shade_light_spot_outside:
  assumes "\<not> arccos (dot (normalize (vsub pos p)) (vneg (normalize dir))) \<le> pi * cutoff / 180"
  shows "shade_light ctx obj e p snorm pick (SpotLight c pos dir cutoff) direct = direct"
  using assms by (simp add: shade_light_def light_vector_def Let_def)

lemma fold_shade_light_ambient:
  "fold (shade_light ctx obj e p snorm pick) (map AmbientLight cs) acc =
   fold (\<lambda>c acc. vadd acc (vmul c (ambient (obj_material obj)))) cs acc"
  by (induction cs arbitrary: acc) (simp_all add: shade_light_def config_simps)

lemma light_opaque:
  assumes "reflective (obj_material obj) = vconst 0" "transmissive (obj_material obj) = vconst 0"
  shows "light ctx obj e p n d pick rng =
           (vclamp (fold (shade_light ctx obj e p n pick) (lights (ctx_scene ctx)) (vconst 0)) 0 1, rng)"
  using assms by (simp add: light.simps composite_no_bounce does_reflect_def does_transmit_def)

lemma ss_step_inv:
  assumes "ss_step ctx e ss pick i (Inr st) = Inr st'"
    and "vle (vconst 0) (totalColor st)" "vle (totalColor st) (vconst (real (totalValidTrace st)))"
  shows "vle (vconst 0) (totalColor st') \<and> vle (totalColor st') (vconst (real (totalValidTrace st'))) \<and>
         totalValidTrace st' \<le> Suc (totalValidTrace st)"
proof -
  have u: "0 \<le> vx c \<and> vx c \<le> 1 \<and> 0 \<le> vy c \<and> vy c \<le> 1 \<and> 0 \<le> vz c \<and> vz c \<le> 1"
    if "light ctx' obj e' p n d pick' rng' = (c, r)" for ctx' obj e' p n d pick' rng' c r
    using light_unit [of ctx' obj e' p n d pick' rng'] that by (simp add: in_unit_def vle_def vconst_def)
  show ?thesis
    using assms
    by (auto simp: ss_step_def Let_def vle_def vconst_def vadd_def dest!: u split: if_splits prod.splits option.splits)
qed

lemma fold_ss_step_inv:
  assumes "fold (ss_step ctx e ss pick) ixs (Inr st) = Inr st'"
    and "vle (vconst 0) (totalColor st)" "vle (totalColor st) (vconst (real (totalValidTrace st)))"
  shows "vle (vconst 0) (totalColor st') \<and> vle (totalColor st') (vconst (real (totalValidTrace st'))) \<and>
         totalValidTrace st' \<le> totalValidTrace st + length ixs"
  using assms
proof (induction ixs arbitrary: st)
  case (Cons i ixs)
  show ?case
  proof (cases "ss_step ctx e ss pick i (Inr st)")
    case (Inl err)
    then show ?thesis using Cons.prems(1) by simp
  next
    case (Inr st1)
    note s1 = ss_step_inv [OF Inr Cons.prems(2,3)]
    have "fold (ss_step ctx e ss pick) ixs (Inr st1) = Inr st'" using Cons.prems(1) Inr by simp
    from Cons.IH [OF this] s1 show ?thesis by simp
  qed
qed simp

lemma ssTrace_unit_colour:
  assumes "ssTrace ctx e ss colour pick rng = Inr (b, c, r)" "in_unit colour"
  shows "in_unit c"
proof (cases "fold (ss_step ctx e ss pick) [0..<4]
            (Inr \<lparr>traceResult = False, totalColor = vconst 0, totalValidTrace = 0, totalInvalidTrace = 0,
                  totalHitObjs = [], ss_rng = rng\<rparr>)")
  case (Inl err)
  then show ?thesis using assms(1) by (simp add: ssTrace_def)
next
  case (Inr st)
  have i: "vle (vconst 0) (totalColor st) \<and> vle (totalColor st) (vconst (real (totalValidTrace st))) \<and>
           totalValidTrace st \<le> 4"
    using fold_ss_step_inv [OF Inr] by (simp add: vle_def vconst_def)
  then have "real (totalValidTrace st) \<le> 4" by simp
  then have "in_unit (smul (1 / 4) (totalColor st))"
    using i by (auto simp: in_unit_def vle_def vconst_def smul_def)
  then show ?thesis using assms Inr by (auto simp: ssTrace_def ss_colour_def config_simps split: if_splits)
qed

subsection \<open>Evaluation on the example scenes\<close>

lemma setup_red: "setup_ctx std_sort red_scene = Some red_ctx"
  by (simp add: setup_ctx_def red_scene_def red_ctx_def buildBVH_def subdivide.simps vec_simps is_plane_def)

lemma hit_red: "hit red_ctx (Vec 0 0 0) (Vec 0 0 (-1)) 1 0 (vconst 0) (vconst 0) None None False =
   (4, \<lparr>h_nearest = 4, h_far = 4, h_at = Vec 0 0 (-4), h_normal = Vec 0 0 1, hit_at = Vec 0 0 (-4),
        hit_normal = Vec 0 0 1, hit_object = Some (Sphere red_mat 1 (Vec 0 0 (-5))), opacity_sum = None\<rparr>)"
  by (simp add: hit_def hit_candidates_def red_ctx_def hit_init_def ray_box_def slab_def BIG_def config_simps
      ray_sphere_def vec_simps in_range_def hit_update_def normalize_def)

lemma shadow_red: "shadow_query red_ctx (Vec 0 0 (-4)) (Vec 0 0 1) 0 False = (-1, vconst 0)"
  by (simp add: shadow_query_def hit_def hit_candidates_def red_ctx_def hit_init_def ray_box_def slab_def BIG_def
      config_simps ray_sphere_def vec_simps in_range_def hit_update_def SELF_HIT_def)

lemma light_red: "light red_ctx (Sphere red_mat 1 (Vec 0 0 (-5))) (Vec 0 0 0) (Vec 0 0 (-4)) (Vec 0 0 1) 0 False rng =
   (Vec 1 0 0, rng)"
proof -
  have op: "reflective (obj_material (Sphere red_mat 1 (Vec 0 0 (-5)))) = vconst 0"
           "transmissive (obj_material (Sphere red_mat 1 (Vec 0 0 (-5)))) = vconst 0"
    by (simp_all add: red_mat_def default_material_def)
  have l: "light_vector (DirectionalLight (vconst 1) (Vec 0 0 (-1))) (Vec 0 0 (-4)) = (True, 0, Vec 0 0 1)"
    by (simp add: light_vector_def normalize_def vec_simps)
  have n: "normalize (vsub (Vec 0 0 0) (Vec 0 0 (-4))) = Vec 0 0 1"
    by (simp add: normalize_def vec_simps)
  have "shade_light red_ctx (Sphere red_mat 1 (Vec 0 0 (-5))) (Vec 0 0 0) (Vec 0 0 (-4)) (Vec 0 0 1) False
          (DirectionalLight (vconst 1) (Vec 0 0 (-1))) (vconst 0) = Vec 1 0 0"
    unfolding shade_light_def Let_def l by (simp add: shadow_red n config_simps red_mat_def default_material_def
        vec_simps fclamp_def two_sided_def SELF_HIT_def)
  then show ?thesis
    unfolding light_opaque [OF op] by (simp add: red_ctx_def red_scene_def vec_simps fclamp_def)
qed

lemma trace_red_eval: "trace red_ctx (Vec 0 0 0) (Vec 0 0 (-1)) colour False rng = (True, Vec 1 0 0, rng)"
proof -
  have d: "normalize (vsub (Vec 0 0 (-1)) (Vec 0 0 0)) = Vec 0 0 (-1)" by (simp add: normalize_def vec_simps)
  show ?thesis by (simp add: trace_def d hit_red light_red)
qed

lemma setup_amb: "setup_ctx std_sort amb_scene = Some amb_ctx"
  by (simp add: setup_ctx_def amb_scene_def amb_ctx_def buildBVH_def subdivide.simps vec_simps is_plane_def)

lemma hit_amb: "fst (hit amb_ctx (Vec 0 0 0) (Vec 0 0 (-1)) 1 0 (vconst 0) (vconst 0) None None False) = 4"
  by (simp add: hit_def hit_candidates_def amb_ctx_def hit_init_def ray_box_def slab_def BIG_def config_simps
      ray_sphere_def vec_simps in_range_def hit_update_def normalize_def)

lemma trace_amb_hits: "fst (trace amb_ctx (Vec 0 0 0) (Vec 0 0 (-1)) (vconst 0) False rng)"
proof -
  have d: "normalize (vsub (Vec 0 0 (-1)) (Vec 0 0 0)) = Vec 0 0 (-1)" by (simp add: normalize_def vec_simps)
  obtain st where h: "hit amb_ctx (Vec 0 0 0) (Vec 0 0 (-1)) 1 0 (vconst 0) (vconst 0) None None False = (4, st)"
    using hit_amb by (metis prod.collapse)
  show ?thesis by (simp add: trace_def d h split: prod.splits option.splits)
qed

section \<open>Claims about shading\<close>

text \<open>C26: the round trip of the spec: on a scene lit only by an ambient light of colour
  \<open>(1,1,1)\<close> whose objects all share one material, of ambient colour \<open>(0.2,0.2,0.2)\<close> and
  neither reflective nor transmissive (the spec's single sphere among them), every ray
  \<open>trace\<close> reports as a hit gets colour exactly \<open>(0.2,0.2,0.2)\<close>.\<close>

theorem trace_ambient_only:
  assumes "sort_spec srt" "setup_ctx srt sc = Some ctx" "lights sc = [AmbientLight (vconst 1)]"
    and "\<forall>ob\<in>set (objects sc). obj_material ob = m"
    and "reflective m = vconst 0" "transmissive m = vconst 0" "ambient m = vconst (1/5)"
    and "fst (trace ctx e s colour pick rng)"
  shows "fst (snd (trace ctx e s colour pick rng)) = vconst (1/5)"
proof -
  obtain t st where h: "hit ctx e (normalize (vsub s e)) 1 0 (vconst 0) (vconst 0) None None pick = (t, st)"
    by fastforce
  have t: "1 \<le> t" using assms(8) h by (auto simp: trace_def Let_def split: if_splits)
  then obtain ob where ob: "hit_object st = Some ob"
    using hit_object_some [of ctx e "normalize (vsub s e)" 1 0 "vconst 0" "vconst 0" pick] h by fastforce
  have "ob \<in> set (hit_candidates ctx e (normalize (vsub s e)))"
    using hit_object_candidate [of ctx e "normalize (vsub s e)" 1 0 "vconst 0" "vconst 0" None pick ob] h ob by simp
  then have m: "obj_material ob = m"
    using hit_candidates_material [OF assms(1,2)] assms(4) by fastforce
  have op: "reflective (obj_material ob) = vconst 0" "transmissive (obj_material ob) = vconst 0"
    using m assms(5,6) by simp_all
  have sc: "lights (ctx_scene ctx) = [AmbientLight (vconst 1)]"
    using setup_ctx_scene [OF assms(2)] assms(3) by simp
  have amb: "fold (shade_light ctx ob e (hit_at st) (hit_normal st) pick) (lights (ctx_scene ctx)) (vconst 0) =
             vadd (vconst 0) (vmul (vconst 1) (vconst (1/5)))"
    using fold_shade_light_ambient [of ctx ob e "hit_at st" "hit_normal st" pick "[vconst 1]" "vconst 0"] sc m assms(7)
    by simp
  have "fst (snd (trace ctx e s colour pick rng)) =
        vclamp (fold (shade_light ctx ob e (hit_at st) (hit_normal st) pick) (lights (ctx_scene ctx)) (vconst 0)) 0 1"
    using t h ob by (simp add: trace_def Let_def light_opaque [OF op])
  also have "\<dots> = vconst (1/5)" unfolding amb by (simp add: vec_simps fclamp_def)
  finally show ?thesis .
qed

lemma trace_ambient_only_witness:
  "fst (snd (trace amb_ctx (Vec 0 0 0) (Vec 0 0 (-1)) (vconst 0) False (sconst 0))) = vconst (1/5)"
proof -
  have l: "lights amb_scene = [AmbientLight (vconst 1)]" by (simp add: amb_scene_def)
  have o: "\<forall>ob\<in>set (objects amb_scene). obj_material ob = amb_mat" by (simp add: amb_scene_def)
  have m: "reflective amb_mat = vconst 0" "transmissive amb_mat = vconst 0" "ambient amb_mat = vconst (1/5)"
    by (simp_all add: amb_mat_def default_material_def)
  show ?thesis
    by (rule trace_ambient_only [OF sort_spec_std_sort setup_amb l o m trace_amb_hits])
qed

text \<open>C33: the colour \<open>light\<close> returns lies in the unit cube.\<close>

theorem light_colour_unit: "in_unit (fst (light ctx obj e p n d pick rng))"
  by (rule light_unit)

text \<open>C29: at depth \<open>MAX_R_DEPTH\<close> or more \<open>light\<close> takes no bounce: its colour is the clamped
  direct lighting and the random stream is untouched. A reflective surface at the cap
  contributes nothing, not the background colour the spec names.\<close>

theorem light_depth_cap:
  assumes "MAX_R_DEPTH \<le> d"
  shows "light ctx obj e p n d pick rng =
           (vclamp (fold (shade_light ctx obj e p n pick) (lights (ctx_scene ctx)) (vconst 0)) 0 1, rng)"
  using assms by (rule light_max_depth)

lemma light_depth_cap_witness:
  "light red_ctx (Sphere (default_material\<lparr>reflective := vconst 1\<rparr>) 1 (Vec 0 0 (-5))) (Vec 0 0 0) (Vec 0 0 (-4))
     (Vec 0 0 1) 8 False (sconst 0) =
   (vclamp (fold (shade_light red_ctx (Sphere (default_material\<lparr>reflective := vconst 1\<rparr>) 1 (Vec 0 0 (-5)))
      (Vec 0 0 0) (Vec 0 0 (-4)) (Vec 0 0 1) False) (lights (ctx_scene red_ctx)) (vconst 0)) 0 1, sconst 0)"
proof -
  have "MAX_R_DEPTH \<le> 8" by (simp add: MAX_R_DEPTH_def)
  from light_depth_cap [OF this] show ?thesis .
qed

text \<open>C28: the direct lighting of a two-sided surface (a mesh or mesh triangle) does not
  depend on the orientation of the stored normal: the normal is flipped towards the
  light (line 538) before the diffuse and specular terms, which compensates for
  inconsistent winding as the spec requires.\<close>

theorem shade_light_two_sided_orientation:
  assumes "two_sided obj"
  shows "shade_light ctx obj e p (vneg n) pick lt direct = shade_light ctx obj e p n pick lt direct"
proof (cases lt)
  case (AmbientLight c)
  then show ?thesis by (simp add: shade_light_def)
next
  case (DirectionalLight c dir)
  then show ?thesis using assms
    by (cases "dot n (snd (snd (light_vector lt p)))" rule: linorder_cases)
       (auto simp: shade_light_def Let_def dot_vneg_left config_simps split: prod.splits)
next
  case (PointLight c pos)
  then show ?thesis using assms
    by (cases "dot n (snd (snd (light_vector lt p)))" rule: linorder_cases)
       (auto simp: shade_light_def Let_def dot_vneg_left config_simps split: prod.splits)
next
  case (SpotLight c pos dir co)
  then show ?thesis using assms
    by (cases "dot n (snd (snd (light_vector lt p)))" rule: linorder_cases)
       (auto simp: shade_light_def Let_def dot_vneg_left config_simps split: prod.splits)
qed

lemma shade_light_two_sided_orientation_witness:
  "two_sided (MTriangle red_mat (Triangle (Vec 0 0 0) (Vec 1 0 0) (Vec 0 1 0)) (Vec 0 0 0)) \<and>
   shade_light red_ctx (MTriangle red_mat (Triangle (Vec 0 0 0) (Vec 1 0 0) (Vec 0 1 0)) (Vec 0 0 0))
     (Vec 0 0 5) (Vec 0 0 0) (vneg (Vec 0 0 1)) False (DirectionalLight (vconst 1) (Vec 0 0 (-1))) (vconst 0) =
   shade_light red_ctx (MTriangle red_mat (Triangle (Vec 0 0 0) (Vec 1 0 0) (Vec 0 1 0)) (Vec 0 0 0))
     (Vec 0 0 5) (Vec 0 0 0) (Vec 0 0 1) False (DirectionalLight (vconst 1) (Vec 0 0 (-1))) (vconst 0)"
proof -
  have a: "two_sided (MTriangle red_mat (Triangle (Vec 0 0 0) (Vec 1 0 0) (Vec 0 1 0)) (Vec 0 0 0))"
    by (simp add: two_sided_def)
  show ?thesis using shade_light_two_sided_orientation [OF a] a by blast
qed

text \<open>C30: for a ray entering a surface (\<open>dot r n < 0\<close>) and any positive index, the Schlick
  reflectance computed by \<open>schlickRefract\<close> exceeds 1, so it never refracts: the direction
  it hands back is the one it was given (with draws of \<open>randomFloat\<close> in \<open>[0, 1)\<close>).\<close>

theorem schlick_never_refracts_entering:
  assumes "dot r snorm < 0" "0 < ior" "shd rng < 1"
  shows "fst (schlickRefract r snorm ior refracted rng) = False \<and> fst (snd (schlickRefract r snorm ior refracted rng)) = refracted"
  using assms by (rule schlick_entering_no_refract)

lemma schlick_never_refracts_entering_witness:
  "\<not> fst (schlickRefract (Vec 0 0 (-1)) (Vec 0 0 1) (3/2) (Vec 0 0 (-1)) (sconst (1/2))) \<and>
   fst (snd (schlickRefract (Vec 0 0 (-1)) (Vec 0 0 1) (3/2) (Vec 0 0 (-1)) (sconst (1/2)))) = Vec 0 0 (-1)"
proof -
  have a: "dot (Vec 0 0 (-1)) (Vec 0 0 1) < 0" "0 < (3/2::real)" "shd (sconst (1/2::real)) < 1"
    by (simp_all add: dot_def)
  from schlick_never_refracts_entering [OF a] show ?thesis by simp
qed

text \<open>C31: for a unit normal and a non-zero incident direction, the direction \<open>refract\<close>
  returns has unit length, in the refracting and in the total-internal-reflection case.\<close>

theorem refract_unit_dir:
  assumes "dot snorm snorm = 1" "\<not> (vx r = 0 \<and> vy r = 0 \<and> vz r = 0)"
  shows "dot (snd (refract r snorm ior)) (snd (refract r snorm ior)) = 1"
  using assms by (rule refract_unit)

lemma refract_unit_dir_witness:
  "dot (snd (refract (Vec 1 0 (-1)) (Vec 0 0 1) (3/2))) (snd (refract (Vec 1 0 (-1)) (Vec 0 0 1) (3/2))) = 1"
proof -
  have a: "dot (Vec 0 0 1) (Vec 0 0 1) = 1" "\<not> (vx (Vec 1 0 (-1)) = 0 \<and> vy (Vec 1 0 (-1)) = 0 \<and> vz (Vec 1 0 (-1)) = (0::real))"
    by (simp_all add: dot_def)
  from refract_unit_dir [OF a] show ?thesis .
qed

text \<open>C32: a spot light adds nothing to a point outside its cone (angle between the light
  vector and the facing direction above the cutoff).\<close>

theorem spot_outside_cone_unlit:
  assumes "\<not> arccos (dot (normalize (vsub pos p)) (vneg (normalize dir))) \<le> pi * cutoff / 180"
  shows "shade_light ctx obj e p snorm pick (SpotLight c pos dir cutoff) direct = direct"
  using assms by (rule shade_light_spot_outside)

lemma spot_outside_cone_unlit_witness:
  "shade_light red_ctx (Sphere red_mat 1 (Vec 0 0 5)) (Vec 0 0 10) (Vec 0 0 5) (Vec 0 0 1) False
     (SpotLight (vconst 1) (Vec 0 0 0) (Vec 0 0 (-1)) 10) (vconst (1/5)) = vconst (1/5)"
proof -
  have "dot (normalize (vsub (Vec 0 0 0) (Vec 0 0 5))) (vneg (normalize (Vec 0 0 (-1)))) = -1"
    by (simp add: normalize_def vec_simps)
  then have "\<not> arccos (dot (normalize (vsub (Vec 0 0 0) (Vec 0 0 5))) (vneg (normalize (Vec 0 0 (-1))))) \<le> pi * 10 / 180"
    using pi_gt_zero by simp
  from spot_outside_cone_unlit [OF this] show ?thesis .
qed

text \<open>C27: \<open>trace\<close> reports a hit exactly when the ray from the eye through the sample
  point meets some candidate at a parameter of at least 1 (beyond the sample point); on a
  miss the colour out-parameter and the random stream are left as they were.\<close>

theorem trace_reports_hit:
  assumes dd: "d = normalize (vsub s e)" and pos: "0 < dot d d"
  shows "fst (trace ctx e s colour pick rng) = (\<exists>t. hit_some (hit_candidates ctx e d) e d 1 0 t) \<and>
         ((\<nexists>t. hit_some (hit_candidates ctx e d) e d 1 0 t) \<longrightarrow> snd (trace ctx e s colour pick rng) = (colour, rng))"
proof -
  obtain t st where h: "hit ctx e d 1 0 (vconst 0) (vconst 0) None None pick = (t, st)" by (metis prod.exhaust)
  have L: "(t = -1 \<and> (\<forall>s. \<not> hit_some (hit_candidates ctx e d) e d 1 0 s)) \<or>
           least_hit (hit_some (hit_candidates ctx e d) e d 1 0) t"
    using hit_least [OF _ pos, of 1 ctx e 0 "vconst 0" "vconst 0" None pick] h by simp
  show ?thesis
  proof (cases "\<exists>s. hit_some (hit_candidates ctx e d) e d 1 0 s")
    case True
    then have lh: "least_hit (hit_some (hit_candidates ctx e d) e d 1 0) t" using L by blast
    then have "hit_some (hit_candidates ctx e d) e d 1 0 t" by (simp add: least_hit_def)
    then have t1: "1 \<le> t" using obj_hit_range by (auto simp: hit_some_def in_range_def)
    then obtain ob where ob: "hit_object st = Some ob"
      using hit_object_some [of ctx e d 1 0 "vconst 0" "vconst 0" pick] h by fastforce
    show ?thesis using True t1 ob h unfolding trace_def dd [symmetric]
      by (simp split: prod.splits)
  next
    case False
    then have "t = -1" using L by (auto simp: least_hit_def)
    then show ?thesis using False h unfolding trace_def dd [symmetric] by simp
  qed
qed

lemma trace_reports_hit_witness:
  "Vec 0 0 (-1) = normalize (vsub (Vec 0 0 (-1)) (Vec 0 0 0)) \<and> 0 < dot (Vec 0 0 (-1)) (Vec 0 0 (-1)) \<and>
   fst (trace red_ctx (Vec 0 0 0) (Vec 0 0 (-1)) (vconst 0) False (sconst 0)) =
     (\<exists>t. hit_some (hit_candidates red_ctx (Vec 0 0 0) (Vec 0 0 (-1))) (Vec 0 0 0) (Vec 0 0 (-1)) 1 0 t)"
proof -
  have a: "Vec 0 0 (-1) = normalize (vsub (Vec 0 0 (-1)) (Vec 0 0 0))" "0 < dot (Vec 0 0 (-1)) (Vec 0 0 (-1))"
    by (simp_all add: normalize_def vec_simps)
  show ?thesis using trace_reports_hit [OF a, of red_ctx "vconst 0" False "sconst 0"] a by blast
qed

text \<open>C35: \<open>ssTrace\<close> throws \<open>std::out_of_range\<close> (from \<open>ss.at(i)\<close>) exactly when it is given
  fewer than four sample points.\<close>

theorem ssTrace_out_of_range:
  "(\<exists>err. ssTrace ctx e ss colour pick rng = Inl err) \<longleftrightarrow> length ss < 4"
  by (rule ssTrace_error_iff)

text \<open>C34: the colour \<open>ssTrace\<close> produces (the average of four shaded samples) lies in the
  unit cube when the colour it was given does.\<close>

theorem ssTrace_colour_unit:
  assumes "ssTrace ctx e ss colour pick rng = Inr (b, c, r)" "in_unit colour"
  shows "in_unit c"
  using assms by (rule ssTrace_unit_colour)

lemma ssTrace_colour_unit_witness:
  "in_unit (fst (snd (projr (ssTrace amb_ctx (Vec 0 0 0) [Vec 0 0 (-1), Vec 0 0 (-1), Vec 0 0 (-1), Vec 0 0 (-1)]
     (vconst 0) False (sconst 0)))))"
proof -
  let ?ss = "[Vec 0 0 (-1), Vec 0 0 (-1), Vec 0 0 (-1), Vec 0 0 (-1)]"
  have "\<not> (\<exists>err. ssTrace amb_ctx (Vec 0 0 0) ?ss (vconst 0) False (sconst 0) = Inl err)"
    using ssTrace_error_iff [of amb_ctx "Vec 0 0 0" ?ss "vconst 0" False "sconst 0"] by simp
  then obtain res where r: "ssTrace amb_ctx (Vec 0 0 0) ?ss (vconst 0) False (sconst 0) = Inr res"
    by (cases "ssTrace amb_ctx (Vec 0 0 0) ?ss (vconst 0) False (sconst 0)") auto
  obtain b c rr where res: "res = (b, c, rr)" by (metis prod_cases3)
  have "in_unit (vconst 0)" by simp
  from ssTrace_colour_unit [OF r [unfolded res] this] show ?thesis using r res by simp
qed

text \<open>C36: when \<open>hit\<close> reports a positive parameter on a non-shadow ray it has set
  \<open>hit_object\<close>: \<open>light\<close> is never called on a \<open>NULL\<close> object by \<open>trace\<close>, \<open>reflect\<close> and
  \<open>transmit\<close>.\<close>

theorem hit_object_nonnull:
  assumes "0 < fst (hit ctx e d near far hat hn None None pick)"
  shows "hit_object (snd (hit ctx e d near far hat hn None None pick)) \<noteq> None"
  using assms by (rule hit_object_some)

lemma hit_object_nonnull_witness:
  "hit_object (snd (hit amb_ctx (Vec 0 0 0) (Vec 0 0 (-1)) 1 0 (vconst 0) (vconst 0) None None False)) \<noteq> None"
proof -
  have "0 < fst (hit amb_ctx (Vec 0 0 0) (Vec 0 0 (-1)) 1 0 (vconst 0) (vconst 0) None None False)"
    by (simp add: hit_amb)
  from hit_object_nonnull [OF this] show ?thesis .
qed

end
