(* ===== verification/Json.thy ===== *)
theory Json
  imports Scene "HOL-Library.List_Lexorder" "HOL-Library.Char_ord"
begin

text \<open>
  The scene loader \<open>json_to_scene\<close> of \<open>src/src/json2schema.cpp\<close> (lines 18-125). It
  reads an already parsed \<open>nlohmann::json\<close> value and appends to a \<open>Scene\<close> passed by
  reference. The value is the datatype \<open>json\<close>, objects being association lists with
  distinct keys, as \<open>std::map\<close> keeps them. The library operations the loader calls
  are written out as the library behaves on a non-const value:
  \<^item> \<open>j[key]\<close> (\<open>jget\<close>) reads a member of an object, gives \<open>null\<close> for a missing member
    (it inserts one) and for a \<open>null\<close> value (which it turns into an object), and throws
    \<open>type_error\<close> on any other value;
  \<^item> \<open>j[i]\<close> (\<open>jidx\<close>) reads an array element, gives \<open>null\<close> past the end (the array is
    extended) and on \<open>null\<close>, and throws on any other value;
  \<^item> \<open>find(key) != end()\<close> (\<open>jfind\<close>) holds only of an object that has the key;
  \<^item> iteration (\<open>jitems\<close>) visits nothing on \<open>null\<close>, the elements of an array, the
    values of an object in key order, and a primitive value once;
  \<^item> the implicit conversions to \<open>float\<close> (\<open>jfloat\<close>) and \<open>std::vector<float>\<close>
    (\<open>jvector\<close>) accept numbers and booleans, and arrays of them, and throw
    \<open>type_error\<close> otherwise.
  A thrown exception is \<open>Inl\<close> of \<open>json_error\<close>; no caller catches it, so the partly
  updated scene is never observed and is not kept. Reading \<open>v[0..2]\<close> of a shorter
  vector in \<open>vector_to_vec3\<close> is undefined behaviour, the error \<open>VectorOutOfRange\<close>.
  The return value \<open>0\<close> or \<open>-1\<close> is paired with the updated scene.
\<close>

section \<open>JSON values and the library operations\<close>

datatype json =
    JNull
  | JBool bool
  | JNum real
  | JStr string
  | JArr "json list"
  | JObj "(string \<times> json) list"

datatype json_error = TypeError | VectorOutOfRange

type_synonym 'a jresult = "json_error + 'a"

definition jbind :: "'a jresult \<Rightarrow> ('a \<Rightarrow> 'b jresult) \<Rightarrow> 'b jresult" where
  "jbind x f = (case x of Inl e \<Rightarrow> Inl e | Inr a \<Rightarrow> f a)"

fun jfind :: "json \<Rightarrow> string \<Rightarrow> bool" where
  "jfind (JObj kvs) k = (map_of kvs k \<noteq> None)"
| "jfind _ _ = False"

fun jget :: "json \<Rightarrow> string \<Rightarrow> json jresult" where
  "jget (JObj kvs) k = Inr (case map_of kvs k of Some v \<Rightarrow> v | None \<Rightarrow> JNull)"
| "jget JNull _ = Inr JNull"
| "jget _ _ = Inl TypeError"

fun jidx :: "json \<Rightarrow> nat \<Rightarrow> json jresult" where
  "jidx (JArr xs) i = Inr (if i < length xs then xs ! i else JNull)"
| "jidx JNull _ = Inr JNull"
| "jidx _ _ = Inl TypeError"

fun jitems :: "json \<Rightarrow> json list" where
  "jitems JNull = []"
| "jitems (JArr xs) = xs"
| "jitems (JObj kvs) = map snd (sort_key fst kvs)"
| "jitems j = [j]"

fun jfloat :: "json \<Rightarrow> real jresult" where
  "jfloat (JNum r) = Inr r"
| "jfloat (JBool b) = Inr (if b then 1 else 0)"
| "jfloat _ = Inl TypeError"

text \<open>Element-wise conversion, left to right, stopping at the first exception.\<close>

primrec jmap :: "('a \<Rightarrow> 'b jresult) \<Rightarrow> 'a list \<Rightarrow> 'b list jresult" where
  "jmap f [] = Inr []"
| "jmap f (x # xs) = jbind (f x) (\<lambda>y. jbind (jmap f xs) (\<lambda>ys. Inr (y # ys)))"

fun jvector :: "json \<Rightarrow> real list jresult" where
  "jvector (JArr xs) = jmap jfloat xs"
| "jvector _ = Inl TypeError"

section \<open>json_to_scene\<close>

text \<open>\<open>vector_to_vec3\<close> (lines 18-20): \<open>glm::vec3(v[0], v[1], v[2])\<close>.\<close>

definition vector_to_vec3 :: "json \<Rightarrow> vec3 jresult" where
  "vector_to_vec3 j =
     jbind (jvector j) (\<lambda>v.
       if length v < 3 then Inl VectorOutOfRange else Inr (Vec (v ! 0) (v ! 1) (v ! 2)))"

text \<open>The optional-member pattern
  \<open>if (j.find(k) != j.end()) x = convert(j[k]);\<close> that keeps the default otherwise.\<close>

definition opt_vec3 :: "json \<Rightarrow> string \<Rightarrow> vec3 \<Rightarrow> vec3 jresult" where
  "opt_vec3 j k d = (if jfind j k then jbind (jget j k) vector_to_vec3 else Inr d)"

definition opt_float :: "json \<Rightarrow> string \<Rightarrow> real \<Rightarrow> real jresult" where
  "opt_float j k d = (if jfind j k then jbind (jget j k) jfloat else Inr d)"

text \<open>The material of an object (lines 37-59), starting from \<open>Material()\<close>.\<close>

definition json_material :: "json \<Rightarrow> material jresult" where
  "json_material mj =
     jbind (opt_vec3 mj ''ambient'' (ambient default_material)) (\<lambda>a.
     jbind (opt_vec3 mj ''diffuse'' (diffuse default_material)) (\<lambda>df.
     jbind (opt_vec3 mj ''specular'' (specular default_material)) (\<lambda>sp.
     jbind (opt_float mj ''shininess'' (shininess default_material)) (\<lambda>sh.
     jbind (opt_vec3 mj ''reflective'' (reflective default_material)) (\<lambda>rf.
     jbind (opt_vec3 mj ''transmissive'' (transmissive default_material)) (\<lambda>tr.
     jbind (opt_float mj ''refraction'' (refraction default_material)) (\<lambda>ri.
     Inr \<lparr>ambient = a, diffuse = df, specular = sp, shininess = sh,
          reflective = rf, transmissive = tr, refraction = ri\<rparr>)))))))"

text \<open>One triangle of a mesh (lines 77-78): \<open>{ vector_to_vec3(t[0]), ..., t[2] }\<close>,
  evaluated left to right as a braced initialiser is.\<close>

definition json_triangle :: "json \<Rightarrow> triangle jresult" where
  "json_triangle t =
     jbind (jbind (jidx t 0) vector_to_vec3) (\<lambda>a.
     jbind (jbind (jidx t 1) vector_to_vec3) (\<lambda>b.
     jbind (jbind (jidx t 2) vector_to_vec3) (\<lambda>c. Inr (Triangle a b c))))"

text \<open>One iteration of the objects loop (lines 34-84): \<open>Some\<close> the object pushed,
  \<open>None\<close> for an unrecognised type (the \<open>return -1\<close>).\<close>

definition json_object :: "json \<Rightarrow> object option jresult" where
  "json_object ob =
     jbind (jget ob ''material'') (\<lambda>mj. jbind (json_material mj) (\<lambda>m.
     jbind (jget ob ''type'') (\<lambda>ty.
       if ty = JStr ''sphere'' then
         jbind (jbind (jget ob ''position'') vector_to_vec3) (\<lambda>pos.
         jbind (jbind (jget ob ''radius'') jfloat) (\<lambda>r. Inr (Some (Sphere m r pos))))
       else if ty = JStr ''plane'' then
         jbind (jbind (jget ob ''position'') vector_to_vec3) (\<lambda>pos.
         jbind (jbind (jget ob ''normal'') vector_to_vec3) (\<lambda>n. Inr (Some (Plane m pos n))))
       else if ty = JStr ''mesh'' then
         jbind (jget ob ''triangles'') (\<lambda>ts.
         jbind (jmap json_triangle (jitems ts)) (\<lambda>tris. Inr (Some (Mesh m tris))))
       else Inr None)))"

text \<open>One iteration of the lights loop (lines 90-121) up to the push: the colour is
  read before the type is tested. The check for a second ambient light is in
  \<open>load_lights\<close>.\<close>

definition json_light :: "json \<Rightarrow> Light option jresult" where
  "json_light lj =
     jbind (jbind (jget lj ''color'') vector_to_vec3) (\<lambda>c.
     jbind (jget lj ''type'') (\<lambda>ty.
       if ty = JStr ''ambient'' then Inr (Some (AmbientLight c))
       else if ty = JStr ''directional'' then
         jbind (jbind (jget lj ''direction'') vector_to_vec3) (\<lambda>d.
         Inr (Some (DirectionalLight c d)))
       else if ty = JStr ''point'' then
         jbind (jbind (jget lj ''position'') vector_to_vec3) (\<lambda>p. Inr (Some (PointLight c p)))
       else if ty = JStr ''spot'' then
         jbind (jbind (jget lj ''position'') vector_to_vec3) (\<lambda>p.
         jbind (jbind (jget lj ''direction'') vector_to_vec3) (\<lambda>d.
         jbind (jbind (jget lj ''cutoff'') jfloat) (\<lambda>co. Inr (Some (SpotLight c p d co)))))
       else Inr None))"

text \<open>\<open>l->type == "ambient"\<close>.\<close>

fun is_ambient :: "Light \<Rightarrow> bool" where
  "is_ambient (AmbientLight _) = True"
| "is_ambient _ = False"

text \<open>The objects loop (lines 33-85) and the lights loop (lines 89-122); \<open>False\<close> is
  the \<open>return -1\<close> of the loop body, with the scene as it was at that point.\<close>

primrec load_objects :: "json list \<Rightarrow> scene \<Rightarrow> (bool \<times> scene) jresult" where
  "load_objects [] s = Inr (True, s)"
| "load_objects (ob # obs) s =
     jbind (json_object ob) (\<lambda>r. case r of
        None \<Rightarrow> Inr (False, s)
      | Some c \<Rightarrow> load_objects obs (s\<lparr>objects := objects s @ [c]\<rparr>))"

primrec load_lights :: "json list \<Rightarrow> scene \<Rightarrow> (bool \<times> scene) jresult" where
  "load_lights [] s = Inr (True, s)"
| "load_lights (lj # ljs) s =
     jbind (json_light lj) (\<lambda>r. case r of
        None \<Rightarrow> Inr (False, s)
      | Some l \<Rightarrow>
          if is_ambient l \<and> list_ex is_ambient (lights s) then Inr (False, s)
          else load_lights ljs (s\<lparr>lights := lights s @ [l]\<rparr>))"

text \<open>\<open>int json_to_scene(json &jscene, Scene &s)\<close> (lines 22-125).\<close>

definition json_to_scene :: "json \<Rightarrow> scene \<Rightarrow> (int \<times> scene) jresult" where
  "json_to_scene js s =
     jbind (jget js ''camera'') (\<lambda>cam.
     jbind (opt_float cam ''field'' (field (camera s))) (\<lambda>fd.
     jbind (opt_vec3 cam ''background'' (background (camera s))) (\<lambda>bgc.
     jbind (jget js ''objects'') (\<lambda>objs.
     jbind (load_objects (jitems objs) (s\<lparr>camera := \<lparr>field = fd, background = bgc\<rparr>\<rparr>))
       (\<lambda>(ok, s1).
          if \<not> ok then Inr (-1, s1)
          else jbind (jget js ''lights'') (\<lambda>ls.
               jbind (load_lights (jitems ls) s1) (\<lambda>(ok2, s2).
               Inr (if ok2 then 0 else -1, s2))))))))"

section \<open>A JSON encoding of scenes\<close>

text \<open>The JSON form of a scene in the format \<open>json_to_scene\<close> reads, every member
  written out. A mesh triangle (\<open>MTriangle\<close>) has no JSON form; it is written with an
  unrecognised type.\<close>

definition vec_json :: "vec3 \<Rightarrow> json" where
  "vec_json v = JArr [JNum (vx v), JNum (vy v), JNum (vz v)]"

definition material_json :: "material \<Rightarrow> json" where
  "material_json m =
     JObj [(''ambient'', vec_json (ambient m)), (''diffuse'', vec_json (diffuse m)),
           (''specular'', vec_json (specular m)), (''shininess'', JNum (shininess m)),
           (''reflective'', vec_json (reflective m)),
           (''transmissive'', vec_json (transmissive m)),
           (''refraction'', JNum (refraction m))]"

fun triangle_json :: "triangle \<Rightarrow> json" where
  "triangle_json (Triangle a b c) = JArr [vec_json a, vec_json b, vec_json c]"

fun object_json :: "object \<Rightarrow> json" where
  "object_json (Sphere m r p) =
     JObj [(''type'', JStr ''sphere''), (''material'', material_json m),
           (''position'', vec_json p), (''radius'', JNum r)]"
| "object_json (Plane m p n) =
     JObj [(''type'', JStr ''plane''), (''material'', material_json m),
           (''position'', vec_json p), (''normal'', vec_json n)]"
| "object_json (Mesh m ts) =
     JObj [(''type'', JStr ''mesh''), (''material'', material_json m),
           (''triangles'', JArr (map triangle_json ts))]"
| "object_json (MTriangle m _ _) =
     JObj [(''type'', JStr ''mTriangle''), (''material'', material_json m)]"

fun light_json :: "Light \<Rightarrow> json" where
  "light_json (AmbientLight c) = JObj [(''type'', JStr ''ambient''), (''color'', vec_json c)]"
| "light_json (DirectionalLight c d) =
     JObj [(''type'', JStr ''directional''), (''color'', vec_json c), (''direction'', vec_json d)]"
| "light_json (PointLight c p) =
     JObj [(''type'', JStr ''point''), (''color'', vec_json c), (''position'', vec_json p)]"
| "light_json (SpotLight c p d co) =
     JObj [(''type'', JStr ''spot''), (''color'', vec_json c), (''position'', vec_json p),
           (''direction'', vec_json d), (''cutoff'', JNum co)]"

definition scene_json :: "scene \<Rightarrow> json" where
  "scene_json sc =
     JObj [(''camera'', JObj [(''field'', JNum (field (camera sc))),
                              (''background'', vec_json (background (camera sc)))]),
           (''objects'', JArr (map object_json (objects sc))),
           (''lights'', JArr (map light_json (lights sc)))]"

fun is_mtriangle :: "object \<Rightarrow> bool" where
  "is_mtriangle (MTriangle _ _ _) = True"
| "is_mtriangle _ = False"

text \<open>The scenes the format can express: no mesh triangle, at most one ambient light.\<close>

definition loadable :: "scene \<Rightarrow> bool" where
  "loadable sc \<longleftrightarrow>
     list_all (\<lambda>c. \<not> is_mtriangle c) (objects sc) \<and> length (filter is_ambient (lights sc)) \<le> 1"

text \<open>The global \<open>Scene scene;\<close> of \<open>raytracer.cpp\<close> before loading: \<open>Camera()\<close> and
  empty vectors.\<close>

definition empty_scene :: scene where
  "empty_scene = \<lparr>camera = \<lparr>field = 0, background = vconst 0\<rparr>, objects = [], lights = []\<rparr>"

text \<open>An example scene for the witnesses: a sphere, an ambient and a directional light.\<close>

definition ex_load_scene :: scene where
  "ex_load_scene =
     \<lparr>camera = \<lparr>field = 60, background = vconst 0\<rparr>,
      objects = [Sphere default_material 1 (Vec 0 0 (-5))],
      lights = [AmbientLight (vconst 1), DirectionalLight (vconst 1) (Vec 0 0 (-1))]\<rparr>"

section \<open>Lemmas\<close>

lemma jbind_Inl [simp]: "jbind (Inl e) f = Inl e"
  by (simp add: jbind_def)

lemma jbind_Inr [simp]: "jbind (Inr a) f = f a"
  by (simp add: jbind_def)

lemma jbind_eq_Inr: "jbind x f = Inr b \<longleftrightarrow> (\<exists>a. x = Inr a \<and> f a = Inr b)"
  by (cases x) auto

lemma vector_to_vec3_json [simp]: "vector_to_vec3 (vec_json v) = Inr v"
  by (simp add: vector_to_vec3_def vec_json_def)

lemma json_material_json [simp]: "json_material (material_json m) = Inr m"
  by (simp add: json_material_def material_json_def opt_vec3_def opt_float_def)


lemma json_triangle_json [simp]: "json_triangle (triangle_json t) = Inr t"
  by (cases t) (simp add: json_triangle_def)

lemma jmap_triangles [simp]: "jmap json_triangle (map triangle_json ts) = Inr ts"
  by (induction ts) auto

lemma json_object_json:
  "\<not> is_mtriangle c \<Longrightarrow> json_object (object_json c) = Inr (Some c)"
  by (cases c) (simp_all add: json_object_def)

lemma json_light_json [simp]: "json_light (light_json l) = Inr (Some l)"
  by (cases l) (simp_all add: json_light_def)

lemma load_objects_json:
  "list_all (\<lambda>c. \<not> is_mtriangle c) os \<Longrightarrow>
   load_objects (map object_json os) s = Inr (True, s\<lparr>objects := objects s @ os\<rparr>)"
  by (induction os arbitrary: s) (simp_all add: json_object_json)

lemma list_ex_filter: "list_ex P xs \<longleftrightarrow> filter P xs \<noteq> []"
  by (induction xs) auto

lemma load_lights_json:
  "length (filter is_ambient (lights s @ ls)) \<le> 1 \<Longrightarrow>
   load_lights (map light_json ls) s = Inr (True, s\<lparr>lights := lights s @ ls\<rparr>)"
proof (induction ls arbitrary: s)
  case Nil
  then show ?case by simp
next
  case (Cons l ls)
  have ok: "\<not> (is_ambient l \<and> list_ex is_ambient (lights s))"
    using Cons.prems by (auto simp: list_ex_filter)
  have "length (filter is_ambient (lights (s\<lparr>lights := lights s @ [l]\<rparr>) @ ls)) \<le> 1"
    using Cons.prems by simp
  from Cons.IH [OF this] show ?case using ok by simp
qed

lemma json_to_scene_json:
  assumes "loadable sc" "\<not> list_ex is_ambient (lights s)"
  shows "json_to_scene (scene_json sc) s =
           Inr (0, s\<lparr>camera := camera sc, objects := objects s @ objects sc,
                     lights := lights s @ lights sc\<rparr>)"
proof -
  have o: "list_all (\<lambda>c. \<not> is_mtriangle c) (objects sc)" using assms(1) by (simp add: loadable_def)
  have l: "length (filter is_ambient (lights s @ lights sc)) \<le> 1"
    using assms by (simp add: loadable_def list_ex_filter)
  show ?thesis
    using load_objects_json [OF o] load_lights_json l
    by (simp add: json_to_scene_def scene_json_def opt_vec3_def opt_float_def)
qed

text \<open>C37: round trip. Loading the JSON form of a scene that has no mesh triangle and at
  most one ambient light into a scene with no ambient light returns 0 and appends exactly
  that scene: its camera replaces the old one, its objects and lights are appended in
  order.\<close>

theorem json_to_scene_roundtrip:
  assumes "loadable sc" "\<not> list_ex is_ambient (lights s)"
  shows "json_to_scene (scene_json sc) s =
           Inr (0, s\<lparr>camera := camera sc, objects := objects s @ objects sc,
                     lights := lights s @ lights sc\<rparr>)"
  using assms by (rule json_to_scene_json)

lemma json_to_scene_empty:
  "loadable sc \<Longrightarrow> json_to_scene (scene_json sc) empty_scene = Inr (0, sc)"
  using json_to_scene_json [of sc empty_scene] by (cases sc) (simp add: empty_scene_def)

lemma json_object_not_mtriangle:
  "json_object ob = Inr (Some c) \<Longrightarrow> \<not> is_mtriangle c"
  by (auto simp: json_object_def jbind_eq_Inr split: if_splits)

lemma load_objects_inv:
  "load_objects obs s = Inr (b, s') \<Longrightarrow>
   camera s' = camera s \<and> lights s' = lights s \<and>
   (\<exists>new. objects s' = objects s @ new \<and> list_all (\<lambda>c. \<not> is_mtriangle c) new)"
proof (induction obs arbitrary: s)
  case Nil
  then show ?case by auto
next
  case (Cons ob obs)
  then obtain r where r: "json_object ob = Inr r" by (auto simp: jbind_eq_Inr)
  show ?case
  proof (cases r)
    case None
    then show ?thesis using Cons.prems r by auto
  next
    case (Some c)
    then have "load_objects obs (s\<lparr>objects := objects s @ [c]\<rparr>) = Inr (b, s')"
      using Cons.prems r by simp
    from Cons.IH [OF this] show ?thesis
      using json_object_not_mtriangle [OF r [unfolded Some]] by fastforce
  qed
qed

lemma load_lights_inv:
  "load_lights ljs s = Inr (b, s') \<Longrightarrow> length (filter is_ambient (lights s)) \<le> 1 \<Longrightarrow>
   length (filter is_ambient (lights s')) \<le> 1 \<and> objects s' = objects s \<and> camera s' = camera s"
proof (induction ljs arbitrary: s)
  case Nil
  then show ?case by auto
next
  case (Cons lj ljs)
  then obtain r where r: "json_light lj = Inr r" by (auto simp: jbind_eq_Inr)
  show ?case
  proof (cases r)
    case None
    then show ?thesis using Cons.prems r by auto
  next
    case (Some l)
    show ?thesis
    proof (cases "is_ambient l \<and> list_ex is_ambient (lights s)")
      case True
      then show ?thesis using Cons.prems r Some by auto
    next
      case False
      then have step: "load_lights ljs (s\<lparr>lights := lights s @ [l]\<rparr>) = Inr (b, s')"
        using Cons.prems r Some by (auto split: if_split_asm)
      have "length (filter is_ambient (lights (s\<lparr>lights := lights s @ [l]\<rparr>))) \<le> 1"
        using False Cons.prems(2) by (auto simp: list_ex_filter)
      from Cons.IH [OF step this] show ?thesis by simp
    qed
  qed
qed

text \<open>C38: whatever the input, a load that returns (0 or -1, without an exception)
  leaves at most one ambient light in a scene that had at most one, only appends
  objects, and never creates a mesh triangle (the form \<open>light\<close> and \<open>buildBVH\<close> reserve
  for the triangles they split off meshes).\<close>

theorem json_to_scene_scene_invariant:
  assumes "json_to_scene js s = Inr (r, s')" "length (filter is_ambient (lights s)) \<le> 1"
  shows "r \<in> {0, -1} \<and> length (filter is_ambient (lights s')) \<le> 1 \<and>
         (\<exists>new. objects s' = objects s @ new \<and> list_all (\<lambda>c. \<not> is_mtriangle c) new)"
proof -
  obtain cam fd bgc objs ok s1 where
      o: "load_objects (jitems objs) (s\<lparr>camera := \<lparr>field = fd, background = bgc\<rparr>\<rparr>) = Inr (ok, s1)"
    and rest: "(if \<not> ok then Inr (-1, s1)
               else jbind (jget js ''lights'') (\<lambda>ls.
                    jbind (load_lights (jitems ls) s1) (\<lambda>(ok2, s2).
                    Inr (if ok2 then 0 else -1, s2)))) = Inr (r, s')"
    using assms(1) by (auto simp: json_to_scene_def jbind_eq_Inr)
  note oi = load_objects_inv [OF o]
  have a1: "length (filter is_ambient (lights s1)) \<le> 1" using oi assms(2) by simp
  show ?thesis
  proof (cases ok)
    case False
    then show ?thesis using rest oi a1 by auto
  next
    case True
    then obtain ls ok2 where l: "load_lights (jitems ls) s1 = Inr (ok2, s')"
        and rr: "r = (if ok2 then 0 else -1)"
      using rest by (auto simp: jbind_eq_Inr)
    show ?thesis using load_lights_inv [OF l a1] oi rr by auto
  qed
qed

lemma load_objects_append:
  "list_all (\<lambda>c. \<not> is_mtriangle c) os \<Longrightarrow>
   load_objects (map object_json os @ ys) s = load_objects ys (s\<lparr>objects := objects s @ os\<rparr>)"
  by (induction os arbitrary: s) (simp_all add: json_object_json)

text \<open>C39: an object of unrecognised type makes \<open>json_to_scene\<close> return -1, without an
  exception, after the objects before it were appended; the objects after it are never
  read, so they may be malformed, and no light is loaded.\<close>

theorem json_to_scene_unknown_object_type:
  assumes "json_object ob = Inr None" "list_all (\<lambda>c. \<not> is_mtriangle c) os"
  shows "json_to_scene (JObj [(''objects'', JArr (map object_json os @ ob # rest))]) s =
           Inr (-1, s\<lparr>objects := objects s @ os\<rparr>)"
  using assms by (simp add: json_to_scene_def opt_vec3_def opt_float_def load_objects_append)

text \<open>The colour of a light is converted before its type is tested: a light without a
  colour throws, whatever its type, instead of reaching the \<open>unrecognized light type\<close>
  branch.\<close>

lemma json_light_missing_color: "json_light (JObj [(''type'', JStr t)]) = Inl TypeError"
  by (simp add: json_light_def vector_to_vec3_def)

lemma ex_load: "json_to_scene (scene_json ex_load_scene) empty_scene = Inr (0, ex_load_scene)"
  by (rule json_to_scene_empty) (simp add: loadable_def ex_load_scene_def)

lemma json_to_scene_roundtrip_witness:
  "loadable ex_load_scene \<and> \<not> list_ex is_ambient (lights empty_scene) \<and>
   json_to_scene (scene_json ex_load_scene) empty_scene = Inr (0, ex_load_scene)"
  using json_to_scene_roundtrip [of ex_load_scene empty_scene]
  by (simp add: loadable_def ex_load_scene_def empty_scene_def)

lemma json_to_scene_scene_invariant_witness:
  "json_to_scene (scene_json ex_load_scene) empty_scene = Inr (0, ex_load_scene) \<and>
   length (filter is_ambient (lights empty_scene)) \<le> 1 \<and>
   length (filter is_ambient (lights ex_load_scene)) \<le> 1"
  using json_to_scene_scene_invariant [OF ex_load] ex_load by (simp add: empty_scene_def)

lemma json_to_scene_unknown_object_type_witness:
  "json_object (JObj [(''type'', JStr ''cube'')]) = Inr None \<and>
   json_to_scene (JObj [(''objects'', JArr (map object_json [Sphere default_material 1 (Vec 0 0 (-5))]
                                             @ [JObj [(''type'', JStr ''cube'')], JNum 7]))]) empty_scene =
     Inr (-1, empty_scene\<lparr>objects := [Sphere default_material 1 (Vec 0 0 (-5))]\<rparr>)"
proof -
  have n: "json_object (JObj [(''type'', JStr ''cube'')]) = Inr None"
    by (simp add: json_object_def json_material_def opt_vec3_def opt_float_def)
  show ?thesis using json_to_scene_unknown_object_type [OF n, of "[Sphere default_material 1 (Vec 0 0 (-5))]" "[JNum 7]" empty_scene] n
    by (simp add: empty_scene_def)
qed
end
