(* ===== verification/Print.thy ===== *)
theory Print
  imports Json
begin

text \<open>
  The scene printer of \<open>src/src/json2schema.cpp\<close> (\<open>printf_rgb\<close>, \<open>printf_vertex\<close>,
  \<open>printf_vector\<close>, \<open>printf_material\<close>, \<open>scene_to_cpp\<close>, lines 129-261) and the driver
  \<open>main\<close> of \<open>src/src/utils/json2cpp.cpp\<close> (lines 134-158) that loads a JSON scene and
  prints it as a C++ initialiser. Standard output is the string the functions return;
  the text \<open>printf\<close> makes of a \<open>%f\<close> conversion is the parameter \<open>fmt\<close> (the C library's
  formatting is not modelled). The argument and file checks of \<open>main\<close> are I/O and
  are not modelled; it starts from the parsed value.
\<close>

section \<open>Printing\<close>

abbreviation NL :: string where
  "NL \<equiv> [CHR 0x0A]"

definition printf_rgb :: "(real \<Rightarrow> string) \<Rightarrow> rgb \<Rightarrow> string" where
  "printf_rgb fmt c =
     ''RGB( '' @ fmt (vx c) @ '', '' @ fmt (vy c) @ '', '' @ fmt (vz c) @ '' )''"

definition printf_vertex :: "(real \<Rightarrow> string) \<Rightarrow> vec3 \<Rightarrow> string" where
  "printf_vertex fmt v =
     ''Vertex( '' @ fmt (vx v) @ '', '' @ fmt (vy v) @ '', '' @ fmt (vz v) @ '' )''"

definition printf_vector :: "(real \<Rightarrow> string) \<Rightarrow> vec3 \<Rightarrow> string" where
  "printf_vector fmt v =
     ''Vector( '' @ fmt (vx v) @ '', '' @ fmt (vy v) @ '', '' @ fmt (vz v) @ '' )''"

definition printf_material :: "(real \<Rightarrow> string) \<Rightarrow> material \<Rightarrow> string" where
  "printf_material fmt m =
     ''Material( '' @ printf_rgb fmt (ambient m) @ '', '' @ printf_rgb fmt (diffuse m) @
     '', '' @ printf_rgb fmt (specular m) @ '', '' @ fmt (shininess m) @ '', '' @
     printf_rgb fmt (reflective m) @ '', '' @ printf_rgb fmt (transmissive m) @
     '', '' @ fmt (refraction m) @ '' )''"

text \<open>The iterations \<open>for (int i = 0; i < v.size(); i++) { body; if (i < v.size() - 1)
  printf(",\n"); else printf("\n"); }\<close> of \<open>scene_to_cpp\<close>, over the indices.\<close>

definition print_list :: "('a \<Rightarrow> string) \<Rightarrow> 'a list \<Rightarrow> string" where
  "print_list f xs =
     concat (map (\<lambda>i. f (xs ! i) @ (if i < length xs - 1 then '','' @ NL else NL))
                 [0..<length xs])"

text \<open>One triangle of a mesh (lines 192-198).\<close>

fun cpp_triangle :: "(real \<Rightarrow> string) \<Rightarrow> triangle \<Rightarrow> string" where
  "cpp_triangle fmt (Triangle a b c) =
     ''         { '' @ printf_vertex fmt a @ '', '' @ printf_vertex fmt b @ '', '' @
     printf_vertex fmt c @ '' }''"

text \<open>The body of the objects loop (lines 165-206). A mesh triangle has the type tag
  \<open>"mTriangle"\<close>, which no branch tests: it prints nothing.\<close>

fun cpp_object :: "(real \<Rightarrow> string) \<Rightarrow> object \<Rightarrow> string" where
  "cpp_object fmt (Sphere m r p) =
     ''    new Sphere( '' @ printf_material fmt m @ '', '' @ fmt r @ '', '' @
     printf_vertex fmt p @ '' )''"
| "cpp_object fmt (Plane m p n) =
     ''    new Plane( '' @ printf_material fmt m @ '', '' @ printf_vertex fmt p @ '', '' @
     printf_vector fmt n @ '' )''"
| "cpp_object fmt (Mesh m ts) =
     ''    new Mesh( '' @ printf_material fmt m @ '','' @ NL @ ''      {'' @ NL @
     print_list (cpp_triangle fmt) ts @ ''      } )''"
| "cpp_object fmt (MTriangle _ _ _) = []"

text \<open>The body of the lights loop (lines 220-250).\<close>

fun cpp_light :: "(real \<Rightarrow> string) \<Rightarrow> Light \<Rightarrow> string" where
  "cpp_light fmt (AmbientLight c) = ''    new AmbientLight( '' @ printf_rgb fmt c @ '' )''"
| "cpp_light fmt (DirectionalLight c d) =
     ''    new DirectionalLight( '' @ printf_rgb fmt c @ '', '' @ printf_vector fmt d @ '' )''"
| "cpp_light fmt (PointLight c p) =
     ''    new PointLight( '' @ printf_rgb fmt c @ '', '' @ printf_vertex fmt p @ '' )''"
| "cpp_light fmt (SpotLight c p d co) =
     ''    new SpotLight( '' @ printf_rgb fmt c @ '', '' @ printf_vertex fmt p @ '', '' @
     printf_vector fmt d @ '', '' @ fmt co @ '' )''"

definition scene_to_cpp :: "(real \<Rightarrow> string) \<Rightarrow> scene \<Rightarrow> string" where
  "scene_to_cpp fmt s =
     ''Scene scene = {'' @ NL @ ''  // camera'' @ NL @
     ''  { '' @ fmt (field (camera s)) @ '', '' @ printf_rgb fmt (background (camera s)) @
     '' },'' @ NL @ ''  // objects'' @ NL @ ''  {'' @ NL @
     print_list (cpp_object fmt) (objects s) @
     ''  },'' @ NL @ ''  // lights'' @ NL @ ''  {'' @ NL @
     print_list (cpp_light fmt) (lights s) @
     ''  }'' @ NL @ ''};'' @ NL"

text \<open>\<open>main\<close> of json2cpp from \<open>json_to_scene(jscene, s)\<close> on (lines 149-157): the exit
  code and the text printed; an exception of the loader is \<open>Inl\<close>.\<close>

definition json2cpp_main :: "(real \<Rightarrow> string) \<Rightarrow> json \<Rightarrow> (int \<times> string) jresult" where
  "json2cpp_main fmt js =
     jbind (json_to_scene js empty_scene) (\<lambda>(r, s).
       if r < 0 then Inr (r, []) else Inr (0, scene_to_cpp fmt s))"

text \<open>The reference form of the separated list: entries separated by \<open>",\n"\<close>, the
  last one ended by a newline.\<close>

fun sep_list :: "('a \<Rightarrow> string) \<Rightarrow> 'a list \<Rightarrow> string" where
  "sep_list f [] = []"
| "sep_list f [x] = f x @ NL"
| "sep_list f (x # y # xs) = f x @ '','' @ NL @ sep_list f (y # xs)"

section \<open>Lemmas\<close>

text \<open>The index loop prints the reference form.\<close>

lemma print_list_sep: "print_list f xs = sep_list f xs"
proof (induction xs)
  case Nil
  then show ?case by (simp add: print_list_def)
next
  case (Cons x xs)
  have shift: "[0..<length (x # xs)] = 0 # map Suc [0..<length xs]"
    by (simp add: upt_conv_Cons map_Suc_upt del: upt_Suc)
  show ?case
  proof (cases xs)
    case Nil
    then show ?thesis by (simp add: print_list_def)
  next
    case (Cons y ys)
    have "print_list f (x # xs) = f x @ '','' @ NL @ print_list f xs"
      unfolding print_list_def shift using Cons by (simp add: comp_def del: upt_Suc)
    then show ?thesis using Cons.IH Cons by simp
  qed
qed

text \<open>json2cpp prints the scene whose JSON form it reads, and exits with 0.\<close>

lemma json2cpp_main_json:
  "loadable sc \<Longrightarrow> json2cpp_main fmt (scene_json sc) = Inr (0, scene_to_cpp fmt sc)"
  by (simp add: json2cpp_main_def json_to_scene_empty)

text \<open>An object of unrecognised type: json2cpp exits with -1 and prints nothing.\<close>

lemma json2cpp_main_unknown_type:
  "json_object ob = Inr None \<Longrightarrow>
   json2cpp_main fmt (JObj [(''objects'', JArr (ob # rest))]) = Inr (-1, [])"
  by (simp add: json2cpp_main_def json_to_scene_def opt_vec3_def opt_float_def)

end
