(* ===== verification/Spec2Isabelle.thy ===== *)
theory Spec2Isabelle
  imports Shade Print
begin

text \<open>
  \<^bold>\<open>A verification model of the ray tracer in \<open>src/src\<close>.\<close>

  \<^bold>\<open>The program.\<close> \<open>choose_scene\<close> loads a JSON scene into a \<open>Scene\<close> (camera, objects,
  lights; \<open>schema.h\<close>), builds a bounding-volume hierarchy over the spheres and mesh
  triangles (\<open>bvh.cpp\<close>) and collects the planes. \<open>trace\<close> and \<open>ssTrace\<close> cast a ray (four
  rays) per pixel; \<open>hit\<close> resolves the nearest intersection over the planes and the
  objects whose boxes the ray meets (\<open>getBVHList\<close>, \<open>ray_box\<close>), dispatching to
  \<open>ray_sphere\<close>, \<open>ray_plane\<close>, \<open>ray_triangle\<close> and \<open>ray_mesh\<close>; \<open>light\<close> shades a hit from
  every light with shadow rays (\<open>hit\<close> in opacity mode) and recurses through \<open>reflect\<close>
  and \<open>transmit\<close> (with \<open>refract\<close> or \<open>schlickRefract\<close>) up to \<open>MAX_R_DEPTH\<close>.

  \<^bold>\<open>Modelling conventions.\<close> \<open>float\<close>s are exact reals; rounding is not modelled. Where
  the code divides by zero or compares a NaN and relies on the outcome (the slab test of
  \<open>ray_box\<close>), the IEEE outcome is written out. Pointers and reference parameters are
  explicit state: in-out arguments are passed in and returned, globals are a context
  record, \<open>NULL\<close> is \<open>None\<close>. A loop that may not end is a \<^theory_text>\<open>partial_function (option)\<close>
  with \<open>None\<close> for divergence; exceptions are values of a sum type; \<open>rand()\<close> is a stream
  of draws threaded in call order; a draw is any real, and the theorems that need
  the \<open>[0, 1)\<close> range of \<open>randomFloat\<close> assume it. Debug output (\<open>pick\<close>, \<open>prefix\<close>) is left out except
  where \<open>pick\<close> changes control flow (the early return of \<open>hit\<close>).

  \<^bold>\<open>Theories and what they model.\<close>
  \<^item> \<open>Prelude\<close>: \<open>glm::vec3\<close> as the record \<open>vec3\<close> and the glm operations the code uses
    (\<open>vec_simps\<close> unfolds them), with the shared lemmas on vectors and lists.
  \<^item> \<open>Scene\<close>: \<open>schema.h\<close> (\<open>material\<close>, \<open>triangle\<close>, the datatypes \<open>object\<close> and \<open>light\<close>
    for the tagged class hierarchies, \<open>camera\<close>, \<open>scene\<close>) and the switches of
    \<open>raytracer.cpp\<close> lines 19-42 (\<open>config_simps\<close>).
  \<^item> \<open>BVH_Build\<close>: \<open>compareAxis\<close>, \<open>subdivide\<close> and \<open>buildBVH\<close>. The call to \<open>std::sort\<close> is a
    parameter constrained only by its contract (\<open>sort_spec\<close>: a permutation sorted by the
    key); \<open>std_sort\<close> is one instance.
  \<^item> \<open>Intersect\<close>: the four intersection routines with \<open>hp\<close>/\<open>hp_norm\<close> as in-out state,
    \<open>ray_mesh\<close>'s loop as a fold over a \<open>mesh_state\<close> record, and the type dispatch of
    \<open>hit\<close> as \<open>intersect\<close>.
  \<^item> \<open>Traverse\<close>: \<open>ray_box\<close> (the slab loop) and \<open>getBVHList\<close>.
  \<^item> \<open>Hit\<close>: the set-up of \<open>choose_scene\<close> (\<open>render_ctx\<close>, \<open>setup_ctx\<close>) and \<open>hit\<close>: candidate
    collection, the loop state \<open>hit_state\<close>, the nearest-hit update with its narrowing of
    \<open>far\<close>, and the shadow-opacity sum with its \<open>pick\<close>-only early return.
  \<^item> \<open>Shade\<close>: \<open>randomFloat\<close>, \<open>refract\<close>, \<open>schlickRefract\<close>, the per-light step of \<open>light\<close>
    (\<open>shade_light\<close>), the composite, the mutually recursive \<open>light\<close>/\<open>reflect\<close>/\<open>transmit\<close>,
    \<open>trace\<close> and \<open>ssTrace\<close>.
  \<^item> \<open>Json\<close>: \<open>json_to_scene\<close> and \<open>vector_to_vec3\<close> (\<open>json2schema.cpp\<close>) over the
    datatype \<open>json\<close> of parsed values, with the \<open>nlohmann::json\<close> operations it calls
    written out (\<open>jget\<close>, \<open>jidx\<close>, \<open>jfind\<close>, \<open>jitems\<close>, \<open>jfloat\<close>, \<open>jvector\<close>); thrown
    exceptions and undefined reads are \<open>Inl\<close> of \<open>json_error\<close>, the return value is paired
    with the updated scene. \<open>scene_json\<close> is the JSON form of a scene, for round trips.
  \<^item> \<open>Print\<close>: \<open>printf_rgb\<close>, \<open>printf_vertex\<close>, \<open>printf_vector\<close>, \<open>printf_material\<close> and
    \<open>scene_to_cpp\<close> as functions returning the printed text, with the \<open>%f\<close> conversion a
    parameter, and the driver \<open>main\<close> of \<open>utils/json2cpp.cpp\<close> as \<open>json2cpp_main\<close>.
  \<^item> This theory: \<open>choose_scene\<close> (\<open>raytracer.cpp\<close> lines 73-90) composing the loader
    with the set-up of \<open>Hit\<close>, and the properties spanning the components.

  \<^bold>\<open>What the lemmas show.\<close>
  \<^item> BVH construction: every built tree satisfies the box invariant; its leaves are a
    permutation of the boundable primitives; it has height exactly \<open>\<lceil>log2 n\<rceil>\<close>; the
    builder returns on every scene with a sphere or a non-empty mesh and diverges on a
    scene of planes only; the split is ordered along the chosen axis; the axis choice
    is the longest extent, except that every Y/Z tie above X picks X.
  \<^item> Intersection: each routine returns the least parameter in \<open>[near, far]\<close> at which the
    ray meets the primitive, or \<open>-1\<close>; a unit ray aimed at a sphere's centre hits its near
    surface at distance \<open>k - r\<close> with normal \<open>-d\<close> (the spec's scenario, for every such ray);
    \<open>ray_mesh\<close>'s narrowing of \<open>far\<close> equals a plain scan; a triangle hit lies inside the
    triangle; the back-face branch of \<open>ray_triangle\<close> is dead. The interface lemmas (range,
    independence of the in-out arguments, exact narrowing) are what \<open>hit\<close> needs.
  \<^item> Traversal and resolution: \<open>ray_box\<close> is exact; \<open>getBVHList\<close> returns exactly the leaves
    whose box the ray meets, and never a sphere of negative radius (which \<open>json_to_scene\<close>
    does not reject); \<open>hit\<close> returns the nearest hit among its candidates, and on scenes
    with no negative radius and no mesh triangle, for hits within \<open>1e30\<close>, the accelerated
    \<open>hit\<close> returns the same parameter as the loop over all objects. Its shadow opacity is
    the clamped sum over the candidates met, stays in the unit cube, and with \<open>pick\<close> stops
    at the first candidate that makes it \<open>(1,1,1)\<close>, which changes it only when a
    transmissive colour exceeds 1.
  \<^item> Shading: colours stay in the unit cube; at depth \<open>MAX_R_DEPTH\<close> no bounce is taken and
    no random number drawn; \<open>trace\<close> reports a hit exactly when some candidate is met beyond
    the sample point; the direct lighting of a two-sided surface does not depend on the
    orientation of its normal; \<open>refract\<close> yields unit directions; \<open>schlickRefract\<close> never
    refracts an entering ray; a spot light does not light points outside its cone; the
    spec's ambient round trip holds, and its red-sphere scenario is evaluated as an
    example (\<open>trace_red_eval\<close>); \<open>ssTrace\<close> raises \<open>out_of_range\<close> exactly on fewer than four
    sample points.
  \<^item> Loading: loading the JSON form of a scene gives back that scene (round trip); every
    load that returns keeps at most one ambient light, only appends objects and never
    creates a mesh triangle; an unrecognised object type returns -1 after appending the
    objects before it. \<open>choose_scene\<close> on the JSON form of a scene with a sphere or a
    non-empty mesh returns the render context of that scene. The printer's index loop
    equals the plain separated list \<open>sep_list\<close>, and json2cpp prints the scene it reads.

  \<^bold>\<open>Bounds and termination.\<close> \<open>subdivide\<close> needs no fuel: as a
  \<^theory_text>\<open>partial_function (option)\<close> it is \<open>None\<close> exactly where the C++ recursion does not end,
  and \<open>buildBVH_total\<close> proves it returns on every non-empty work list. The shading
  recursion terminates by the measure \<open>2 (MAX_R_DEPTH - d) + 2\<close> for \<open>light\<close> below the cap
  (0 at it) and \<open>2 (MAX_R_DEPTH - d) + 1\<close> for \<open>reflect\<close> and \<open>transmit\<close>, which mirrors the
  code's guard \<open>r_depth < MAX_R_DEPTH\<close>: a nested call of \<open>light\<close> is made only below the
  cap and one level deeper, so the nesting is at most \<open>MAX_R_DEPTH + 1\<close> calls of \<open>light\<close>
  deep. Every other loop is structural recursion over a list.

  \<^bold>\<open>Not modelled.\<close> Reading and parsing the scene file (\<open>in >> jscene\<close>) and the
  argument and file checks of \<open>choose_scene\<close> and json2cpp's \<open>main\<close> are I/O; the model
  starts from the parsed \<open>json\<close> value. The text of a \<open>%f\<close> conversion is left to the C
  library (a parameter of the printer). The global \<open>fov\<close> that \<open>choose_scene\<close> sets (line 81) is
  read only by the render loop. The render loop that calls \<open>trace\<close> and
  \<open>ssTrace\<close> per pixel and writes the image lives outside \<open>src\<close>. The toon, outline and
  sketch branches of \<open>ssTrace\<close> (disabled by compile-time constants) compare the hit
  objects by value where the code compares pointers; the two differ only for two
  distinct but equal objects. The \<open>glm::vec3\<close> locals the code declares without an
  initialiser (the colours in \<open>light\<close>, \<open>reflect\<close>, \<open>transmit\<close> and \<open>ssTrace\<close>, the
  triangle hit point and normal in \<open>ray_mesh\<close>) are taken as zero vectors, which glm
  guarantees only with \<open>GLM_FORCE_CTOR_INIT\<close> (or before version 0.9.9); where the code
  reads one before writing it, the model assumes that zero. Floating-point rounding is
  not modelled, so statements about exact equality of colours or parameters hold of the
  real-number semantics of the code.
\<close>

section \<open>Loading and set-up (choose_scene)\<close>

text \<open>The outcomes of \<open>choose_scene\<close> (raytracer.cpp lines 73-90) once the file is
  parsed: an exception of the loader, \<open>exit(EXIT_FAILURE)\<close> on a return value below 0,
  or the render context. \<open>None\<close> is the set-up that does not return.\<close>

datatype load_error = JsonException json_error | ExitFailure

definition choose_scene ::
  "(nat \<Rightarrow> bvh_item list \<Rightarrow> bvh_item list) \<Rightarrow> json \<Rightarrow> (load_error + render_ctx) option" where
  "choose_scene srt js =
     (case json_to_scene js empty_scene of
        Inl e \<Rightarrow> Some (Inl (JsonException e))
      | Inr (r, sc) \<Rightarrow> if r < 0 then Some (Inl ExitFailure) else map_option Inr (setup_ctx srt sc))"

section \<open>Properties across components\<close>

text \<open>C40: loading the JSON form of a scene that the format can express and that has a
  sphere or a non-empty mesh, and setting it up, returns: \<open>choose_scene\<close> neither throws
  nor exits nor hangs in \<open>buildBVH\<close>, and renders exactly that scene.\<close>

theorem choose_scene_returns:
  assumes "sort_spec srt" "loadable sc" "bvh_items (objects sc) \<noteq> []"
  shows "\<exists>ctx. choose_scene srt (scene_json sc) = Some (Inr ctx) \<and> ctx_scene ctx = sc"
proof -
  have ld: "json_to_scene (scene_json sc) empty_scene = Inr (0, sc)"
    using assms(2) by (rule json_to_scene_empty)
  obtain t where t: "buildBVH srt (objects sc) = Some t"
    using subdivide_total [OF assms(1,3)] unfolding buildBVH_def by blast
  show ?thesis
    by (simp add: choose_scene_def ld setup_ctx_def t)
qed

lemma choose_scene_returns_witness:
  "sort_spec std_sort \<and> loadable ex_load_scene \<and> bvh_items (objects ex_load_scene) \<noteq> [] \<and>
   (\<exists>ctx. choose_scene std_sort (scene_json ex_load_scene) = Some (Inr ctx) \<and>
          ctx_scene ctx = ex_load_scene)"
proof -
  have l: "loadable ex_load_scene" by (simp add: loadable_def ex_load_scene_def)
  have b: "bvh_items (objects ex_load_scene) \<noteq> []" by (simp add: ex_load_scene_def)
  show ?thesis using choose_scene_returns [OF sort_spec_std_sort l b] sort_spec_std_sort l b by blast
qed

end
